theory Spec2Isabelle
  imports Main "HOL-Library.Word" "HOL-Library.Multiset"
begin

unbundle bit_operations_syntax

section \<open>Common data\<close>

text \<open>
  Byte strings are lists of 8-bit words.  The fixed-size arrays of the common library
  (\<open>common.Address\<close>, \<open>common.PublicHash\<close>, \<open>hash.Hash256\<close>) are byte lists; the
  constant \<open>common.AddressSize\<close> is declared outside the sources at hand and is a
  parameter wherever a key layout depends on it.
\<close>

type_synonym byte = "8 word"
type_synonym bytes = "byte list"
type_synonym Address = "byte list"
type_synonym PublicHash = "byte list"
type_synonym Hash256 = "byte list"

datatype error =
    ErrExceedCandidateCount
  | ErrInsufficientCandidateCount
  | ErrInvalidPhase
  | ErrExistAddress
  | ErrStoreClosed
  | ErrNotExistKey
  | ErrNotExistAccount
  | ErrNotExistUTXO
  | ErrAlreadyGenesised
  | ErrInvalidTxInKey
  | ErrKernelClosed
  | ErrInvalidChainCoord
  | ErrInvalidSignatureCount
  | ErrInvalidTopSignature
  | ErrTxQueueOverflowed
  | ErrProcessingTransaction
  | ErrExistTransaction
  | ErrPastSeq
  | ErrTooFarSeq
  | ErrInvalidUTXO
  | ErrDirtyContext
  | ErrUnexpectedEOF
  | ErrNilPointer
  | ErrOther nat

type_synonym Signature = "byte list"

record Coordinate =
  coord_Height :: "32 word"
  coord_Index :: "16 word"

text \<open>
  The block header (\<open>block.Header\<close> over \<open>chain.Base\<close>), with the fields the spec lists:
  version, height, prev-hash, timestamp, chain-coord, formulator, timeout-count,
  context-hash, level-root-hash.
\<close>

record Header =
  hd_Version :: "16 word"
  hd_Height :: "32 word"
  hd_PrevHash :: Hash256
  hd_Timestamp :: "64 word"
  hd_ChainCoord :: Coordinate
  hd_Formulator :: Address
  hd_TimeoutCount :: "32 word"
  hd_ContextHash :: Hash256
  hd_LevelRootHash :: Hash256

text \<open>
  A transaction is an interface value.  The kernel reads its hash and whether it is an
  account transaction (\<open>From\<close>, \<open>Seq\<close>), a UTXO transaction (\<open>VinIDs\<close>) or neither.
\<close>

datatype TxKind = AccountTx Address "64 word" | UTXOTx "64 word list" | OtherTx

record Transaction =
  tx_Hash :: Hash256
  tx_kind :: TxKind
  tx_payload :: bytes

record Body =
  Transactions :: "Transaction list"
  TransactionSignatures :: "Signature list list"

record ChainData =
  cd_Header :: Header
  cd_Body :: Body
  cd_Signatures :: "Signature list"

text \<open>
  What the ranking engine and the store read of an account of the context data: its type
  tag, its address, for a formulation account its key hash, its name, and the bytes its
  \<open>WriteTo\<close> produces.
\<close>

record Account =
  acc_Type :: byte
  acc_Address :: Address
  acc_KeyHash :: PublicHash
  acc_Name :: bytes
  acc_body :: bytes

record 'am LockedBalance =
  lb_Address :: Address
  lb_Amount :: 'am
  lb_UnlockHeight :: "32 word"

record UTXO =
  utxo_TxIn_ID :: "64 word"
  utxo_TxOut :: bytes

text \<open>An event with its type, its id \<open>event.MarshalID(Coord, Index)\<close> and its serialization.\<close>

record Event =
  ev_Type :: "64 word"
  ev_ID :: "64 word"
  ev_body :: bytes

text \<open>
  \<open>data.ContextData\<close>, with the fields \<open>applyContextData\<close> and the ranking engine
  range over.  A Go map is the association list of its entries, in the order in which
  \<open>range\<close> happens to visit them; the account-data maps are keyed by
  \<open>string(addr) + string(name)\<close>.
\<close>

record 'am ContextData =
  SeqMap :: "(Address \<times> 64 word) list"
  LockedBalances :: "'am LockedBalance list"
  DeletedLockedBalances :: "'am LockedBalance list"
  AccountMap :: "(Address \<times> Account) list"
  CreatedAccountMap :: "(Address \<times> Account) list"
  DeletedAccountMap :: "(Address \<times> Account) list"
  AccountDataMap :: "(bytes \<times> bytes) list"
  DeletedAccountDataMap :: "bytes list"
  UTXOMap :: "(64 word \<times> UTXO) list"
  CreatedUTXOMap :: "(64 word \<times> bytes) list"
  DeletedUTXOMap :: "64 word list"
  Events :: "Event list"

section \<open>Go library functions used by the sources\<close>

text \<open>
  \<open>sort.Search(n, f)\<close>: binary search for the least index in \<open>[0, n)\<close> at which \<open>f\<close>
  holds, \<open>n\<close> when there is none; \<open>h := int(uint(i+j) >> 1)\<close> is the midpoint.
\<close>

function search_loop :: "(nat \<Rightarrow> bool) \<Rightarrow> nat \<Rightarrow> nat \<Rightarrow> nat" where
  "search_loop f i j =
     (if i < j then
        (let h = (i + j) div 2 in
         if \<not> f h then search_loop f (h + 1) j else search_loop f i h)
      else i)"
  by pat_completeness auto
termination
  by (relation "measure (\<lambda>(f, i, j). j - i)") auto

definition sort_Search :: "nat \<Rightarrow> (nat \<Rightarrow> bool) \<Rightarrow> nat" where
  "sort_Search n f = search_loop f 0 n"

text \<open>
  The builtin \<open>copy(dst, src)\<close> overwrites the first \<open>min(len(dst), len(src))\<close> elements
  of \<open>dst\<close> with those of \<open>src\<close> (overlap is handled as by memmove).
\<close>

definition go_copy :: "'a list \<Rightarrow> 'a list \<Rightarrow> 'a list" where
  "go_copy dst src =
     (let n = min (length dst) (length src) in take n src @ drop n dst)"

section \<open>Ranking engine (consensus/consensus.go)\<close>

text \<open>
  Modelled from the spec: the struct \<open>Rank\<close> with its accessors \<open>Phase\<close>, \<open>SetPhase\<close>
  and \<open>Set\<close> is declared outside the sources at hand.  The spec gives its fields:
  (address, public-hash, phase, hash-space); \<open>largestPhase\<close> fixes the phase as uint32.
\<close>

record Rank =
  rank_Address :: Address
  rank_PublicHash :: PublicHash
  rank_phase :: "32 word"
  rank_hashSpace :: Hash256

definition SetPhase :: "Rank \<Rightarrow> 32 word \<Rightarrow> Rank" where
  "SetPhase r p = r\<lparr>rank_phase := p\<rparr>"

definition Set_Rank :: "Rank \<Rightarrow> 32 word \<Rightarrow> Hash256 \<Rightarrow> Rank" where
  "Set_Rank r p h = r\<lparr>rank_phase := p, rank_hashSpace := h\<rparr>"

text \<open>Lexicographic order on byte strings, as \<open>bytes.Compare(a, b) < 0\<close>.\<close>

fun bytes_less :: "bytes \<Rightarrow> bytes \<Rightarrow> bool" where
  "bytes_less [] [] = False"
| "bytes_less [] (y # ys) = True"
| "bytes_less (x # xs) [] = False"
| "bytes_less (x # xs) (y # ys) = (x < y \<or> (x = y \<and> bytes_less xs ys))"

text \<open>
  Modelled from the spec: \<open>Rank.Less\<close> is declared outside the sources at hand.
  ``Ordering: smaller phase first; ties broken by hash-space; further ties by address.''
  The functions below take the comparison as a parameter \<open>lessf\<close>; this definition is the
  instance used when they are evaluated.
\<close>

definition Rank_Less :: "Rank \<Rightarrow> Rank \<Rightarrow> bool" where
  "Rank_Less a b =
     (if rank_phase a = rank_phase b then
        (if rank_hashSpace a = rank_hashSpace b
         then bytes_less (rank_Address a) (rank_Address b)
         else bytes_less (rank_hashSpace a) (rank_hashSpace b))
      else rank_phase a < rank_phase b)"

text \<open>
  \<open>candidates []*Rank\<close> and \<open>rankMap map[common.Address]*Rank\<close> share their \<open>Rank\<close>
  objects.  The model keeps the objects in an explicit store \<open>cs_heap\<close> from references
  to ranks (\<open>cs_next\<close> is the next fresh reference); the list and the map hold
  references.  \<open>ObserverKeyMap\<close> is the association list of the Go map.
\<close>

record Consensus =
  cs_height :: "64 word"
  cs_heap :: "nat \<Rightarrow> Rank"
  cs_next :: nat
  candidates :: "nat list"
  rankMap :: "Address \<rightharpoonup> nat"
  cs_ObserverKeyMap :: "(PublicHash \<times> bool) list"
  FormulationAccountType :: byte

text \<open>
  One rotation of \<open>forwardCandidates\<close>: the head rank \<open>m\<close> is updated in place by
  \<open>upd\<close>, its new position is found by \<open>sort.Search\<close> over \<open>candidates[1:]\<close>, the ranks
  before that position are shifted down by \<open>copy\<close> and \<open>m\<close> is stored at \<open>idx\<close>.
\<close>

definition rotate_head :: "(Rank \<Rightarrow> Rank \<Rightarrow> bool) \<Rightarrow> (Rank \<Rightarrow> Rank) \<Rightarrow> Consensus \<Rightarrow> Consensus" where
  "rotate_head lessf upd cs =
     (let m = candidates cs ! 0;
          heap' = (cs_heap cs)(m := upd (cs_heap cs m));
          idx = sort_Search (length (candidates cs) - 1)
                  (\<lambda>i. lessf (heap' m) (heap' (candidates cs ! (i + 1))));
          shifted = go_copy (candidates cs) (take idx (drop 1 (candidates cs)))
      in cs\<lparr>cs_heap := heap', candidates := shifted[idx := m]\<rparr>)"

text \<open>The loop \<open>for i := 0; i < TimeoutCount; i++\<close> (``increase phase'').\<close>

fun increase_phase :: "(Rank \<Rightarrow> Rank \<Rightarrow> bool) \<Rightarrow> nat \<Rightarrow> Consensus \<Rightarrow> Consensus" where
  "increase_phase lessf 0 cs = cs"
| "increase_phase lessf (Suc n) cs =
     increase_phase lessf n (rotate_head lessf (\<lambda>m. SetPhase m (rank_phase m + 1)) cs)"

text \<open>
  \<open>forwardCandidates(TimeoutCount, LastTableAppendHash)\<close>.  Its only caller passes
  \<open>int(bh.TimeoutCount)\<close> for the header's uint32 field, so the count is a natural
  number.  The receiver is mutated in place; the model returns the state together with
  the error (\<open>None\<close> is \<open>nil\<close>).
\<close>

definition forwardCandidates ::
    "(Rank \<Rightarrow> Rank \<Rightarrow> bool) \<Rightarrow> Consensus \<Rightarrow> nat \<Rightarrow> Hash256 \<Rightarrow> Consensus \<times> error option" where
  "forwardCandidates lessf cs TimeoutCount LastTableAppendHash =
     (if TimeoutCount \<ge> length (candidates cs) then (cs, Some ErrExceedCandidateCount)
      else
        (let cs1 = increase_phase lessf TimeoutCount cs;
             cs2 = rotate_head lessf
                     (\<lambda>top. Set_Rank top (rank_phase top + 1) LastTableAppendHash) cs1
         in (cs2\<lparr>cs_height := cs_height cs2 + 1\<rparr>, None)))"

text \<open>The addresses of the rank table, in table order.\<close>

definition candidate_addresses :: "Consensus \<Rightarrow> Address list" where
  "candidate_addresses cs = map (\<lambda>r. rank_Address (cs_heap cs r)) (candidates cs)"


text \<open>\<open>largestPhase\<close>: the phase of the last candidate, 0 for an empty table.\<close>

definition largestPhase :: "Consensus \<Rightarrow> 32 word" where
  "largestPhase cs =
     (if length (candidates cs) = 0 then 0
      else rank_phase (cs_heap cs (candidates cs ! (length (candidates cs) - 1))))"

text \<open>
  \<open>NewRank\<close> allocates a rank object; the model returns the fresh reference and the
  state whose store holds the object.
\<close>

definition NewRank ::
    "Consensus \<Rightarrow> Address \<Rightarrow> PublicHash \<Rightarrow> 32 word \<Rightarrow> Hash256 \<Rightarrow> nat \<times> Consensus" where
  "NewRank cs addr pubhash phase hashSpace =
     (cs_next cs,
      cs\<lparr>cs_heap := (cs_heap cs)(cs_next cs :=
             \<lparr>rank_Address = addr, rank_PublicHash = pubhash,
              rank_phase = phase, rank_hashSpace = hashSpace\<rparr>),
         cs_next := cs_next cs + 1\<rparr>)"

text \<open>
  \<open>InsertRankToList(ranks, s)\<close>: \<open>append\<close>, then \<open>copy(ranks[idx+1:], ranks[idx:])\<close>,
  then \<open>ranks[idx] = s\<close>.
\<close>

definition InsertRankToList ::
    "(Rank \<Rightarrow> Rank \<Rightarrow> bool) \<Rightarrow> (nat \<Rightarrow> Rank) \<Rightarrow> nat list \<Rightarrow> nat \<Rightarrow> nat list" where
  "InsertRankToList lessf heap ranks s =
     (let idx = sort_Search (length ranks) (\<lambda>i. lessf (heap s) (heap (ranks ! i)));
          ranks1 = ranks @ [s];
          ranks2 = take (idx + 1) ranks1 @ go_copy (drop (idx + 1) ranks1) (drop idx ranks1)
      in ranks2[idx := s])"

definition addRank :: "(Rank \<Rightarrow> Rank \<Rightarrow> bool) \<Rightarrow> Consensus \<Rightarrow> nat \<Rightarrow> Consensus \<times> error option" where
  "addRank lessf cs s =
     (if length (candidates cs) > 0 \<and>
         rank_phase (cs_heap cs s) < rank_phase (cs_heap cs (candidates cs ! 0))
      then (cs, Some ErrInvalidPhase)
      else if rankMap cs (rank_Address (cs_heap cs s)) \<noteq> None
      then (cs, Some ErrExistAddress)
      else (cs\<lparr>candidates := InsertRankToList lessf (cs_heap cs) (candidates cs) s,
               rankMap := (rankMap cs)(rank_Address (cs_heap cs s) \<mapsto> s)\<rparr>, None))"

text \<open>
  \<open>removeRank(addr)\<close>: when the address is in \<open>rankMap\<close> it is deleted from the map,
  and a filtered copy of the table is built in the local variable \<open>candidates\<close>.  The
  function ends there: the local is never stored back into \<open>cs.candidates\<close>.
\<close>

definition removeRank :: "Consensus \<Rightarrow> Address \<Rightarrow> Consensus" where
  "removeRank cs addr =
     (if rankMap cs addr \<noteq> None then
        (let rankMap' = (rankMap cs)(addr := None);
             candidates_local = filter (\<lambda>s. rank_Address (cs_heap cs s) \<noteq> addr) (candidates cs)
         in cs\<lparr>rankMap := rankMap'\<rparr>)
      else cs)"

fun add_created ::
    "(Rank \<Rightarrow> Rank \<Rightarrow> bool) \<Rightarrow> (bytes \<Rightarrow> Hash256) \<Rightarrow> 32 word \<Rightarrow> Consensus \<Rightarrow>
     (Address \<times> Account) list \<Rightarrow> Consensus \<times> error option" where
  "add_created lessf DoubleHash phase cs [] = (cs, None)"
| "add_created lessf DoubleHash phase cs ((k, a) # rest) =
     (if acc_Type a = FormulationAccountType cs then
        (let addr = acc_Address a;
             (s, cs1) = NewRank cs addr (acc_KeyHash a) phase (DoubleHash addr)
         in case addRank lessf cs1 s of
              (cs2, Some err) \<Rightarrow> (cs2, Some err)
            | (cs2, None) \<Rightarrow> add_created lessf DoubleHash phase cs2 rest)
      else add_created lessf DoubleHash phase cs rest)"

fun remove_deleted :: "Consensus \<Rightarrow> (Address \<times> Account) list \<Rightarrow> Consensus" where
  "remove_deleted cs [] = cs"
| "remove_deleted cs ((k, acc) # rest) =
     (if acc_Type acc = FormulationAccountType cs
      then remove_deleted (removeRank cs (acc_Address acc)) rest
      else remove_deleted cs rest)"

text \<open>
  \<open>ApplyGenesis\<close> and \<open>ProcessContext\<close>.  The save-blob both return is built by
  \<open>buildSaveData\<close> from the final state and cannot fail on a \<open>bytes.Buffer\<close>; the model
  returns the state and the error.
\<close>

definition ApplyGenesis ::
    "(Rank \<Rightarrow> Rank \<Rightarrow> bool) \<Rightarrow> (bytes \<Rightarrow> Hash256) \<Rightarrow> Consensus \<Rightarrow>
     'am ContextData \<Rightarrow> Consensus \<times> error option" where
  "ApplyGenesis lessf DoubleHash cs ctd =
     (let phase = largestPhase cs + 1 in
      case add_created lessf DoubleHash phase cs (CreatedAccountMap ctd) of
        (cs1, Some err) \<Rightarrow> (cs1, Some err)
      | (cs1, None) \<Rightarrow> (remove_deleted cs1 (DeletedAccountMap ctd), None))"

definition ProcessContext ::
    "(Rank \<Rightarrow> Rank \<Rightarrow> bool) \<Rightarrow> (bytes \<Rightarrow> Hash256) \<Rightarrow> Consensus \<Rightarrow>
     'am ContextData \<Rightarrow> Hash256 \<Rightarrow> Header \<Rightarrow> Consensus \<times> error option" where
  "ProcessContext lessf DoubleHash cs ctd HeaderHash bh =
     (case forwardCandidates lessf cs (unat (hd_TimeoutCount bh)) HeaderHash of
        (cs0, Some err) \<Rightarrow> (cs0, Some err)
      | (cs0, None) \<Rightarrow>
          (let phase = largestPhase cs0 + 1 in
           case add_created lessf DoubleHash phase cs0 (CreatedAccountMap ctd) of
             (cs1, Some err) \<Rightarrow> (cs1, Some err)
           | (cs1, None) \<Rightarrow> (remove_deleted cs1 (DeletedAccountMap ctd), None)))"

text \<open>\<open>TopRank(TimeoutCount)\<close> returns a copy of the rank at that position.\<close>

definition TopRank :: "Consensus \<Rightarrow> nat \<Rightarrow> error + Rank" where
  "TopRank cs TimeoutCount =
     (if TimeoutCount \<ge> length (candidates cs) then Inl ErrInsufficientCandidateCount
      else Inr (cs_heap cs (candidates cs ! TimeoutCount)))"

text \<open>An empty engine, as \<open>NewConsensus\<close> builds it.\<close>

definition NewConsensus :: "(PublicHash \<times> bool) list \<Rightarrow> byte \<Rightarrow> Consensus" where
  "NewConsensus okm t =
     \<lparr>cs_height = 0,
      cs_heap = (\<lambda>_. \<lparr>rank_Address = [], rank_PublicHash = [], rank_phase = 0, rank_hashSpace = []\<rparr>),
      cs_next = 0, candidates = [], rankMap = Map.empty,
      cs_ObserverKeyMap = okm, FormulationAccountType = t\<rparr>"

section \<open>Codec primitives\<close>

text \<open>
  Modelled from the spec: the integer codecs of \<open>common/util\<close> and
  \<open>encoding/binary.LittleEndian\<close> are declared outside the sources at hand.  The spec
  fixes them as fixed-width little-endian (``height(LE32)'', ``sequence (LE64)'').
  \<open>Uint32\<close> and \<open>Uint64\<close> read the first four or eight bytes; Go panics on a shorter
  slice, which no caller below produces for a row written by the store itself.
\<close>

definition PutUint16 :: "16 word \<Rightarrow> bytes" where
  "PutUint16 v = [ucast v, ucast (drop_bit 8 v)]"

definition Uint16 :: "bytes \<Rightarrow> 16 word" where
  "Uint16 b = ucast (b ! 0) OR push_bit 8 (ucast (b ! 1))"

definition PutUint32 :: "32 word \<Rightarrow> bytes" where
  "PutUint32 v = [ucast v, ucast (drop_bit 8 v), ucast (drop_bit 16 v), ucast (drop_bit 24 v)]"

definition Uint32 :: "bytes \<Rightarrow> 32 word" where
  "Uint32 b = ucast (b ! 0) OR push_bit 8 (ucast (b ! 1)) OR push_bit 16 (ucast (b ! 2))
                OR push_bit 24 (ucast (b ! 3))"

definition PutUint64 :: "64 word \<Rightarrow> bytes" where
  "PutUint64 v =
     [ucast v, ucast (drop_bit 8 v), ucast (drop_bit 16 v), ucast (drop_bit 24 v),
      ucast (drop_bit 32 v), ucast (drop_bit 40 v), ucast (drop_bit 48 v), ucast (drop_bit 56 v)]"

definition Uint64 :: "bytes \<Rightarrow> 64 word" where
  "Uint64 b = ucast (b ! 0) OR push_bit 8 (ucast (b ! 1)) OR push_bit 16 (ucast (b ! 2))
                OR push_bit 24 (ucast (b ! 3)) OR push_bit 32 (ucast (b ! 4))
                OR push_bit 40 (ucast (b ! 5)) OR push_bit 48 (ucast (b ! 6))
                OR push_bit 56 (ucast (b ! 7))"

text \<open>
  A reader consumes a prefix of the remaining input and returns the value with the rest,
  or fails; \<open>read_n\<close> is \<open>util.FillBytes\<close> on a buffer of \<open>n\<close> bytes.
\<close>

type_synonym 'a reader = "bytes \<Rightarrow> error + ('a \<times> bytes)"

definition read_n :: "nat \<Rightarrow> bytes reader" where
  "read_n n bs = (if length bs < n then Inl ErrUnexpectedEOF else Inr (take n bs, drop n bs))"

definition ReadUint16 :: "16 word reader" where
  "ReadUint16 bs = (case read_n 2 bs of Inl e \<Rightarrow> Inl e | Inr (b, rest) \<Rightarrow> Inr (Uint16 b, rest))"

definition ReadUint32 :: "32 word reader" where
  "ReadUint32 bs = (case read_n 4 bs of Inl e \<Rightarrow> Inl e | Inr (b, rest) \<Rightarrow> Inr (Uint32 b, rest))"

definition ReadUint64 :: "64 word reader" where
  "ReadUint64 bs = (case read_n 8 bs of Inl e \<Rightarrow> Inl e | Inr (b, rest) \<Rightarrow> Inr (Uint64 b, rest))"

definition WriteBool :: "bool \<Rightarrow> bytes" where
  "WriteBool b = (if b then [1] else [0])"

definition ReadBool :: "bool reader" where
  "ReadBool bs = (case read_n 1 bs of Inl e \<Rightarrow> Inl e | Inr (b, rest) \<Rightarrow> Inr (b ! 0 = 1, rest))"

section \<open>Store keys (kernel, key helpers)\<close>

definition tagHeightHash :: bytes where "tagHeightHash = [1, 0]"
definition tagHeightHeader :: bytes where "tagHeightHeader = [1, 2]"
definition tagHeightData :: bytes where "tagHeightData = [1, 3]"
definition tagHashHeight :: bytes where "tagHashHeight = [1, 4]"
definition tagAccount :: bytes where "tagAccount = [2, 0]"
definition tagAccountName :: bytes where "tagAccountName = [2, 1]"
definition tagAccountSeq :: bytes where "tagAccountSeq = [2, 2]"
definition tagAccountBalance :: bytes where "tagAccountBalance = [2, 3]"
definition tagAccountData :: bytes where "tagAccountData = [2, 4]"
definition tagUTXO :: bytes where "tagUTXO = [3, 0]"
definition tagCustomData :: bytes where "tagCustomData = [4, 0]"
definition tagEvent :: bytes where "tagEvent = [5, 0]"
definition tagLockedBalance :: bytes where "tagLockedBalance = [6, 0]"
definition tagLockedBalanceHeight :: bytes where "tagLockedBalanceHeight = [6, 1]"

text \<open>
  \<open>make([]byte, n)\<close> is \<open>n\<close> zero bytes; \<open>copy(bs[off:], src)\<close> writes into the slice
  from offset \<open>off\<close>.  Every key helper is \<open>make\<close> followed by such copies.
\<close>

definition make_bytes :: "nat \<Rightarrow> bytes" where
  "make_bytes n = replicate n 0"

definition copy_at :: "nat \<Rightarrow> bytes \<Rightarrow> bytes \<Rightarrow> bytes" where
  "copy_at off dst src = take off dst @ go_copy (drop off dst) src"

definition toHeightDataKey :: "32 word \<Rightarrow> bytes" where
  "toHeightDataKey height = copy_at 2 (copy_at 0 (make_bytes 6) tagHeightData) (PutUint32 height)"

definition toHeightHeaderKey :: "32 word \<Rightarrow> bytes" where
  "toHeightHeaderKey height = copy_at 2 (copy_at 0 (make_bytes 6) tagHeightHeader) (PutUint32 height)"

definition toHeightHashKey :: "32 word \<Rightarrow> bytes" where
  "toHeightHashKey height = copy_at 2 (copy_at 0 (make_bytes 6) tagHeightHash) (PutUint32 height)"

definition toHashHeightKey :: "Hash256 \<Rightarrow> bytes" where
  "toHashHeightKey h = copy_at 2 (copy_at 0 (make_bytes 34) tagHashHeight) h"

definition toAccountKey :: "nat \<Rightarrow> Address \<Rightarrow> bytes" where
  "toAccountKey AddressSize addr = copy_at 2 (copy_at 0 (make_bytes (2 + AddressSize)) tagAccount) addr"

definition toAccountNameKey :: "bytes \<Rightarrow> bytes" where
  "toAccountNameKey Name = copy_at 2 (copy_at 0 (make_bytes (2 + length Name)) tagAccountName) Name"

definition toAccountSeqKey :: "nat \<Rightarrow> Address \<Rightarrow> bytes" where
  "toAccountSeqKey AddressSize addr =
     copy_at 2 (copy_at 0 (make_bytes (2 + AddressSize)) tagAccountSeq) addr"

definition toAccountBalanceKey :: "nat \<Rightarrow> Address \<Rightarrow> bytes" where
  "toAccountBalanceKey AddressSize addr =
     copy_at 2 (copy_at 0 (make_bytes (2 + AddressSize)) tagAccountBalance) addr"

definition toAccountDataKey :: "bytes \<Rightarrow> bytes" where
  "toAccountDataKey key = copy_at 2 (copy_at 0 (make_bytes (2 + length key)) tagAccountData) key"

definition toUTXOKey :: "64 word \<Rightarrow> bytes" where
  "toUTXOKey uid = copy_at 2 (copy_at 0 (make_bytes 10) tagUTXO) (PutUint64 uid)"

definition toCustomData :: "bytes \<Rightarrow> bytes" where
  "toCustomData key = copy_at 2 (copy_at 0 (make_bytes (2 + length key)) tagCustomData) key"

definition toEventKey :: "64 word \<Rightarrow> bytes" where
  "toEventKey eid = copy_at 2 (copy_at 0 (make_bytes 10) tagEvent) (PutUint64 eid)"

definition fromUTXOKey :: "bytes \<Rightarrow> 64 word" where
  "fromUTXOKey bs = Uint64 (drop 2 bs)"

definition toLockedBalancePrefix :: "nat \<Rightarrow> Address \<Rightarrow> bytes" where
  "toLockedBalancePrefix AddressSize Address =
     copy_at 2 (copy_at 0 (make_bytes (2 + AddressSize)) tagLockedBalance) Address"

text \<open>
  \<open>fromLockedBalanceKey\<close> and \<open>fromLockedBalanceHeightKey\<close> copy the address into a zeroed
  array of \<open>AddressSize\<close> bytes and read the height with \<open>util.BytesToUint32\<close>.
\<close>

definition fromLockedBalanceKey :: "nat \<Rightarrow> bytes \<Rightarrow> Address \<times> 32 word" where
  "fromLockedBalanceKey AddressSize bs =
     (go_copy (make_bytes AddressSize) (drop 2 bs), Uint32 (drop (2 + AddressSize) bs))"

definition fromLockedBalanceHeightKey :: "nat \<Rightarrow> bytes \<Rightarrow> Address \<times> 32 word" where
  "fromLockedBalanceHeightKey AddressSize bs =
     (go_copy (make_bytes AddressSize) (drop 6 bs), Uint32 (drop 2 bs))"

definition toLockedBalanceKey :: "nat \<Rightarrow> Address \<Rightarrow> 32 word \<Rightarrow> bytes" where
  "toLockedBalanceKey AddressSize Address UnlockHeight =
     copy_at (2 + AddressSize)
       (copy_at 2 (copy_at 0 (make_bytes (6 + AddressSize)) tagLockedBalance) Address)
       (PutUint32 UnlockHeight)"

text \<open>
  \<open>toLockedBalanceHeightPrefix\<close> and \<open>toLockedBalanceHeightKey\<close> copy
  \<open>tagLockedBalance\<close> as their tag; \<open>tagLockedBalanceHeight\<close> is declared and used by
  no function.
\<close>

definition toLockedBalanceHeightPrefix :: "32 word \<Rightarrow> bytes" where
  "toLockedBalanceHeightPrefix Height =
     copy_at 2 (copy_at 0 (make_bytes 6) tagLockedBalance) (PutUint32 Height)"

definition toLockedBalanceHeightKey :: "nat \<Rightarrow> 32 word \<Rightarrow> Address \<Rightarrow> bytes" where
  "toLockedBalanceHeightKey AddressSize UnlockHeight Address =
     copy_at 6
       (copy_at 2 (copy_at 0 (make_bytes (6 + AddressSize)) tagLockedBalance)
          (PutUint32 UnlockHeight))
       Address"

section \<open>Store (kernel/store.go)\<close>

text \<open>
  The key-value engine holds byte strings under byte strings.  The model keeps the
  committed content as a map; \<open>txn.Set\<close> and \<open>txn.Delete\<close> update it, \<open>txn.Get\<close> reads it
  with \<open>None\<close> for \<open>badger.ErrKeyNotFound\<close>.  Failures of the engine itself (I/O) are
  outside the model.
\<close>

type_synonym kv = "bytes \<rightharpoonup> bytes"

text \<open>
  The \<open>amount\<close> package is declared outside the sources at hand; the store uses
  \<open>NewCoinAmount(0, 0)\<close>, \<open>Add\<close>, \<open>Bytes\<close> and \<open>NewAmountFromBytes\<close>, taken as
  parameters.
\<close>

record 'am AmountOps =
  am_zero :: 'am
  am_Add :: "'am \<Rightarrow> 'am \<Rightarrow> 'am"
  am_Bytes :: "'am \<Rightarrow> bytes"
  am_FromBytes :: "bytes \<Rightarrow> 'am"

text \<open>
  The serializers and deserializers of headers, chain data, accounts, transaction outputs
  and events are methods of interface values declared outside the sources at hand, and so
  is \<open>event.MarshalID\<close>; with \<open>common.AddressSize\<close> they are the parameters of the store.
  The iterator of the engine is a parameter as well: \<open>x_Seek db key\<close> is what
  \<open>it.Seek(key)\<close> followed by \<open>it.Next()\<close> to the end visits, the rows of \<open>db\<close> from \<open>key\<close>
  on in key order.
\<close>

record StoreExt =
  x_AddressSize :: nat
  x_HeaderHash :: "Header \<Rightarrow> Hash256"
  x_HeaderBytes :: "Header \<Rightarrow> bytes"
  x_DataBytes :: "ChainData \<Rightarrow> bytes"
  x_ReadHeader :: "bytes \<Rightarrow> error + Header"
  x_ReadData :: "bytes \<Rightarrow> error + ChainData"
  x_ReadAccount :: "bytes \<Rightarrow> error + Account"
  x_ReadTxOut :: "bytes \<Rightarrow> error + bytes"
  x_ReadEvent :: "bytes \<Rightarrow> error + Event"
  x_MarshalID :: "Coordinate \<Rightarrow> 16 word \<Rightarrow> 64 word"
  x_Seek :: "kv \<Rightarrow> bytes \<Rightarrow> (bytes \<times> bytes) list"

record storeCache =
  cached :: bool
  cache_height :: "32 word"
  cache_heightHash :: Hash256
  cache_heightData :: "ChainData option"

record Store =
  st_db :: kv
  st_SeqMap :: "Address \<rightharpoonup> 64 word"
  st_cache :: storeCache
  st_isClose :: bool

text \<open>The key \<open>[]byte("height")\<close>.\<close>

definition height_key :: bytes where
  "height_key = [104, 101, 105, 103, 104, 116]"

text \<open>
  \<open>Close\<close> sets \<open>isClose\<close> and releases the engine handle and the ticker; what is on disk
  stays, and every later access to it is behind the \<open>isClose\<close> guard.
\<close>

definition Close :: "Store \<Rightarrow> Store" where
  "Close st = st\<lparr>st_isClose := True\<rparr>"

definition Height :: "Store \<Rightarrow> 32 word" where
  "Height st =
     (if st_isClose st then 0
      else if cached (st_cache st) then cache_height (st_cache st)
      else (case st_db st height_key of None \<Rightarrow> 0 | Some v \<Rightarrow> Uint32 v))"

definition Hash :: "Store \<Rightarrow> 32 word \<Rightarrow> error + Hash256" where
  "Hash st height =
     (if st_isClose st then Inl ErrStoreClosed
      else if cached (st_cache st) \<and> cache_height (st_cache st) = height
      then Inr (cache_heightHash (st_cache st))
      else (case st_db st (toHeightHashKey height) of
              None \<Rightarrow> Inl ErrNotExistKey
            | Some v \<Rightarrow> (case read_n 32 v of Inl e \<Rightarrow> Inl e | Inr (h, rest) \<Rightarrow> Inr h)))"

text \<open>
  \<open>Header\<close> and \<open>Data\<close> answer from the cache slot when it holds the height asked for;
  \<open>cache.heightData\<close> is a pointer, \<open>nil\<close> after \<open>StoreGenesis\<close>.
\<close>

definition Header :: "StoreExt \<Rightarrow> Store \<Rightarrow> 32 word \<Rightarrow> error + Header" where
  "Header X st height =
     (if st_isClose st then Inl ErrStoreClosed
      else if height < 1 then Inl ErrNotExistKey
      else if cached (st_cache st) \<and> cache_height (st_cache st) = height
      then (case cache_heightData (st_cache st) of
              None \<Rightarrow> Inl ErrNilPointer | Some cd \<Rightarrow> Inr (cd_Header cd))
      else (case st_db st (toHeightHeaderKey height) of
              None \<Rightarrow> Inl ErrNotExistKey
            | Some v \<Rightarrow> x_ReadHeader X v))"

definition Data :: "StoreExt \<Rightarrow> Store \<Rightarrow> 32 word \<Rightarrow> error + ChainData" where
  "Data X st height =
     (if st_isClose st then Inl ErrStoreClosed
      else if height < 1 then Inl ErrNotExistKey
      else if cached (st_cache st) \<and> cache_height (st_cache st) = height
      then (case cache_heightData (st_cache st) of
              None \<Rightarrow> Inl ErrNilPointer | Some cd \<Rightarrow> Inr cd)
      else (case st_db st (toHeightDataKey height) of
              None \<Rightarrow> Inl ErrNotExistKey
            | Some v \<Rightarrow> x_ReadData X v))"

text \<open>\<open>Seq\<close> fills the hot sequence cache on a miss, so it returns the store as well.\<close>

definition Seq :: "StoreExt \<Rightarrow> Store \<Rightarrow> Address \<Rightarrow> 64 word \<times> Store" where
  "Seq X st addr =
     (if st_isClose st then (0, st)
      else (case st_SeqMap st addr of
              Some seq \<Rightarrow> (seq, st)
            | None \<Rightarrow>
                (case st_db st (toAccountSeqKey (x_AddressSize X) addr) of
                   None \<Rightarrow> (0, st)
                 | Some v \<Rightarrow> (Uint64 v, st\<lparr>st_SeqMap := (st_SeqMap st)(addr \<mapsto> Uint64 v)\<rparr>))))"

definition Account :: "StoreExt \<Rightarrow> Store \<Rightarrow> Address \<Rightarrow> error + Account" where
  "Account X st addr =
     (if st_isClose st then Inl ErrStoreClosed
      else (case st_db st (toAccountKey (x_AddressSize X) addr) of
              None \<Rightarrow> Inl ErrNotExistAccount
            | Some v \<Rightarrow> x_ReadAccount X v))"

text \<open>\<open>AccountData\<close> and \<open>CustomData\<close> return a byte slice, \<open>nil\<close> (\<open>None\<close>) for no value.\<close>

definition AccountData :: "Store \<Rightarrow> Address \<Rightarrow> bytes \<Rightarrow> bytes option" where
  "AccountData st addr name =
     (if st_isClose st then None
      else st_db st (toAccountDataKey (addr @ name)))"

definition IsExistUTXO :: "Store \<Rightarrow> 64 word \<Rightarrow> error + bool" where
  "IsExistUTXO st uid =
     (if st_isClose st then Inl ErrStoreClosed
      else (case st_db st (toUTXOKey uid) of None \<Rightarrow> Inr False | Some v \<Rightarrow> Inr True))"

definition UTXO_of :: "StoreExt \<Rightarrow> Store \<Rightarrow> 64 word \<Rightarrow> error + UTXO" where
  "UTXO_of X st uid =
     (if st_isClose st then Inl ErrStoreClosed
      else (case st_db st (toUTXOKey uid) of
              None \<Rightarrow> Inl ErrNotExistUTXO
            | Some v \<Rightarrow>
                (case x_ReadTxOut X v of
                   Inl e \<Rightarrow> Inl e
                 | Inr out \<Rightarrow> Inr \<lparr>utxo_TxIn_ID = uid, utxo_TxOut = out\<rparr>)))"

definition CustomData :: "Store \<Rightarrow> bytes \<Rightarrow> bytes option" where
  "CustomData st key =
     (if st_isClose st then None
      else st_db st (toCustomData key))"

subsection \<open>Reads that scan\<close>

text \<open>
  The loop \<open>for it.Seek(a); it.ValidForPrefix(b); it.Next()\<close> visits the rows from \<open>a\<close> on
  for as long as their key has the prefix \<open>b\<close>.
\<close>

definition has_prefix :: "bytes \<Rightarrow> bytes \<Rightarrow> bool" where
  "has_prefix p key = (take (length p) key = p)"

definition iterate :: "StoreExt \<Rightarrow> kv \<Rightarrow> bytes \<Rightarrow> bytes \<Rightarrow> (bytes \<times> bytes) list" where
  "iterate X db a b = takeWhile (\<lambda>(key, val). has_prefix b key) (x_Seek X db a)"

text \<open>A loop that appends one decoded value per row and returns at the first error.\<close>

fun collect :: "('a \<Rightarrow> error + 'b) \<Rightarrow> 'a list \<Rightarrow> 'b list \<Rightarrow> error + 'b list" where
  "collect f [] list = Inr list"
| "collect f (x # xs) list =
     (case f x of Inl err \<Rightarrow> Inl err | Inr y \<Rightarrow> collect f xs (list @ [y]))"

definition Accounts :: "StoreExt \<Rightarrow> Store \<Rightarrow> error + Account list" where
  "Accounts X st =
     (if st_isClose st then Inl ErrStoreClosed
      else collect (\<lambda>(key, val). x_ReadAccount X val)
             (iterate X (st_db st) tagAccount tagAccount) [])"

definition LockedBalances_st ::
    "'am AmountOps \<Rightarrow> StoreExt \<Rightarrow> Store \<Rightarrow> Address \<Rightarrow> error + 'am LockedBalance list" where
  "LockedBalances_st ops X st addr =
     (if st_isClose st then Inl ErrStoreClosed
      else
        (let prefix = toLockedBalancePrefix (x_AddressSize X) addr in
         Inr (map (\<lambda>(key, val).
                     (let (Address, UnlockHeight) = fromLockedBalanceKey (x_AddressSize X) key
                      in \<lparr>lb_Address = Address, lb_Amount = am_FromBytes ops val,
                          lb_UnlockHeight = UnlockHeight\<rparr>))
                (iterate X (st_db st) prefix prefix))))"

definition LockedBalancesByHeight ::
    "'am AmountOps \<Rightarrow> StoreExt \<Rightarrow> Store \<Rightarrow> 32 word \<Rightarrow> error + 'am LockedBalance list" where
  "LockedBalancesByHeight ops X st Height' =
     (if st_isClose st then Inl ErrStoreClosed
      else
        (let prefix = toLockedBalanceHeightPrefix Height' in
         Inr (map (\<lambda>(key, val).
                     (let (Address, UnlockHeight) = fromLockedBalanceHeightKey (x_AddressSize X) key
                      in \<lparr>lb_Address = Address, lb_Amount = am_FromBytes ops val,
                          lb_UnlockHeight = UnlockHeight\<rparr>))
                (iterate X (st_db st) prefix prefix))))"

definition AddressByName :: "StoreExt \<Rightarrow> Store \<Rightarrow> bytes \<Rightarrow> error + Address" where
  "AddressByName X st Name =
     (if st_isClose st then Inl ErrStoreClosed
      else (case st_db st (toAccountNameKey Name) of
              None \<Rightarrow> Inl ErrNotExistAccount
            | Some v \<Rightarrow>
                (case read_n (x_AddressSize X) v of Inl e \<Rightarrow> Inl e | Inr (addr, rest) \<Rightarrow> Inr addr)))"

definition IsExistAccount :: "StoreExt \<Rightarrow> Store \<Rightarrow> Address \<Rightarrow> error + bool" where
  "IsExistAccount X st addr =
     (if st_isClose st then Inl ErrStoreClosed
      else (case st_db st (toAccountKey (x_AddressSize X) addr) of
              None \<Rightarrow> Inr False | Some v \<Rightarrow> Inr True))"

definition IsExistAccountName :: "Store \<Rightarrow> bytes \<Rightarrow> error + bool" where
  "IsExistAccountName st Name =
     (if st_isClose st then Inl ErrStoreClosed
      else (case st_db st (toAccountNameKey Name) of None \<Rightarrow> Inr False | Some v \<Rightarrow> Inr True))"

definition AccountDataKeys :: "StoreExt \<Rightarrow> Store \<Rightarrow> Address \<Rightarrow> bytes \<Rightarrow> error + bytes list" where
  "AccountDataKeys X st addr Prefix =
     (if st_isClose st then Inl ErrStoreClosed
      else
        (let pre0 = toAccountDataKey addr;
             pre = (if length Prefix > 0 then pre0 @ Prefix else pre0)
         in Inr (map (\<lambda>(key, val). drop (length pre) key) (iterate X (st_db st) pre pre))))"

definition UTXOs :: "StoreExt \<Rightarrow> Store \<Rightarrow> error + UTXO list" where
  "UTXOs X st =
     (if st_isClose st then Inl ErrStoreClosed
      else collect (\<lambda>(key, val).
                      case x_ReadTxOut X val of
                        Inl e \<Rightarrow> Inl e
                      | Inr out \<Rightarrow> Inr \<lparr>utxo_TxIn_ID = fromUTXOKey key, utxo_TxOut = out\<rparr>)
             (iterate X (st_db st) tagUTXO tagUTXO) [])"

text \<open>
  \<open>Events(From, To)\<close> seeks to the key of the first id of height \<open>From\<close> and goes on while
  the key has the key of the last id of height \<open>To\<close> as its prefix.
\<close>

definition Events_st :: "StoreExt \<Rightarrow> Store \<Rightarrow> 32 word \<Rightarrow> 32 word \<Rightarrow> error + Event list" where
  "Events_st X st From To =
     (if st_isClose st then Inl ErrStoreClosed
      else
        (let tagBegin = toEventKey (x_MarshalID X \<lparr>coord_Height = From, coord_Index = 0\<rparr> 0);
             tagEnd = toEventKey (x_MarshalID X \<lparr>coord_Height = To, coord_Index = 65535\<rparr> 65535)
         in collect (\<lambda>(key, val). x_ReadEvent X val) (iterate X (st_db st) tagBegin tagEnd) []))"

subsection \<open>The public reads\<close>

text \<open>
  Every method of \<open>Store\<close> that reads the store behind the \<open>isClose\<close> guard, and what its
  caller gets back: the error it returns, or its value.  A function whose Go signature has
  no error result can only return a value.
\<close>

datatype read_op =
    OpHeight
  | OpHash "32 word"
  | OpHeader "32 word"
  | OpData "32 word"
  | OpAccounts
  | OpSeq Address
  | OpLockedBalances Address
  | OpLockedBalancesByHeight "32 word"
  | OpAccount Address
  | OpAddressByName bytes
  | OpIsExistAccount Address
  | OpIsExistAccountName bytes
  | OpAccountDataKeys Address bytes
  | OpAccountData Address bytes
  | OpUTXOs
  | OpIsExistUTXO "64 word"
  | OpUTXO "64 word"
  | OpCustomData bytes
  | OpEvents "32 word" "32 word"

datatype 'am read_result =
    Rejected error
  | Uint32Value "32 word"
  | Uint64Value "64 word"
  | HashValue Hash256
  | HeaderValue Header
  | DataValue ChainData
  | AccountValue Account
  | AccountsValue "Account list"
  | LockedBalancesValue "'am LockedBalance list"
  | AddressValue Address
  | KeysValue "bytes list"
  | BytesValue "bytes option"
  | UTXOValue UTXO
  | UTXOsValue "UTXO list"
  | EventsValue "Event list"
  | BoolValue bool

fun perform_read :: "'am AmountOps \<Rightarrow> StoreExt \<Rightarrow> Store \<Rightarrow> read_op \<Rightarrow> 'am read_result" where
  "perform_read ops X st OpHeight = Uint32Value (Height st)"
| "perform_read ops X st (OpHash h) =
     (case Hash st h of Inl e \<Rightarrow> Rejected e | Inr v \<Rightarrow> HashValue v)"
| "perform_read ops X st (OpHeader h) =
     (case Header X st h of Inl e \<Rightarrow> Rejected e | Inr v \<Rightarrow> HeaderValue v)"
| "perform_read ops X st (OpData h) =
     (case Data X st h of Inl e \<Rightarrow> Rejected e | Inr v \<Rightarrow> DataValue v)"
| "perform_read ops X st OpAccounts =
     (case Accounts X st of Inl e \<Rightarrow> Rejected e | Inr v \<Rightarrow> AccountsValue v)"
| "perform_read ops X st (OpSeq a) = Uint64Value (fst (Seq X st a))"
| "perform_read ops X st (OpLockedBalances a) =
     (case LockedBalances_st ops X st a of Inl e \<Rightarrow> Rejected e | Inr v \<Rightarrow> LockedBalancesValue v)"
| "perform_read ops X st (OpLockedBalancesByHeight h) =
     (case LockedBalancesByHeight ops X st h of
        Inl e \<Rightarrow> Rejected e | Inr v \<Rightarrow> LockedBalancesValue v)"
| "perform_read ops X st (OpAccount a) =
     (case Account X st a of Inl e \<Rightarrow> Rejected e | Inr v \<Rightarrow> AccountValue v)"
| "perform_read ops X st (OpAddressByName n) =
     (case AddressByName X st n of Inl e \<Rightarrow> Rejected e | Inr v \<Rightarrow> AddressValue v)"
| "perform_read ops X st (OpIsExistAccount a) =
     (case IsExistAccount X st a of Inl e \<Rightarrow> Rejected e | Inr v \<Rightarrow> BoolValue v)"
| "perform_read ops X st (OpIsExistAccountName n) =
     (case IsExistAccountName st n of Inl e \<Rightarrow> Rejected e | Inr v \<Rightarrow> BoolValue v)"
| "perform_read ops X st (OpAccountDataKeys a pre) =
     (case AccountDataKeys X st a pre of Inl e \<Rightarrow> Rejected e | Inr v \<Rightarrow> KeysValue v)"
| "perform_read ops X st (OpAccountData a n) = BytesValue (AccountData st a n)"
| "perform_read ops X st OpUTXOs =
     (case UTXOs X st of Inl e \<Rightarrow> Rejected e | Inr v \<Rightarrow> UTXOsValue v)"
| "perform_read ops X st (OpIsExistUTXO i) =
     (case IsExistUTXO st i of Inl e \<Rightarrow> Rejected e | Inr v \<Rightarrow> BoolValue v)"
| "perform_read ops X st (OpUTXO i) =
     (case UTXO_of X st i of Inl e \<Rightarrow> Rejected e | Inr v \<Rightarrow> UTXOValue v)"
| "perform_read ops X st (OpCustomData k) = BytesValue (CustomData st k)"
| "perform_read ops X st (OpEvents From To) =
     (case Events_st X st From To of Inl e \<Rightarrow> Rejected e | Inr v \<Rightarrow> EventsValue v)"

text \<open>
  The reads whose Go signature has an error result: all but \<open>Height\<close>, \<open>Seq\<close>,
  \<open>AccountData\<close> and \<open>CustomData\<close>.
\<close>

fun returns_error :: "read_op \<Rightarrow> bool" where
  "returns_error OpHeight = False"
| "returns_error (OpSeq a) = False"
| "returns_error (OpAccountData a n) = False"
| "returns_error (OpCustomData k) = False"
| "returns_error op = True"

subsection \<open>Writing a context into the store\<close>

text \<open>The loops of \<open>applyContextData\<close>, one function each, in the order of the source.\<close>

fun apply_SeqMap :: "nat \<Rightarrow> kv \<Rightarrow> (Address \<times> 64 word) list \<Rightarrow> kv" where
  "apply_SeqMap n db [] = db"
| "apply_SeqMap n db ((k, v) # rest) = apply_SeqMap n (db(toAccountSeqKey n k \<mapsto> PutUint64 v)) rest"

text \<open>
  For each locked balance the running sum is read from the address-indexed row (zero when
  the row is missing), and \<open>AmountSum.Add(v.Amount).Bytes()\<close> is written under
  \<open>toLockedBalanceKey\<close> and under \<open>toLockedBalanceHeightKey\<close>.
\<close>

fun apply_LockedBalances :: "'am AmountOps \<Rightarrow> nat \<Rightarrow> kv \<Rightarrow> 'am LockedBalance list \<Rightarrow> kv" where
  "apply_LockedBalances ops n db [] = db"
| "apply_LockedBalances ops n db (v # rest) =
     (let AmountSum =
            (case db (toLockedBalanceKey n (lb_Address v) (lb_UnlockHeight v)) of
               None \<Rightarrow> am_zero ops
             | Some val \<Rightarrow> am_FromBytes ops val);
          db1 = db(toLockedBalanceKey n (lb_Address v) (lb_UnlockHeight v)
                     \<mapsto> am_Bytes ops (am_Add ops AmountSum (lb_Amount v)));
          db2 = db1(toLockedBalanceHeightKey n (lb_UnlockHeight v) (lb_Address v)
                     \<mapsto> am_Bytes ops (am_Add ops AmountSum (lb_Amount v)))
      in apply_LockedBalances ops n db2 rest)"

fun apply_DeletedLockedBalances :: "nat \<Rightarrow> kv \<Rightarrow> 'am LockedBalance list \<Rightarrow> kv" where
  "apply_DeletedLockedBalances n db [] = db"
| "apply_DeletedLockedBalances n db (v # rest) =
     (let db1 = db(toLockedBalanceKey n (lb_Address v) (lb_UnlockHeight v) := None);
          db2 = db1(toLockedBalanceHeightKey n (lb_UnlockHeight v) (lb_Address v) := None)
      in apply_DeletedLockedBalances n db2 rest)"

fun apply_AccountMap :: "nat \<Rightarrow> kv \<Rightarrow> (Address \<times> Account) list \<Rightarrow> kv" where
  "apply_AccountMap n db [] = db"
| "apply_AccountMap n db ((k, v) # rest) =
     (let db1 = db(toAccountKey n k \<mapsto> acc_Type v # acc_body v);
          db2 = db1(toAccountNameKey (acc_Name v) \<mapsto> k)
      in apply_AccountMap n db2 rest)"

fun apply_CreatedAccountMap :: "nat \<Rightarrow> kv \<Rightarrow> (Address \<times> Account) list \<Rightarrow> kv" where
  "apply_CreatedAccountMap n db [] = db"
| "apply_CreatedAccountMap n db ((k, v) # rest) =
     apply_CreatedAccountMap n (db(toAccountKey n k \<mapsto> acc_Type v # acc_body v)) rest"

text \<open>
  A deleted account loses its account row, its balance row and, by a prefix scan, every
  account-data row under \<open>toAccountDataKey(string(k[:]))\<close>.
\<close>

definition delete_prefix :: "bytes \<Rightarrow> kv \<Rightarrow> kv" where
  "delete_prefix p db = (\<lambda>key. if take (length p) key = p then None else db key)"

fun apply_DeletedAccountMap :: "nat \<Rightarrow> kv \<Rightarrow> (Address \<times> Account) list \<Rightarrow> kv" where
  "apply_DeletedAccountMap n db [] = db"
| "apply_DeletedAccountMap n db ((k, v) # rest) =
     (let db1 = db(toAccountKey n k := None);
          db2 = db1(toAccountBalanceKey n k := None);
          db3 = delete_prefix (toAccountDataKey k) db2
      in apply_DeletedAccountMap n db3 rest)"

fun apply_AccountDataMap :: "kv \<Rightarrow> (bytes \<times> bytes) list \<Rightarrow> kv" where
  "apply_AccountDataMap db [] = db"
| "apply_AccountDataMap db ((k, v) # rest) = apply_AccountDataMap (db(toAccountDataKey k \<mapsto> v)) rest"

fun apply_DeletedAccountDataMap :: "kv \<Rightarrow> bytes list \<Rightarrow> kv" where
  "apply_DeletedAccountDataMap db [] = db"
| "apply_DeletedAccountDataMap db (k # rest) =
     apply_DeletedAccountDataMap (db(toAccountDataKey k := None)) rest"

fun apply_UTXOMap :: "kv \<Rightarrow> (64 word \<times> UTXO) list \<Rightarrow> error + kv" where
  "apply_UTXOMap db [] = Inr db"
| "apply_UTXOMap db ((k, v) # rest) =
     (if utxo_TxIn_ID v \<noteq> k then Inl ErrInvalidTxInKey
      else apply_UTXOMap (db(toUTXOKey k \<mapsto> utxo_TxOut v)) rest)"

fun apply_CreatedUTXOMap :: "kv \<Rightarrow> (64 word \<times> bytes) list \<Rightarrow> kv" where
  "apply_CreatedUTXOMap db [] = db"
| "apply_CreatedUTXOMap db ((k, v) # rest) = apply_CreatedUTXOMap (db(toUTXOKey k \<mapsto> v)) rest"

fun apply_DeletedUTXOMap :: "kv \<Rightarrow> 64 word list \<Rightarrow> kv" where
  "apply_DeletedUTXOMap db [] = db"
| "apply_DeletedUTXOMap db (k # rest) = apply_DeletedUTXOMap (db(toUTXOKey k := None)) rest"

fun apply_Events :: "kv \<Rightarrow> Event list \<Rightarrow> kv" where
  "apply_Events db [] = db"
| "apply_Events db (v # rest) =
     apply_Events (db(toEventKey (ev_ID v) \<mapsto> PutUint64 (ev_Type v) @ ev_body v)) rest"

definition applyContextData :: "'am AmountOps \<Rightarrow> nat \<Rightarrow> kv \<Rightarrow> 'am ContextData \<Rightarrow> error + kv" where
  "applyContextData ops n db ctd =
     (let db1 = apply_SeqMap n db (SeqMap ctd);
          db2 = apply_LockedBalances ops n db1 (LockedBalances ctd);
          db3 = apply_DeletedLockedBalances n db2 (DeletedLockedBalances ctd);
          db4 = apply_AccountMap n db3 (AccountMap ctd);
          db5 = apply_CreatedAccountMap n db4 (CreatedAccountMap ctd);
          db6 = apply_DeletedAccountMap n db5 (DeletedAccountMap ctd);
          db7 = apply_AccountDataMap db6 (AccountDataMap ctd);
          db8 = apply_DeletedAccountDataMap db7 (DeletedAccountDataMap ctd)
      in case apply_UTXOMap db8 (UTXOMap ctd) of
           Inl e \<Rightarrow> Inl e
         | Inr db9 \<Rightarrow>
             (let db10 = apply_CreatedUTXOMap db9 (CreatedUTXOMap ctd);
                  db11 = apply_DeletedUTXOMap db10 (DeletedUTXOMap ctd)
              in Inr (apply_Events db11 (Events ctd))))"

fun apply_customHash :: "kv \<Rightarrow> (bytes \<times> bytes) list \<Rightarrow> kv" where
  "apply_customHash db [] = db"
| "apply_customHash db ((k, v) # rest) = apply_customHash (db(toCustomData k \<mapsto> v)) rest"

text \<open>
  \<open>StoreGenesis\<close>.  The writes run in one transaction: on an error nothing is committed
  and the store is as before.  The guard is \<open>st.Height() > 0\<close>.
\<close>

definition StoreGenesis ::
    "'am AmountOps \<Rightarrow> StoreExt \<Rightarrow> Store \<Rightarrow> Hash256 \<Rightarrow> 'am ContextData \<Rightarrow> (bytes \<times> bytes) list \<Rightarrow>
     Store \<times> error option" where
  "StoreGenesis ops X st genHash ctd customHash =
     (if st_isClose st then (st, Some ErrStoreClosed)
      else if Height st > 0 then (st, Some ErrAlreadyGenesised)
      else
        (let db1 = (st_db st)(toHeightHashKey 0 \<mapsto> genHash);
             bsHeight = PutUint32 0;
             db2 = db1(toHashHeightKey genHash \<mapsto> bsHeight);
             db3 = db2(height_key \<mapsto> bsHeight)
         in case applyContextData ops (x_AddressSize X) db3 ctd of
              Inl e \<Rightarrow> (st, Some e)
            | Inr db4 \<Rightarrow>
                (st\<lparr>st_db := apply_customHash db4 customHash,
                    st_cache := \<lparr>cached = True, cache_height = 0,
                                 cache_heightHash = genHash, cache_heightData = None\<rparr>\<rparr>,
                 None)))"

definition StoreData ::
    "'am AmountOps \<Rightarrow> StoreExt \<Rightarrow> Store \<Rightarrow> ChainData \<Rightarrow> 'am ContextData \<Rightarrow> (bytes \<times> bytes) list \<Rightarrow>
     Store \<times> error option" where
  "StoreData ops X st cd ctd customHash =
     (if st_isClose st then (st, Some ErrStoreClosed)
      else
        (let DataHash = x_HeaderHash X (cd_Header cd);
             db1 = (st_db st)(toHeightDataKey (hd_Height (cd_Header cd)) \<mapsto> x_DataBytes X cd);
             db2 = db1(toHeightHeaderKey (hd_Height (cd_Header cd)) \<mapsto> x_HeaderBytes X (cd_Header cd));
             db3 = db2(toHeightHashKey (hd_Height (cd_Header cd)) \<mapsto> DataHash);
             bsHeight = PutUint32 (hd_Height (cd_Header cd));
             db4 = db3(toHashHeightKey DataHash \<mapsto> bsHeight);
             db5 = db4(height_key \<mapsto> bsHeight)
         in case applyContextData ops (x_AddressSize X) db5 ctd of
              Inl e \<Rightarrow> (st, Some e)
            | Inr db6 \<Rightarrow>
                (st\<lparr>st_db := apply_customHash db6 customHash,
                    st_SeqMap := fold (\<lambda>(k, v) m. m(k \<mapsto> v)) (SeqMap ctd) (st_SeqMap st),
                    st_cache := \<lparr>cached = True, cache_height = hd_Height (cd_Header cd),
                                 cache_heightHash = DataHash, cache_heightData = Some cd\<rparr>\<rparr>,
                 None)))"

section \<open>Kernel (kernel/kernel.go)\<close>

text \<open>
  An item of the transaction pool, with the fields \<open>GenerateBlock\<close> reads.
\<close>

record PoolItem =
  item_Transaction :: Transaction
  item_TxHash :: Hash256
  item_Signatures :: "Signature list"

text \<open>
  The handlers of \<open>EventHandler\<close> that can stop the kernel: \<open>OnProcessBlock\<close> and
  \<open>OnPushTransaction\<close> return an error.  The other handlers return nothing to it.
\<close>

record 'ctx EventHandler =
  eh_OnProcessBlock :: "ChainData \<Rightarrow> 'ctx \<Rightarrow> error option"
  eh_OnPushTransaction :: "Transaction \<Rightarrow> Signature list \<Rightarrow> error option"

text \<open>
  What the kernel calls outside the sources at hand: signature recovery and the majority
  check of the common library, the hash of a signed header, the transactor, the evaluation
  of a block into a \<open>data.Context\<close> (\<open>contextByBlock\<close> runs on the context package), the
  accessors of a context, the rewarder, the transaction pool, the expire queue, the
  level-root fold and the consensus save-blob.
\<close>

record ('ctx, 'pool, 'queue, 'am) KernelExt =
  k_StoreExt :: StoreExt
  k_AmountOps :: "'am AmountOps"
  k_Less :: "Rank \<Rightarrow> Rank \<Rightarrow> bool"
  k_DoubleHash :: "bytes \<Rightarrow> Hash256"
  k_SignedHash :: "Hash256 \<Rightarrow> Signature \<Rightarrow> Hash256"
  k_RecoverPubkey :: "Hash256 \<Rightarrow> Signature \<Rightarrow> error + bytes"
  k_NewPublicHash :: "bytes \<Rightarrow> PublicHash"
  k_ValidateSignaturesMajority ::
    "Hash256 \<Rightarrow> Signature list \<Rightarrow> (PublicHash \<times> bool) list \<Rightarrow> error option"
  k_Validate :: "Store \<Rightarrow> Transaction \<Rightarrow> PublicHash list \<Rightarrow> error option"
  k_Execute :: "'ctx \<Rightarrow> Transaction \<Rightarrow> Coordinate \<Rightarrow> 'ctx \<times> error option"
  k_contextByBlock ::
    "Store \<Rightarrow> (Hash256 \<rightharpoonup> PublicHash list) \<Rightarrow> Header \<Rightarrow> Body \<Rightarrow> error + 'ctx"
  k_ctx_Top :: "'ctx \<Rightarrow> 'am ContextData"
  k_ctx_TargetHeight :: "'ctx \<Rightarrow> 32 word"
  k_ctx_LastHash :: "'ctx \<Rightarrow> Hash256"
  k_ctx_ChainCoord :: "'ctx \<Rightarrow> Coordinate"
  k_ctx_StackSize :: "'ctx \<Rightarrow> nat"
  k_ctx_Hash :: "'ctx \<Rightarrow> Hash256"
  k_ProcessReward :: "Address \<Rightarrow> 'ctx \<Rightarrow> error + ('ctx \<times> bytes)"
  k_buildSaveData :: "Consensus \<Rightarrow> bytes"
  k_pool_IsExist :: "'pool \<Rightarrow> Hash256 \<Rightarrow> bool"
  k_pool_Push :: "'pool \<Rightarrow> Transaction \<Rightarrow> Signature list \<Rightarrow> error + 'pool"
  k_pool_Remove :: "'pool \<Rightarrow> Hash256 \<Rightarrow> Transaction \<Rightarrow> 'pool"
  k_pool_UnsafePop :: "'pool \<Rightarrow> 'ctx \<Rightarrow> PoolItem option \<times> 'pool"
  k_queue_Size :: "'queue \<Rightarrow> nat"
  k_queue_Push :: "'queue \<Rightarrow> bytes \<Rightarrow> Transaction \<Rightarrow> Signature list \<Rightarrow> 'queue"
  k_queue_Remove :: "'queue \<Rightarrow> bytes \<Rightarrow> 'queue"
  k_BuildLevelRoot :: "Hash256 list \<Rightarrow> error + Hash256"

record ('ctx, 'pool, 'queue) Kernel =
  kn_ChainCoord :: Coordinate
  kn_ObserverKeyMap :: "(PublicHash \<times> bool) list"
  kn_MaxTransactionsPerBlock :: int
  kn_Version :: "16 word"
  kn_store :: Store
  kn_cs :: Consensus
  kn_txPool :: 'pool
  kn_txQueue :: 'queue
  txWorkingMap :: "Hash256 \<rightharpoonup> bool"
  txSignersMap :: "Hash256 \<rightharpoonup> PublicHash list"
  kn_eventHandlers :: "'ctx EventHandler list"
  kn_isClose :: bool

text \<open>\<open>Close\<close> of the kernel sets the close flag and closes the store.\<close>

definition Kernel_Close :: "('ctx, 'pool, 'queue) Kernel \<Rightarrow> ('ctx, 'pool, 'queue) Kernel" where
  "Kernel_Close kn = kn\<lparr>kn_isClose := True, kn_store := Close (kn_store kn)\<rparr>"

text \<open>\<open>len(m)\<close> of a Go map given as an association list: the number of its keys.\<close>

definition map_len :: "('k \<times> 'v) list \<Rightarrow> nat" where
  "map_len m = length (remdups (map fst m))"


text \<open>The first error among the \<open>OnProcessBlock\<close> and \<open>OnPushTransaction\<close> handlers.\<close>

fun run_OnProcessBlock :: "'ctx EventHandler list \<Rightarrow> ChainData \<Rightarrow> 'ctx \<Rightarrow> error option" where
  "run_OnProcessBlock [] cd ctx = None"
| "run_OnProcessBlock (eh # rest) cd ctx =
     (case eh_OnProcessBlock eh cd ctx of
        Some err \<Rightarrow> Some err
      | None \<Rightarrow> run_OnProcessBlock rest cd ctx)"

fun run_OnPushTransaction :: "'ctx EventHandler list \<Rightarrow> Transaction \<Rightarrow> Signature list \<Rightarrow> error option" where
  "run_OnPushTransaction [] tx sigs = None"
| "run_OnPushTransaction (eh # rest) tx sigs =
     (case eh_OnPushTransaction eh tx sigs of
        Some err \<Rightarrow> Some err
      | None \<Rightarrow> run_OnPushTransaction rest tx sigs)"

text \<open>
  The last loop of \<open>Process\<close>: every transaction of the committed block leaves the pool,
  the expire queue, the working map and the signer cache.
\<close>

fun purge_transactions ::
    "('ctx, 'pool, 'queue, 'am) KernelExt \<Rightarrow> ('ctx, 'pool, 'queue) Kernel \<Rightarrow> Transaction list \<Rightarrow>
     ('ctx, 'pool, 'queue) Kernel" where
  "purge_transactions X kn [] = kn"
| "purge_transactions X kn (tx # rest) =
     (let h = tx_Hash tx in
      purge_transactions X
        (kn\<lparr>kn_txPool := k_pool_Remove X (kn_txPool kn) h tx,
            kn_txQueue := k_queue_Remove X (kn_txQueue kn) h,
            txWorkingMap := (txWorkingMap kn)(h := None),
            txSignersMap := (txSignersMap kn)(h := None)\<rparr>) rest)"

text \<open>The keys \<open>"consensus"\<close> and \<open>"reward"\<close> of the custom map.\<close>

definition key_consensus :: bytes where
  "key_consensus = [99, 111, 110, 115, 101, 110, 115, 117, 115]"

definition key_reward :: bytes where
  "key_reward = [114, 101, 119, 97, 114, 100]"

text \<open>
  \<open>Process(cd, UserData)\<close>; \<open>UserData\<close> is \<open>Some ctx\<close> when the caller passes a
  \<open>*data.Context\<close>.  The kernel is mutated in place, also by a call that fails late
  (the ranking engine has then already moved), so the model returns the kernel with the
  error.
\<close>

definition Process ::
    "('ctx, 'pool, 'queue, 'am) KernelExt \<Rightarrow> ('ctx, 'pool, 'queue) Kernel \<Rightarrow> ChainData \<Rightarrow> 'ctx option \<Rightarrow>
     ('ctx, 'pool, 'queue) Kernel \<times> error option" where
  "Process X kn cd UserData =
     (if kn_isClose kn then (kn, Some ErrKernelClosed)
      else if hd_ChainCoord (cd_Header cd) \<noteq> kn_ChainCoord kn then (kn, Some ErrInvalidChainCoord)
      else if length (cd_Signatures cd) \<noteq> map_len (kn_ObserverKeyMap kn) div 2 + 2
      then (kn, Some ErrInvalidSignatureCount)
      else
        (let HeaderHash = x_HeaderHash (k_StoreExt X) (cd_Header cd);
             GeneratorSignature = cd_Signatures cd ! 0;
             ObserverSignatures = drop 1 (cd_Signatures cd)
         in case TopRank (kn_cs kn) (unat (hd_TimeoutCount (cd_Header cd))) of
              Inl err \<Rightarrow> (kn, Some err)
            | Inr Top \<Rightarrow>
         (case k_RecoverPubkey X HeaderHash GeneratorSignature of
              Inl err \<Rightarrow> (kn, Some err)
            | Inr pubkey \<Rightarrow>
         (if rank_PublicHash Top \<noteq> k_NewPublicHash X pubkey then (kn, Some ErrInvalidTopSignature)
          else
         (case k_ValidateSignaturesMajority X (k_SignedHash X HeaderHash GeneratorSignature)
                 ObserverSignatures (kn_ObserverKeyMap kn) of
              Some err \<Rightarrow> (kn, Some err)
            | None \<Rightarrow>
         (case (case UserData of
                  Some c \<Rightarrow> Inr c
                | None \<Rightarrow> k_contextByBlock X (kn_store kn) (txSignersMap kn)
                            (cd_Header cd) (cd_Body cd)) of
              Inl err \<Rightarrow> (kn, Some err)
            | Inr ctx \<Rightarrow>
         (case run_OnProcessBlock (kn_eventHandlers kn) cd ctx of
              Some err \<Rightarrow> (kn, Some err)
            | None \<Rightarrow>
         (case ProcessContext (k_Less X) (k_DoubleHash X) (kn_cs kn) (k_ctx_Top X ctx)
                 HeaderHash (cd_Header cd) of
              (cs1, Some err) \<Rightarrow> (kn\<lparr>kn_cs := cs1\<rparr>, Some err)
            | (cs1, None) \<Rightarrow>
         (case k_ProcessReward X (hd_Formulator (cd_Header cd)) ctx of
              Inl err \<Rightarrow> (kn\<lparr>kn_cs := cs1\<rparr>, Some err)
            | Inr (ctx1, RewardSaveData) \<Rightarrow>
         (let CustomMap = [(key_consensus, k_buildSaveData X cs1), (key_reward, RewardSaveData)] in
          case StoreData (k_AmountOps X) (k_StoreExt X) (kn_store kn) cd (k_ctx_Top X ctx1) CustomMap of
              (st1, Some err) \<Rightarrow> (kn\<lparr>kn_cs := cs1, kn_store := st1\<rparr>, Some err)
            | (st1, None) \<Rightarrow>
                (purge_transactions X (kn\<lparr>kn_cs := cs1, kn_store := st1\<rparr>)
                   (Transactions (cd_Body cd)), None)))))))))))"

subsection \<open>Adding a transaction\<close>

fun check_vins :: "Store \<Rightarrow> 64 word list \<Rightarrow> error option" where
  "check_vins st [] = None"
| "check_vins st (uid # rest) =
     (case IsExistUTXO st uid of
        Inl err \<Rightarrow> Some err
      | Inr False \<Rightarrow> Some ErrInvalidUTXO
      | Inr True \<Rightarrow> check_vins st rest)"

fun recover_signers ::
    "('ctx, 'pool, 'queue, 'am) KernelExt \<Rightarrow> Hash256 \<Rightarrow> Signature list \<Rightarrow> PublicHash list \<Rightarrow>
     error + PublicHash list" where
  "recover_signers X TxHash [] signers = Inr signers"
| "recover_signers X TxHash (sig # rest) signers =
     (case k_RecoverPubkey X TxHash sig of
        Inl err \<Rightarrow> Inl err
      | Inr pubkey \<Rightarrow> recover_signers X TxHash rest (signers @ [k_NewPublicHash X pubkey]))"

text \<open>
  The per-kind checks of \<open>AddTransaction\<close>: the sequence window of an account
  transaction (\<open>seq+100\<close> is uint64 arithmetic), the inputs of a UTXO transaction.
  \<open>loader.Seq\<close> may fill the sequence cache of the store.
\<close>

definition check_kind ::
    "('ctx, 'pool, 'queue, 'am) KernelExt \<Rightarrow> Store \<Rightarrow> Transaction \<Rightarrow> Store \<times> error option" where
  "check_kind X st tx =
     (case tx_kind tx of
        AccountTx From tx_seq \<Rightarrow>
          (let (seq, st1) = Seq (k_StoreExt X) st From in
           if tx_seq \<le> seq then (st1, Some ErrPastSeq)
           else if tx_seq > seq + 100 then (st1, Some ErrTooFarSeq)
           else (st1, None))
      | UTXOTx VinIDs \<Rightarrow> (st, check_vins st VinIDs)
      | OtherTx \<Rightarrow> (st, None))"

text \<open>
  \<open>AddTransaction(tx, sigs)\<close>.  The hash enters \<open>txWorkingMap\<close> right after the two
  guards; the only \<open>delete(kn.txWorkingMap, TxHash)\<close> of the function is on its last path.
\<close>

definition AddTransaction ::
    "('ctx, 'pool, 'queue, 'am) KernelExt \<Rightarrow> ('ctx, 'pool, 'queue) Kernel \<Rightarrow> Transaction \<Rightarrow>
     Signature list \<Rightarrow> ('ctx, 'pool, 'queue) Kernel \<times> error option" where
  "AddTransaction X kn tx sigs =
     (if kn_isClose kn then (kn, Some ErrKernelClosed)
      else if k_queue_Size X (kn_txQueue kn) > 65535 then (kn, Some ErrTxQueueOverflowed)
      else
        (let TxHash = tx_Hash tx;
             has = (txWorkingMap kn TxHash \<noteq> None);
             kn1 = (if \<not> has then kn\<lparr>txWorkingMap := (txWorkingMap kn)(TxHash \<mapsto> True)\<rparr> else kn)
         in if has then (kn1, Some ErrProcessingTransaction)
            else if k_pool_IsExist X (kn_txPool kn1) TxHash then (kn1, Some ErrExistTransaction)
            else
         (case check_kind X (kn_store kn1) tx of
              (st1, Some err) \<Rightarrow> (kn1\<lparr>kn_store := st1\<rparr>, Some err)
            | (st1, None) \<Rightarrow>
         (let kn2 = kn1\<lparr>kn_store := st1\<rparr> in
          case recover_signers X TxHash sigs [] of
              Inl err \<Rightarrow> (kn2, Some err)
            | Inr signers \<Rightarrow>
         (case k_Validate X (kn_store kn2) tx signers of
              Some err \<Rightarrow> (kn2, Some err)
            | None \<Rightarrow>
         (case run_OnPushTransaction (kn_eventHandlers kn2) tx sigs of
              Some err \<Rightarrow> (kn2, Some err)
            | None \<Rightarrow>
         (case k_pool_Push X (kn_txPool kn2) tx sigs of
              Inl err \<Rightarrow> (kn2, Some err)
            | Inr pool1 \<Rightarrow>
                (kn2\<lparr>kn_txPool := pool1,
                     kn_txQueue := k_queue_Push X (kn_txQueue kn2) TxHash tx sigs,
                     txSignersMap := (txSignersMap kn2)(TxHash \<mapsto> signers),
                     txWorkingMap := (txWorkingMap kn2)(TxHash := None)\<rparr>, None))))))))"

subsection \<open>Generating a block\<close>

text \<open>
  The loop \<open>TxLoop\<close> of \<open>GenerateBlock\<close>.  Each round first polls the 200 ms timer
  (\<open>select\<close> with a \<open>default\<close> branch); the argument \<open>ticks\<close> is the number of rounds
  that start before the timer has fired.  \<open>UnsafePop\<close> runs between \<open>ctx.Snapshot\<close> and
  \<open>ctx.Revert\<close>, so it leaves the context as it was.  A transaction whose execution
  fails is dropped (\<open>continue\<close>).  The bound is tested on \<open>len(TxHashes)\<close>, which counts
  the previous hash as well, after the transaction has been appended.
\<close>

fun TxLoop ::
    "('ctx, 'pool, 'queue, 'am) KernelExt \<Rightarrow> int \<Rightarrow> nat \<Rightarrow> 'ctx \<Rightarrow> 'pool \<Rightarrow> Body \<Rightarrow> Hash256 list \<Rightarrow>
     'ctx \<times> 'pool \<times> Body \<times> Hash256 list" where
  "TxLoop X MaxTx 0 ctx pool body TxHashes = (ctx, pool, body, TxHashes)"
| "TxLoop X MaxTx (Suc ticks) ctx pool body TxHashes =
     (case k_pool_UnsafePop X pool ctx of
        (None, pool1) \<Rightarrow> (ctx, pool1, body, TxHashes)
      | (Some item, pool1) \<Rightarrow>
          (let idx = (of_nat (length (Transactions body)) :: 16 word) in
           case k_Execute X ctx (item_Transaction item)
                  \<lparr>coord_Height = k_ctx_TargetHeight X ctx, coord_Index = idx\<rparr> of
             (ctx1, Some err) \<Rightarrow> TxLoop X MaxTx ticks ctx1 pool1 body TxHashes
           | (ctx1, None) \<Rightarrow>
               (let body1 = body\<lparr>Transactions := Transactions body @ [item_Transaction item],
                                  TransactionSignatures :=
                                    TransactionSignatures body @ [item_Signatures item]\<rparr>;
                    TxHashes1 = TxHashes @ [item_TxHash item]
                in if int (length TxHashes1) > MaxTx then (ctx1, pool1, body1, TxHashes1)
                   else TxLoop X MaxTx ticks ctx1 pool1 body1 TxHashes1)))"

definition GenerateBlock ::
    "('ctx, 'pool, 'queue, 'am) KernelExt \<Rightarrow> ('ctx, 'pool, 'queue) Kernel \<Rightarrow> nat \<Rightarrow> 'ctx \<Rightarrow>
     32 word \<Rightarrow> 64 word \<Rightarrow> Address \<Rightarrow>
     ('ctx, 'pool, 'queue) Kernel \<times> 'ctx \<times> (error + Header \<times> Body)" where
  "GenerateBlock X kn ticks ctx TimeoutCount Timestamp Formulator =
     (if kn_isClose kn then (kn, ctx, Inl ErrKernelClosed)
      else
        (let header = \<lparr>hd_Version = kn_Version kn,
                       hd_Height = k_ctx_TargetHeight X ctx,
                       hd_PrevHash = k_ctx_LastHash X ctx,
                       hd_Timestamp = Timestamp,
                       hd_ChainCoord = k_ctx_ChainCoord X ctx,
                       hd_Formulator = Formulator,
                       hd_TimeoutCount = TimeoutCount,
                       hd_ContextHash = [],
                       hd_LevelRootHash = []\<rparr>;
             body = \<lparr>Transactions = [], TransactionSignatures = []\<rparr>;
             TxHashes = [hd_PrevHash header];
             (ctx1, pool1, body1, TxHashes1) =
                TxLoop X (kn_MaxTransactionsPerBlock kn) ticks ctx (kn_txPool kn) body TxHashes;
             kn1 = kn\<lparr>kn_txPool := pool1\<rparr>
         in if k_ctx_StackSize X ctx1 > 1 then (kn1, ctx1, Inl ErrDirtyContext)
            else
              (case k_BuildLevelRoot X TxHashes1 of
                 Inl err \<Rightarrow> (kn1, ctx1, Inl err)
               | Inr h \<Rightarrow>
                   (kn1, ctx1,
                    Inr (header\<lparr>hd_ContextHash := k_ctx_Hash X ctx1, hd_LevelRootHash := h\<rparr>,
                         body1)))))"

section \<open>Rewarder save data (reward, \<open>TestNetRewarder\<close>)\<close>

record 'am TestNetRewarder =
  LastPaidHeight :: "32 word"
  PowerMap :: "Address \<rightharpoonup> 'am"
  StakingPowerMap :: "Address \<rightharpoonup> (Address \<rightharpoonup> 'am)"

text \<open>
  \<open>LoadFromSaveData\<close> reads from a \<open>bytes.Reader\<close> over the blob.  An address is read by
  \<open>read_n AddressSize\<close>; \<open>Amount.ReadFrom\<close> belongs to the \<open>amount\<close> package and is the
  parameter \<open>readAmount\<close>.  The loops fill their map in place, so each returns the map
  as filled so far together with the error or the remaining input.

  The first loop, \<open>for i := 0; i < int(Len); i++\<close> over the power map, counts down \<open>Len\<close>.
\<close>

fun load_PowerMap ::
    "nat \<Rightarrow> 'am reader \<Rightarrow> nat \<Rightarrow> bytes \<Rightarrow> (Address \<rightharpoonup> 'am) \<Rightarrow>
     (Address \<rightharpoonup> 'am) \<times> (error + bytes)" where
  "load_PowerMap n readAmount 0 r pm = (pm, Inr r)"
| "load_PowerMap n readAmount (Suc c) r pm =
     (case read_n n r of
        Inl err \<Rightarrow> (pm, Inl err)
      | Inr (addr, r1) \<Rightarrow>
          (case readAmount r1 of
             Inl err \<Rightarrow> (pm, Inl err)
           | Inr (Amount, r2) \<Rightarrow> load_PowerMap n readAmount c r2 (pm(addr \<mapsto> Amount))))"

text \<open>
  The inner loop of the staking-power section is \<open>for j := 0; j < int(Len2); i++\<close>: the
  test is on \<open>j\<close>, the increment on the outer counter \<open>i\<close>.  Nothing in the body assigns
  \<open>j\<close>.  The loop may not end, so it is a partial function: \<open>None\<close> is a run that never
  returns.  The counters are Go ints, unbounded here.
\<close>

partial_function (option) inner_loop ::
    "nat \<Rightarrow> 'am reader \<Rightarrow> int \<Rightarrow> int \<Rightarrow> int \<Rightarrow> bytes \<Rightarrow> (Address \<rightharpoonup> 'am) \<Rightarrow>
     (int \<times> (Address \<rightharpoonup> 'am) \<times> (error + bytes)) option" where
  "inner_loop n readAmount j Len2 i r PowerMap' =
     (if j < Len2 then
        (case read_n n r of
           Inl err \<Rightarrow> Some (i, PowerMap', Inl err)
         | Inr (StakingAddress, r1) \<Rightarrow>
             (case readAmount r1 of
                Inl err \<Rightarrow> Some (i, PowerMap', Inl err)
              | Inr (Amount, r2) \<Rightarrow>
                  inner_loop n readAmount j Len2 (i + 1) r2 (PowerMap'(StakingAddress \<mapsto> Amount))))
      else Some (i, PowerMap', Inr r))"

text \<open>The outer loop \<open>for i := 0; i < int(Len); i++\<close>, whose counter the inner loop shares.\<close>

partial_function (option) outer_loop ::
    "nat \<Rightarrow> 'am reader \<Rightarrow> int \<Rightarrow> int \<Rightarrow> bytes \<Rightarrow> (Address \<rightharpoonup> (Address \<rightharpoonup> 'am)) \<Rightarrow>
     ((Address \<rightharpoonup> (Address \<rightharpoonup> 'am)) \<times> error option) option" where
  "outer_loop n readAmount i Len r spm =
     (if i < Len then
        (case read_n n r of
           Inl err \<Rightarrow> Some (spm, Some err)
         | Inr (addr, r1) \<Rightarrow>
             (case ReadUint32 r1 of
                Inl err \<Rightarrow> Some (spm, Some err)
              | Inr (Len2, r2) \<Rightarrow>
                  Option.bind (inner_loop n readAmount 0 (int (unat Len2)) i r2 Map.empty)
                    (\<lambda>(i1, PowerMap', res).
                       case res of
                         Inl err \<Rightarrow> Some (spm, Some err)
                       | Inr r3 \<Rightarrow> outer_loop n readAmount (i1 + 1) Len r3 (spm(addr \<mapsto> PowerMap')))))
      else Some (spm, None))"

definition LoadFromSaveData ::
    "nat \<Rightarrow> 'am reader \<Rightarrow> 'am TestNetRewarder \<Rightarrow> bytes \<Rightarrow>
     ('am TestNetRewarder \<times> error option) option" where
  "LoadFromSaveData n readAmount rd SaveData =
     (case ReadUint32 SaveData of
        Inl err \<Rightarrow> Some (rd, Some err)
      | Inr (v, r1) \<Rightarrow>
          (let rd1 = rd\<lparr>LastPaidHeight := v\<rparr> in
           case ReadUint32 r1 of
             Inl err \<Rightarrow> Some (rd1, Some err)
           | Inr (Len, r2) \<Rightarrow>
               (case load_PowerMap n readAmount (unat Len) r2 Map.empty of
                  (pm, Inl err) \<Rightarrow> Some (rd1\<lparr>PowerMap := pm\<rparr>, Some err)
                | (pm, Inr r3) \<Rightarrow>
                    (let rd2 = rd1\<lparr>PowerMap := pm\<rparr> in
                     case ReadUint32 r3 of
                       Inl err \<Rightarrow> Some (rd2, Some err)
                     | Inr (Len3, r4) \<Rightarrow>
                         Option.bind (outer_loop n readAmount 0 (int (unat Len3)) r4 Map.empty)
                           (\<lambda>(spm, err). Some (rd2\<lparr>StakingPowerMap := spm\<rparr>, err))))))"

text \<open>
  For comparison, the inner loop on its own index, \<open>for j := 0; j < int(Len2); j++\<close>.  It
  is not in the source; it reads \<open>Len2\<close> entries the way the first loop reads the power
  map.
\<close>

fun inner_loop_own_index ::
    "nat \<Rightarrow> 'am reader \<Rightarrow> nat \<Rightarrow> bytes \<Rightarrow> (Address \<rightharpoonup> 'am) \<Rightarrow>
     (Address \<rightharpoonup> 'am) \<times> (error + bytes)" where
  "inner_loop_own_index n readAmount 0 r PowerMap' = (PowerMap', Inr r)"
| "inner_loop_own_index n readAmount (Suc c) r PowerMap' =
     (case read_n n r of
        Inl err \<Rightarrow> (PowerMap', Inl err)
      | Inr (StakingAddress, r1) \<Rightarrow>
          (case readAmount r1 of
             Inl err \<Rightarrow> (PowerMap', Inl err)
           | Inr (Amount, r2) \<Rightarrow>
               inner_loop_own_index n readAmount c r2 (PowerMap'(StakingAddress \<mapsto> Amount))))"

text \<open>
  The entries of one map as \<open>buildSaveData\<close> writes them, each address followed by its
  amount, in the order in which the map is ranged over; \<open>Amount.WriteTo\<close> is the
  parameter \<open>writeAmount\<close>.
\<close>

definition write_entries :: "('am \<Rightarrow> bytes) \<Rightarrow> (Address \<times> 'am) list \<Rightarrow> bytes" where
  "write_entries writeAmount es = concat (map (\<lambda>(a, v). a @ writeAmount v) es)"

section \<open>Wire structures: votes and transactions\<close>

text \<open>
  Modelled from the spec: the \<open>WriteTo\<close> and \<open>ReadFrom\<close> of \<open>common.Coordinate\<close>,
  \<open>hash.Hash256\<close>, \<open>common.Address\<close>, \<open>common.PublicHash\<close>, \<open>common.PublicKey\<close> and
  \<open>common.Signature\<close> and \<open>util.WriteUint8\<close>, \<open>util.ReadUint8\<close> are declared outside the
  sources at hand.  They are the spec's fixed-width codec primitives: a coordinate is its
  height (LE32) and its index (LE16); a hash is its 32 bytes; an address, a public hash, a
  public key and a signature are the bytes of their array, whose sizes are parameters; a
  \<open>uint8\<close> is one byte.  \<open>WriteTo\<close> is given as the bytes it appends to the writer.
\<close>

definition Coordinate_WriteTo :: "Coordinate \<Rightarrow> bytes" where
  "Coordinate_WriteTo c = PutUint32 (coord_Height c) @ PutUint16 (coord_Index c)"

definition Coordinate_ReadFrom :: "Coordinate reader" where
  "Coordinate_ReadFrom r =
     (case ReadUint32 r of
        Inl err \<Rightarrow> Inl err
      | Inr (h, r1) \<Rightarrow>
          (case ReadUint16 r1 of
             Inl err \<Rightarrow> Inl err
           | Inr (i, r2) \<Rightarrow> Inr (\<lparr>coord_Height = h, coord_Index = i\<rparr>, r2)))"

definition WriteUint8 :: "8 word \<Rightarrow> bytes" where
  "WriteUint8 v = [v]"

definition ReadUint8 :: "8 word reader" where
  "ReadUint8 bs = (case read_n 1 bs of Inl e \<Rightarrow> Inl e | Inr (b, rest) \<Rightarrow> Inr (b ! 0, rest))"

text \<open>
  The codecs the structures below nest and whose code is in other packages:
  \<open>transaction.Base\<close>, \<open>amount.Amount\<close>, the \<open>chain.Header\<close> of a block vote, and the
  strings of \<open>util.WriteString\<close> and \<open>util.ReadString\<close>.  A \<open>ReadFrom\<close> of these fills its
  receiver in place, so it takes the receiver and returns it with the error or the rest of
  the input.  The sizes of the byte arrays are here too.
\<close>

record ('b, 'am, 'h) WireExt =
  w_AddressSize :: nat
  w_PublicHashSize :: nat
  w_PublicKeySize :: nat
  w_SignatureSize :: nat
  w_Base_WriteTo :: "'b \<Rightarrow> bytes"
  w_Base_ReadFrom :: "'b \<Rightarrow> bytes \<Rightarrow> 'b \<times> (error + bytes)"
  w_Amount_WriteTo :: "'am \<Rightarrow> bytes"
  w_Amount_ReadFrom :: "'am \<Rightarrow> bytes \<Rightarrow> 'am \<times> (error + bytes)"
  w_Header_WriteTo :: "'h \<Rightarrow> bytes"
  w_Header_ReadFrom :: "'h \<Rightarrow> bytes \<Rightarrow> 'h \<times> (error + bytes)"
  w_WriteString :: "string \<Rightarrow> bytes"
  w_ReadString :: "string reader"

subsection \<open>Vote messages (observer/vote_def.go)\<close>

record RoundVote =
  rv_ChainCoord :: Coordinate
  rv_LastHash :: Hash256
  rv_VoteTargetHeight :: "32 word"
  rv_TimeoutCount :: "32 word"
  rv_Formulator :: Address
  rv_FormulatorPublicHash :: PublicHash
  rv_Timestamp :: "64 word"
  rv_IsReply :: bool

definition RoundVote_WriteTo :: "RoundVote \<Rightarrow> bytes" where
  "RoundVote_WriteTo vt =
     Coordinate_WriteTo (rv_ChainCoord vt) @ rv_LastHash vt @
     PutUint32 (rv_VoteTargetHeight vt) @ PutUint32 (rv_TimeoutCount vt) @
     rv_Formulator vt @ rv_FormulatorPublicHash vt @
     PutUint64 (rv_Timestamp vt) @ WriteBool (rv_IsReply vt)"

text \<open>
  \<open>ReadFrom\<close> assigns the fields of its receiver one by one and stops at the first
  error, so it returns the receiver as far as it was filled.
\<close>

definition RoundVote_ReadFrom ::
    "('b, 'am, 'h) WireExt \<Rightarrow> RoundVote \<Rightarrow> bytes \<Rightarrow> RoundVote \<times> (error + bytes)" where
  "RoundVote_ReadFrom W vt r =
     (case Coordinate_ReadFrom r of
        Inl err \<Rightarrow> (vt, Inl err)
      | Inr (c, r1) \<Rightarrow> (let vt1 = vt\<lparr>rv_ChainCoord := c\<rparr> in
     case read_n 32 r1 of
        Inl err \<Rightarrow> (vt1, Inl err)
      | Inr (h, r2) \<Rightarrow> (let vt2 = vt1\<lparr>rv_LastHash := h\<rparr> in
     case ReadUint32 r2 of
        Inl err \<Rightarrow> (vt2, Inl err)
      | Inr (v, r3) \<Rightarrow> (let vt3 = vt2\<lparr>rv_VoteTargetHeight := v\<rparr> in
     case ReadUint32 r3 of
        Inl err \<Rightarrow> (vt3, Inl err)
      | Inr (v, r4) \<Rightarrow> (let vt4 = vt3\<lparr>rv_TimeoutCount := v\<rparr> in
     case read_n (w_AddressSize W) r4 of
        Inl err \<Rightarrow> (vt4, Inl err)
      | Inr (a, r5) \<Rightarrow> (let vt5 = vt4\<lparr>rv_Formulator := a\<rparr> in
     case read_n (w_PublicHashSize W) r5 of
        Inl err \<Rightarrow> (vt5, Inl err)
      | Inr (ph, r6) \<Rightarrow> (let vt6 = vt5\<lparr>rv_FormulatorPublicHash := ph\<rparr> in
     case ReadUint64 r6 of
        Inl err \<Rightarrow> (vt6, Inl err)
      | Inr (v, r7) \<Rightarrow> (let vt7 = vt6\<lparr>rv_Timestamp := v\<rparr> in
     case ReadBool r7 of
        Inl err \<Rightarrow> (vt7, Inl err)
      | Inr (v, r8) \<Rightarrow> (vt7\<lparr>rv_IsReply := v\<rparr>, Inr r8)))))))))"

record RoundVoteAck =
  ack_VoteTargetHeight :: "32 word"
  ack_TimeoutCount :: "32 word"
  ack_Formulator :: Address
  ack_FormulatorPublicHash :: PublicHash
  ack_PublicHash :: PublicHash
  ack_Timestamp :: "64 word"
  ack_IsReply :: bool

definition RoundVoteAck_WriteTo :: "RoundVoteAck \<Rightarrow> bytes" where
  "RoundVoteAck_WriteTo vt =
     PutUint32 (ack_VoteTargetHeight vt) @ PutUint32 (ack_TimeoutCount vt) @
     ack_Formulator vt @ ack_FormulatorPublicHash vt @ ack_PublicHash vt @
     PutUint64 (ack_Timestamp vt) @ WriteBool (ack_IsReply vt)"

definition RoundVoteAck_ReadFrom ::
    "('b, 'am, 'h) WireExt \<Rightarrow> RoundVoteAck \<Rightarrow> bytes \<Rightarrow> RoundVoteAck \<times> (error + bytes)" where
  "RoundVoteAck_ReadFrom W vt r =
     (case ReadUint32 r of
        Inl err \<Rightarrow> (vt, Inl err)
      | Inr (v, r1) \<Rightarrow> (let vt1 = vt\<lparr>ack_VoteTargetHeight := v\<rparr> in
     case ReadUint32 r1 of
        Inl err \<Rightarrow> (vt1, Inl err)
      | Inr (v, r2) \<Rightarrow> (let vt2 = vt1\<lparr>ack_TimeoutCount := v\<rparr> in
     case read_n (w_AddressSize W) r2 of
        Inl err \<Rightarrow> (vt2, Inl err)
      | Inr (a, r3) \<Rightarrow> (let vt3 = vt2\<lparr>ack_Formulator := a\<rparr> in
     case read_n (w_PublicHashSize W) r3 of
        Inl err \<Rightarrow> (vt3, Inl err)
      | Inr (ph, r4) \<Rightarrow> (let vt4 = vt3\<lparr>ack_FormulatorPublicHash := ph\<rparr> in
     case read_n (w_PublicHashSize W) r4 of
        Inl err \<Rightarrow> (vt4, Inl err)
      | Inr (ph, r5) \<Rightarrow> (let vt5 = vt4\<lparr>ack_PublicHash := ph\<rparr> in
     case ReadUint64 r5 of
        Inl err \<Rightarrow> (vt5, Inl err)
      | Inr (v, r6) \<Rightarrow> (let vt6 = vt5\<lparr>ack_Timestamp := v\<rparr> in
     case ReadBool r6 of
        Inl err \<Rightarrow> (vt6, Inl err)
      | Inr (v, r7) \<Rightarrow> (vt6\<lparr>ack_IsReply := v\<rparr>, Inr r7))))))))"

record 'h BlockVote =
  bv_VoteTargetHeight :: "32 word"
  bv_Header :: 'h
  bv_GeneratorSignature :: Signature
  bv_ObserverSignature :: Signature
  bv_IsReply :: bool

definition BlockVote_WriteTo :: "('b, 'am, 'h) WireExt \<Rightarrow> 'h BlockVote \<Rightarrow> bytes" where
  "BlockVote_WriteTo W vt =
     PutUint32 (bv_VoteTargetHeight vt) @ w_Header_WriteTo W (bv_Header vt) @
     bv_GeneratorSignature vt @ bv_ObserverSignature vt @ WriteBool (bv_IsReply vt)"

definition BlockVote_ReadFrom ::
    "('b, 'am, 'h) WireExt \<Rightarrow> 'h BlockVote \<Rightarrow> bytes \<Rightarrow> 'h BlockVote \<times> (error + bytes)" where
  "BlockVote_ReadFrom W vt r =
     (case ReadUint32 r of
        Inl err \<Rightarrow> (vt, Inl err)
      | Inr (v, r1) \<Rightarrow> (let vt1 = vt\<lparr>bv_VoteTargetHeight := v\<rparr> in
     case w_Header_ReadFrom W (bv_Header vt1) r1 of
        (h, Inl err) \<Rightarrow> (vt1\<lparr>bv_Header := h\<rparr>, Inl err)
      | (h, Inr r2) \<Rightarrow> (let vt2 = vt1\<lparr>bv_Header := h\<rparr> in
     case read_n (w_SignatureSize W) r2 of
        Inl err \<Rightarrow> (vt2, Inl err)
      | Inr (s, r3) \<Rightarrow> (let vt3 = vt2\<lparr>bv_GeneratorSignature := s\<rparr> in
     case read_n (w_SignatureSize W) r3 of
        Inl err \<Rightarrow> (vt3, Inl err)
      | Inr (s, r4) \<Rightarrow> (let vt4 = vt3\<lparr>bv_ObserverSignature := s\<rparr> in
     case ReadBool r4 of
        Inl err \<Rightarrow> (vt4, Inl err)
      | Inr (v, r5) \<Rightarrow> (vt4\<lparr>bv_IsReply := v\<rparr>, Inr r5))))))"

subsection \<open>Transactions of the consensus package\<close>

text \<open>
  \<open>Unstaking\<close> and \<open>Staking\<close> (consensus/consensus.go) have the same fields and the same
  codec.
\<close>

record ('b, 'am) Unstaking =
  us_Base :: 'b
  us_Seq :: "64 word"
  us_From :: Address
  us_HyperFormulator :: Address
  us_Amount :: 'am

definition Unstaking_WriteTo :: "('b, 'am, 'h) WireExt \<Rightarrow> ('b, 'am) Unstaking \<Rightarrow> bytes" where
  "Unstaking_WriteTo W tx =
     w_Base_WriteTo W (us_Base tx) @ PutUint64 (us_Seq tx) @ us_From tx @
     us_HyperFormulator tx @ w_Amount_WriteTo W (us_Amount tx)"

definition Unstaking_ReadFrom ::
    "('b, 'am, 'h) WireExt \<Rightarrow> ('b, 'am) Unstaking \<Rightarrow> bytes \<Rightarrow>
     ('b, 'am) Unstaking \<times> (error + bytes)" where
  "Unstaking_ReadFrom W tx r =
     (case w_Base_ReadFrom W (us_Base tx) r of
        (b, Inl err) \<Rightarrow> (tx\<lparr>us_Base := b\<rparr>, Inl err)
      | (b, Inr r1) \<Rightarrow> (let tx1 = tx\<lparr>us_Base := b\<rparr> in
     case ReadUint64 r1 of
        Inl err \<Rightarrow> (tx1, Inl err)
      | Inr (v, r2) \<Rightarrow> (let tx2 = tx1\<lparr>us_Seq := v\<rparr> in
     case read_n (w_AddressSize W) r2 of
        Inl err \<Rightarrow> (tx2, Inl err)
      | Inr (a, r3) \<Rightarrow> (let tx3 = tx2\<lparr>us_From := a\<rparr> in
     case read_n (w_AddressSize W) r3 of
        Inl err \<Rightarrow> (tx3, Inl err)
      | Inr (a, r4) \<Rightarrow> (let tx4 = tx3\<lparr>us_HyperFormulator := a\<rparr> in
     case w_Amount_ReadFrom W (us_Amount tx4) r4 of
        (am, Inl err) \<Rightarrow> (tx4\<lparr>us_Amount := am\<rparr>, Inl err)
      | (am, Inr r5) \<Rightarrow> (tx4\<lparr>us_Amount := am\<rparr>, Inr r5))))))"

record ('b, 'am) Staking =
  sk_Base :: 'b
  sk_Seq :: "64 word"
  sk_From :: Address
  sk_HyperFormulator :: Address
  sk_Amount :: 'am

definition Staking_WriteTo :: "('b, 'am, 'h) WireExt \<Rightarrow> ('b, 'am) Staking \<Rightarrow> bytes" where
  "Staking_WriteTo W tx =
     w_Base_WriteTo W (sk_Base tx) @ PutUint64 (sk_Seq tx) @ sk_From tx @
     sk_HyperFormulator tx @ w_Amount_WriteTo W (sk_Amount tx)"

definition Staking_ReadFrom ::
    "('b, 'am, 'h) WireExt \<Rightarrow> ('b, 'am) Staking \<Rightarrow> bytes \<Rightarrow>
     ('b, 'am) Staking \<times> (error + bytes)" where
  "Staking_ReadFrom W tx r =
     (case w_Base_ReadFrom W (sk_Base tx) r of
        (b, Inl err) \<Rightarrow> (tx\<lparr>sk_Base := b\<rparr>, Inl err)
      | (b, Inr r1) \<Rightarrow> (let tx1 = tx\<lparr>sk_Base := b\<rparr> in
     case ReadUint64 r1 of
        Inl err \<Rightarrow> (tx1, Inl err)
      | Inr (v, r2) \<Rightarrow> (let tx2 = tx1\<lparr>sk_Seq := v\<rparr> in
     case read_n (w_AddressSize W) r2 of
        Inl err \<Rightarrow> (tx2, Inl err)
      | Inr (a, r3) \<Rightarrow> (let tx3 = tx2\<lparr>sk_From := a\<rparr> in
     case read_n (w_AddressSize W) r3 of
        Inl err \<Rightarrow> (tx3, Inl err)
      | Inr (a, r4) \<Rightarrow> (let tx4 = tx3\<lparr>sk_HyperFormulator := a\<rparr> in
     case w_Amount_ReadFrom W (sk_Amount tx4) r4 of
        (am, Inl err) \<Rightarrow> (tx4\<lparr>sk_Amount := am\<rparr>, Inl err)
      | (am, Inr r5) \<Rightarrow> (tx4\<lparr>sk_Amount := am\<rparr>, Inr r5))))))"

text \<open>
  \<open>CreateFormulation\<close> is declared twice in the sources: with a \<open>FormulationType\<close> written
  as one byte, and without it (\<open>CreateFormulation2\<close> here).
\<close>

record 'b CreateFormulation =
  cf_Base :: 'b
  cf_Seq :: "64 word"
  cf_From :: Address
  cf_FormulationType :: "8 word"
  cf_Name :: string
  cf_KeyHash :: PublicHash

definition CreateFormulation_WriteTo ::
    "('b, 'am, 'h) WireExt \<Rightarrow> 'b CreateFormulation \<Rightarrow> bytes" where
  "CreateFormulation_WriteTo W tx =
     w_Base_WriteTo W (cf_Base tx) @ PutUint64 (cf_Seq tx) @ cf_From tx @
     WriteUint8 (cf_FormulationType tx) @ w_WriteString W (cf_Name tx) @ cf_KeyHash tx"

definition CreateFormulation_ReadFrom ::
    "('b, 'am, 'h) WireExt \<Rightarrow> 'b CreateFormulation \<Rightarrow> bytes \<Rightarrow>
     'b CreateFormulation \<times> (error + bytes)" where
  "CreateFormulation_ReadFrom W tx r =
     (case w_Base_ReadFrom W (cf_Base tx) r of
        (b, Inl err) \<Rightarrow> (tx\<lparr>cf_Base := b\<rparr>, Inl err)
      | (b, Inr r1) \<Rightarrow> (let tx1 = tx\<lparr>cf_Base := b\<rparr> in
     case ReadUint64 r1 of
        Inl err \<Rightarrow> (tx1, Inl err)
      | Inr (v, r2) \<Rightarrow> (let tx2 = tx1\<lparr>cf_Seq := v\<rparr> in
     case read_n (w_AddressSize W) r2 of
        Inl err \<Rightarrow> (tx2, Inl err)
      | Inr (a, r3) \<Rightarrow> (let tx3 = tx2\<lparr>cf_From := a\<rparr> in
     case ReadUint8 r3 of
        Inl err \<Rightarrow> (tx3, Inl err)
      | Inr (v, r4) \<Rightarrow> (let tx4 = tx3\<lparr>cf_FormulationType := v\<rparr> in
     case w_ReadString W r4 of
        Inl err \<Rightarrow> (tx4, Inl err)
      | Inr (v, r5) \<Rightarrow> (let tx5 = tx4\<lparr>cf_Name := v\<rparr> in
     case read_n (w_PublicHashSize W) r5 of
        Inl err \<Rightarrow> (tx5, Inl err)
      | Inr (ph, r6) \<Rightarrow> (tx5\<lparr>cf_KeyHash := ph\<rparr>, Inr r6)))))))"

record 'b CreateFormulation2 =
  cf2_Base :: 'b
  cf2_Seq :: "64 word"
  cf2_From :: Address
  cf2_Name :: string
  cf2_KeyHash :: PublicHash

definition CreateFormulation2_WriteTo ::
    "('b, 'am, 'h) WireExt \<Rightarrow> 'b CreateFormulation2 \<Rightarrow> bytes" where
  "CreateFormulation2_WriteTo W tx =
     w_Base_WriteTo W (cf2_Base tx) @ PutUint64 (cf2_Seq tx) @ cf2_From tx @
     w_WriteString W (cf2_Name tx) @ cf2_KeyHash tx"

definition CreateFormulation2_ReadFrom ::
    "('b, 'am, 'h) WireExt \<Rightarrow> 'b CreateFormulation2 \<Rightarrow> bytes \<Rightarrow>
     'b CreateFormulation2 \<times> (error + bytes)" where
  "CreateFormulation2_ReadFrom W tx r =
     (case w_Base_ReadFrom W (cf2_Base tx) r of
        (b, Inl err) \<Rightarrow> (tx\<lparr>cf2_Base := b\<rparr>, Inl err)
      | (b, Inr r1) \<Rightarrow> (let tx1 = tx\<lparr>cf2_Base := b\<rparr> in
     case ReadUint64 r1 of
        Inl err \<Rightarrow> (tx1, Inl err)
      | Inr (v, r2) \<Rightarrow> (let tx2 = tx1\<lparr>cf2_Seq := v\<rparr> in
     case read_n (w_AddressSize W) r2 of
        Inl err \<Rightarrow> (tx2, Inl err)
      | Inr (a, r3) \<Rightarrow> (let tx3 = tx2\<lparr>cf2_From := a\<rparr> in
     case w_ReadString W r3 of
        Inl err \<Rightarrow> (tx3, Inl err)
      | Inr (v, r4) \<Rightarrow> (let tx4 = tx3\<lparr>cf2_Name := v\<rparr> in
     case read_n (w_PublicHashSize W) r4 of
        Inl err \<Rightarrow> (tx4, Inl err)
      | Inr (ph, r5) \<Rightarrow> (tx4\<lparr>cf2_KeyHash := ph\<rparr>, Inr r5))))))"

text \<open>
  \<open>CreateSigma\<close> and \<open>CreateOmega\<close> write their list of addresses behind its length cast
  to \<open>uint8\<close>.  \<open>ReadFrom\<close> starts from an empty list and appends \<open>Len\<close> addresses; at an
  error the list holds the addresses read so far.
\<close>

fun read_addresses :: "nat \<Rightarrow> nat \<Rightarrow> Address list \<Rightarrow> bytes \<Rightarrow> Address list \<times> (error + bytes)" where
  "read_addresses n 0 addrs r = (addrs, Inr r)"
| "read_addresses n (Suc k) addrs r =
     (case read_n n r of
        Inl err \<Rightarrow> (addrs, Inl err)
      | Inr (addr, r1) \<Rightarrow> read_addresses n k (addrs @ [addr]) r1)"

record 'b CreateSigma =
  sg_Base :: 'b
  sg_Seq :: "64 word"
  sg_From :: Address
  AlphaFormulators :: "Address list"

definition CreateSigma_WriteTo :: "('b, 'am, 'h) WireExt \<Rightarrow> 'b CreateSigma \<Rightarrow> bytes" where
  "CreateSigma_WriteTo W tx =
     w_Base_WriteTo W (sg_Base tx) @ PutUint64 (sg_Seq tx) @ sg_From tx @
     WriteUint8 (of_nat (length (AlphaFormulators tx))) @ concat (AlphaFormulators tx)"

definition CreateSigma_ReadFrom ::
    "('b, 'am, 'h) WireExt \<Rightarrow> 'b CreateSigma \<Rightarrow> bytes \<Rightarrow> 'b CreateSigma \<times> (error + bytes)" where
  "CreateSigma_ReadFrom W tx r =
     (case w_Base_ReadFrom W (sg_Base tx) r of
        (b, Inl err) \<Rightarrow> (tx\<lparr>sg_Base := b\<rparr>, Inl err)
      | (b, Inr r1) \<Rightarrow> (let tx1 = tx\<lparr>sg_Base := b\<rparr> in
     case ReadUint64 r1 of
        Inl err \<Rightarrow> (tx1, Inl err)
      | Inr (v, r2) \<Rightarrow> (let tx2 = tx1\<lparr>sg_Seq := v\<rparr> in
     case read_n (w_AddressSize W) r2 of
        Inl err \<Rightarrow> (tx2, Inl err)
      | Inr (a, r3) \<Rightarrow> (let tx3 = tx2\<lparr>sg_From := a\<rparr> in
     case ReadUint8 r3 of
        Inl err \<Rightarrow> (tx3, Inl err)
      | Inr (Len, r4) \<Rightarrow>
          (case read_addresses (w_AddressSize W) (unat Len) [] r4 of
             (addrs, res) \<Rightarrow> (tx3\<lparr>AlphaFormulators := addrs\<rparr>, res))))))"

record 'b CreateOmega =
  om_Base :: 'b
  om_Seq :: "64 word"
  om_From :: Address
  SigmaFormulators :: "Address list"

definition CreateOmega_WriteTo :: "('b, 'am, 'h) WireExt \<Rightarrow> 'b CreateOmega \<Rightarrow> bytes" where
  "CreateOmega_WriteTo W tx =
     w_Base_WriteTo W (om_Base tx) @ PutUint64 (om_Seq tx) @ om_From tx @
     WriteUint8 (of_nat (length (SigmaFormulators tx))) @ concat (SigmaFormulators tx)"

definition CreateOmega_ReadFrom ::
    "('b, 'am, 'h) WireExt \<Rightarrow> 'b CreateOmega \<Rightarrow> bytes \<Rightarrow> 'b CreateOmega \<times> (error + bytes)" where
  "CreateOmega_ReadFrom W tx r =
     (case w_Base_ReadFrom W (om_Base tx) r of
        (b, Inl err) \<Rightarrow> (tx\<lparr>om_Base := b\<rparr>, Inl err)
      | (b, Inr r1) \<Rightarrow> (let tx1 = tx\<lparr>om_Base := b\<rparr> in
     case ReadUint64 r1 of
        Inl err \<Rightarrow> (tx1, Inl err)
      | Inr (v, r2) \<Rightarrow> (let tx2 = tx1\<lparr>om_Seq := v\<rparr> in
     case read_n (w_AddressSize W) r2 of
        Inl err \<Rightarrow> (tx2, Inl err)
      | Inr (a, r3) \<Rightarrow> (let tx3 = tx2\<lparr>om_From := a\<rparr> in
     case ReadUint8 r3 of
        Inl err \<Rightarrow> (tx3, Inl err)
      | Inr (Len, r4) \<Rightarrow>
          (case read_addresses (w_AddressSize W) (unat Len) [] r4 of
             (addrs, res) \<Rightarrow> (tx3\<lparr>SigmaFormulators := addrs\<rparr>, res))))))"

record 'b Revoke =
  rvk_Base :: 'b
  rvk_Seq :: "64 word"
  rvk_From :: Address
  Heritor :: Address

definition Revoke_WriteTo :: "('b, 'am, 'h) WireExt \<Rightarrow> 'b Revoke \<Rightarrow> bytes" where
  "Revoke_WriteTo W tx =
     w_Base_WriteTo W (rvk_Base tx) @ PutUint64 (rvk_Seq tx) @ rvk_From tx @ Heritor tx"

definition Revoke_ReadFrom ::
    "('b, 'am, 'h) WireExt \<Rightarrow> 'b Revoke \<Rightarrow> bytes \<Rightarrow> 'b Revoke \<times> (error + bytes)" where
  "Revoke_ReadFrom W tx r =
     (case w_Base_ReadFrom W (rvk_Base tx) r of
        (b, Inl err) \<Rightarrow> (tx\<lparr>rvk_Base := b\<rparr>, Inl err)
      | (b, Inr r1) \<Rightarrow> (let tx1 = tx\<lparr>rvk_Base := b\<rparr> in
     case ReadUint64 r1 of
        Inl err \<Rightarrow> (tx1, Inl err)
      | Inr (v, r2) \<Rightarrow> (let tx2 = tx1\<lparr>rvk_Seq := v\<rparr> in
     case read_n (w_AddressSize W) r2 of
        Inl err \<Rightarrow> (tx2, Inl err)
      | Inr (a, r3) \<Rightarrow> (let tx3 = tx2\<lparr>rvk_From := a\<rparr> in
     case read_n (w_AddressSize W) r3 of
        Inl err \<Rightarrow> (tx3, Inl err)
      | Inr (a, r4) \<Rightarrow> (tx3\<lparr>Heritor := a\<rparr>, Inr r4)))))"

subsection \<open>Transactions of the transaction package\<close>

text \<open>\<open>SingleAccount\<close> (transaction/tx_account) and \<open>Formulation\<close> (transaction/advanced).\<close>

record 'b SingleAccount =
  sa_Base :: 'b
  sa_Seq :: "64 word"
  sa_From :: Address
  sa_KeyHash :: PublicHash

definition SingleAccount_WriteTo :: "('b, 'am, 'h) WireExt \<Rightarrow> 'b SingleAccount \<Rightarrow> bytes" where
  "SingleAccount_WriteTo W tx =
     w_Base_WriteTo W (sa_Base tx) @ PutUint64 (sa_Seq tx) @ sa_From tx @ sa_KeyHash tx"

definition SingleAccount_ReadFrom ::
    "('b, 'am, 'h) WireExt \<Rightarrow> 'b SingleAccount \<Rightarrow> bytes \<Rightarrow> 'b SingleAccount \<times> (error + bytes)" where
  "SingleAccount_ReadFrom W tx r =
     (case w_Base_ReadFrom W (sa_Base tx) r of
        (b, Inl err) \<Rightarrow> (tx\<lparr>sa_Base := b\<rparr>, Inl err)
      | (b, Inr r1) \<Rightarrow> (let tx1 = tx\<lparr>sa_Base := b\<rparr> in
     case ReadUint64 r1 of
        Inl err \<Rightarrow> (tx1, Inl err)
      | Inr (v, r2) \<Rightarrow> (let tx2 = tx1\<lparr>sa_Seq := v\<rparr> in
     case read_n (w_AddressSize W) r2 of
        Inl err \<Rightarrow> (tx2, Inl err)
      | Inr (a, r3) \<Rightarrow> (let tx3 = tx2\<lparr>sa_From := a\<rparr> in
     case read_n (w_PublicHashSize W) r3 of
        Inl err \<Rightarrow> (tx3, Inl err)
      | Inr (ph, r4) \<Rightarrow> (tx3\<lparr>sa_KeyHash := ph\<rparr>, Inr r4)))))"

record 'b Formulation =
  fm_Base :: 'b
  fm_PublicKey :: bytes
  fm_From :: Address

definition Formulation_WriteTo :: "('b, 'am, 'h) WireExt \<Rightarrow> 'b Formulation \<Rightarrow> bytes" where
  "Formulation_WriteTo W tx = w_Base_WriteTo W (fm_Base tx) @ fm_PublicKey tx @ fm_From tx"

definition Formulation_ReadFrom ::
    "('b, 'am, 'h) WireExt \<Rightarrow> 'b Formulation \<Rightarrow> bytes \<Rightarrow> 'b Formulation \<times> (error + bytes)" where
  "Formulation_ReadFrom W tx r =
     (case w_Base_ReadFrom W (fm_Base tx) r of
        (b, Inl err) \<Rightarrow> (tx\<lparr>fm_Base := b\<rparr>, Inl err)
      | (b, Inr r1) \<Rightarrow> (let tx1 = tx\<lparr>fm_Base := b\<rparr> in
     case read_n (w_PublicKeySize W) r1 of
        Inl err \<Rightarrow> (tx1, Inl err)
      | Inr (k, r2) \<Rightarrow> (let tx2 = tx1\<lparr>fm_PublicKey := k\<rparr> in
     case read_n (w_AddressSize W) r2 of
        Inl err \<Rightarrow> (tx2, Inl err)
      | Inr (a, r3) \<Rightarrow> (tx2\<lparr>fm_From := a\<rparr>, Inr r3))))"

subsection \<open>What is asked of the nested codecs\<close>

text \<open>
  The codecs of \<open>WireExt\<close> are outside the sources.  A value that such a codec reads back
  from the bytes it has written for it, into whatever receiver and whatever follows on
  the reader, round-trips; the properties of the structures are stated for such values.
\<close>

definition Base_roundtrip :: "('b, 'am, 'h) WireExt \<Rightarrow> 'b \<Rightarrow> bool" where
  "Base_roundtrip W b =
     (\<forall>b0 rest. w_Base_ReadFrom W b0 (w_Base_WriteTo W b @ rest) = (b, Inr rest))"

definition Amount_roundtrip :: "('b, 'am, 'h) WireExt \<Rightarrow> 'am \<Rightarrow> bool" where
  "Amount_roundtrip W a =
     (\<forall>a0 rest. w_Amount_ReadFrom W a0 (w_Amount_WriteTo W a @ rest) = (a, Inr rest))"

definition Header_roundtrip :: "('b, 'am, 'h) WireExt \<Rightarrow> 'h \<Rightarrow> bool" where
  "Header_roundtrip W h =
     (\<forall>h0 rest. w_Header_ReadFrom W h0 (w_Header_WriteTo W h @ rest) = (h, Inr rest))"

definition String_roundtrip :: "('b, 'am, 'h) WireExt \<Rightarrow> string \<Rightarrow> bool" where
  "String_roundtrip W s = (\<forall>rest. w_ReadString W (w_WriteString W s @ rest) = Inr (s, rest))"

section \<open>Example values\<close>

text \<open>Concrete inputs on which the functions above are evaluated below.\<close>

definition empty_ctd :: "'am ContextData" where
  "empty_ctd =
     \<lparr>SeqMap = [], LockedBalances = [], DeletedLockedBalances = [], AccountMap = [],
      CreatedAccountMap = [], DeletedAccountMap = [], AccountDataMap = [],
      DeletedAccountDataMap = [], UTXOMap = [], CreatedUTXOMap = [], DeletedUTXOMap = [],
      Events = []\<rparr>"

text \<open>A formulation account (type tag 3) with a one-byte address.\<close>

definition example_account :: "byte \<Rightarrow> Account" where
  "example_account a =
     \<lparr>acc_Type = 3, acc_Address = [a], acc_KeyHash = [a, a], acc_Name = [], acc_body = []\<rparr>"

definition example_header :: Header where
  "example_header =
     \<lparr>hd_Version = 1, hd_Height = 1, hd_PrevHash = [], hd_Timestamp = 0,
      hd_ChainCoord = \<lparr>coord_Height = 0, coord_Index = 0\<rparr>, hd_Formulator = [1],
      hd_TimeoutCount = 0, hd_ContextHash = [], hd_LevelRootHash = []\<rparr>"

text \<open>A rank table of three ranks with equal phases, all held by the key with hash \<open>[9]\<close>.\<close>

definition example_cs :: Consensus where
  "example_cs =
     \<lparr>cs_height = 0,
      cs_heap = (\<lambda>r. \<lparr>rank_Address = [of_nat r], rank_PublicHash = [9],
                      rank_phase = 1, rank_hashSpace = [of_nat r]\<rparr>),
      cs_next = 3, candidates = [0, 1, 2],
      rankMap = [[0] \<mapsto> 0, [1] \<mapsto> 1, [2] \<mapsto> 2],
      cs_ObserverKeyMap = [], FormulationAccountType = 3\<rparr>"

text \<open>An open store with an empty database and a cold cache.\<close>

definition example_store :: Store where
  "example_store =
     \<lparr>st_db = Map.empty, st_SeqMap = Map.empty,
      st_cache = \<lparr>cached = False, cache_height = 0, cache_heightHash = [], cache_heightData = None\<rparr>,
      st_isClose = False\<rparr>"

definition example_cd :: ChainData where
  "example_cd =
     \<lparr>cd_Header = example_header,
      cd_Body = \<lparr>Transactions = [], TransactionSignatures = []\<rparr>,
      cd_Signatures = []\<rparr>"

text \<open>
  Stand-ins for the serializers of the store and for the amount arithmetic, on which the
  functions are evaluated: an address has one byte, an amount is a natural number held in
  one byte.  The stand-in iterator knows the keys \<open>example_keys\<close>, in key order; these are
  the keys of the example stores below.
\<close>

definition example_keys :: "bytes list" where
  "example_keys =
     [[1, 0, 0, 0, 0, 0], [1, 4, 7] @ replicate 31 0, [6, 0, 1, 9, 0, 0, 0],
      [6, 0, 9, 0, 0, 0, 1], [104, 101, 105, 103, 104, 116]]"

definition example_StoreExt :: StoreExt where
  "example_StoreExt =
     \<lparr>x_AddressSize = 1,
      x_HeaderHash = (\<lambda>h. replicate 32 (ucast (hd_Height h))),
      x_HeaderBytes = (\<lambda>h. PutUint32 (hd_Height h)),
      x_DataBytes = (\<lambda>cd. PutUint32 (hd_Height (cd_Header cd))),
      x_ReadHeader = (\<lambda>bs. Inl ErrUnexpectedEOF),
      x_ReadData = (\<lambda>bs. Inl ErrUnexpectedEOF),
      x_ReadAccount = (\<lambda>bs. Inl ErrUnexpectedEOF),
      x_ReadTxOut = (\<lambda>bs. Inr bs),
      x_ReadEvent = (\<lambda>bs. Inl ErrUnexpectedEOF),
      x_MarshalID = (\<lambda>c i. push_bit 32 (ucast (coord_Height c)) OR push_bit 16 (ucast (coord_Index c))
                            OR ucast i),
      x_Seek = (\<lambda>db key.
         List.map_filter
           (\<lambda>k. if bytes_less k key then None else map_option (Pair k) (db k)) example_keys)\<rparr>"

definition example_AmountOps :: "nat AmountOps" where
  "example_AmountOps =
     \<lparr>am_zero = 0, am_Add = (+),
      am_Bytes = (\<lambda>a. [of_nat a]),
      am_FromBytes = (\<lambda>bs. case bs of [] \<Rightarrow> 0 | b # rest \<Rightarrow> unat b)\<rparr>"

text \<open>A genesis context that locks the amount 5 for address \<open>[1]\<close> until height 9.\<close>

definition example_genesis_ctd :: "nat ContextData" where
  "example_genesis_ctd =
     empty_ctd\<lparr>LockedBalances := [\<lparr>lb_Address = [1], lb_Amount = 5, lb_UnlockHeight = 9\<rparr>]\<rparr>"

text \<open>
  Stand-ins for what the kernel calls outside the sources: a signature is the public hash
  of its signer, the majority check asks for \<open>\<lfloor>N/2\<rfloor>+1\<close> distinct signatures of observers,
  a context is a counter of executed transactions, the pool is a list popped from its
  head, the queue a list of keys, and the level root the concatenation of the hashes.
\<close>

definition example_majority :: "Hash256 \<Rightarrow> Signature list \<Rightarrow> (PublicHash \<times> bool) list \<Rightarrow> error option" where
  "example_majority h sigs okm =
     (if length sigs \<noteq> map_len okm div 2 + 1 then Some (ErrOther 2)
      else if \<not> distinct sigs then Some (ErrOther 3)
      else if list_ex (\<lambda>s. map_of okm s \<noteq> Some True) sigs then Some (ErrOther 4)
      else None)"

definition example_pop :: "PoolItem list \<Rightarrow> nat \<Rightarrow> PoolItem option \<times> PoolItem list" where
  "example_pop p c = (case p of [] \<Rightarrow> (None, []) | it # rest \<Rightarrow> (Some it, rest))"

definition example_KernelExt :: "(nat, PoolItem list, bytes list, nat) KernelExt" where
  "example_KernelExt =
     \<lparr>k_StoreExt = example_StoreExt,
      k_AmountOps = example_AmountOps,
      k_Less = Rank_Less,
      k_DoubleHash = (\<lambda>bs. bs),
      k_SignedHash = (\<lambda>h sig. h @ sig),
      k_RecoverPubkey = (\<lambda>h sig. if sig = [] then Inl (ErrOther 1) else Inr sig),
      k_NewPublicHash = (\<lambda>pubkey. pubkey),
      k_ValidateSignaturesMajority = example_majority,
      k_Validate = (\<lambda>st tx signers. if signers = [] then Some (ErrOther 5) else None),
      k_Execute = (\<lambda>c tx coord. (c + 1, None)),
      k_contextByBlock = (\<lambda>st sm h b. Inr 0),
      k_ctx_Top = (\<lambda>c. empty_ctd),
      k_ctx_TargetHeight = (\<lambda>c. 1),
      k_ctx_LastHash = (\<lambda>c. [0]),
      k_ctx_ChainCoord = (\<lambda>c. \<lparr>coord_Height = 0, coord_Index = 0\<rparr>),
      k_ctx_StackSize = (\<lambda>c. 1),
      k_ctx_Hash = (\<lambda>c. [of_nat c]),
      k_ProcessReward = (\<lambda>a c. Inr (c, [])),
      k_buildSaveData = (\<lambda>cs. []),
      k_pool_IsExist = (\<lambda>p h. h \<in> set (map item_TxHash p)),
      k_pool_Push = (\<lambda>p tx sigs.
         Inr (p @ [\<lparr>item_Transaction = tx, item_TxHash = tx_Hash tx, item_Signatures = sigs\<rparr>])),
      k_pool_Remove = (\<lambda>p h tx. filter (\<lambda>it. item_TxHash it \<noteq> h) p),
      k_pool_UnsafePop = example_pop,
      k_queue_Size = length,
      k_queue_Push = (\<lambda>q k tx sigs. q @ [k]),
      k_queue_Remove = (\<lambda>q k. filter (\<lambda>x. x \<noteq> k) q),
      k_BuildLevelRoot = (\<lambda>hs. Inr (concat hs))\<rparr>"

text \<open>A kernel with three observers, an empty pool and \<open>MaxTransactionsPerBlock = 0\<close>.\<close>

definition example_kernel :: "(nat, PoolItem list, bytes list) Kernel" where
  "example_kernel =
     \<lparr>kn_ChainCoord = \<lparr>coord_Height = 0, coord_Index = 0\<rparr>,
      kn_ObserverKeyMap = [([1], True), ([2], True), ([3], True)],
      kn_MaxTransactionsPerBlock = 0,
      kn_Version = 1,
      kn_store = example_store,
      kn_cs = example_cs,
      kn_txPool = [],
      kn_txQueue = [],
      txWorkingMap = Map.empty,
      txSignersMap = Map.empty,
      kn_eventHandlers = [],
      kn_isClose = False\<rparr>"

definition example_tx :: Transaction where
  "example_tx = \<lparr>tx_Hash = [42], tx_kind = OtherTx, tx_payload = []\<rparr>"

text \<open>A bundle on the kernel's chain with one transaction and the given signatures.\<close>

definition example_bundle :: "Signature list \<Rightarrow> ChainData" where
  "example_bundle sigs =
     \<lparr>cd_Header = example_header,
      cd_Body = \<lparr>Transactions = [example_tx], TransactionSignatures = [[[9]]]\<rparr>,
      cd_Signatures = sigs\<rparr>"


text \<open>
  A save blob of the rewarder: last paid height 7, an empty power map, and a staking-power
  section of one address \<open>[1]\<close> whose inner map has the count \<open>Len2\<close> and the given
  entries.  An address has one byte and an amount is one byte.
\<close>

definition example_readAmount :: "byte reader" where
  "example_readAmount r = (case r of [] \<Rightarrow> Inl ErrUnexpectedEOF | b # rest \<Rightarrow> Inr (b, rest))"

definition example_rewarder :: "byte TestNetRewarder" where
  "example_rewarder = \<lparr>LastPaidHeight = 0, PowerMap = Map.empty, StakingPowerMap = Map.empty\<rparr>"

definition example_save_data :: "32 word \<Rightarrow> bytes \<Rightarrow> bytes" where
  "example_save_data Len2 entries =
     PutUint32 7 @ PutUint32 0 @ PutUint32 1 @ [1] @ PutUint32 Len2 @ entries"


text \<open>
  Stand-ins for the nested codecs of the wire structures: a \<open>Base\<close> and an amount are one
  byte, a header is a \<open>uint32\<close>, a string is written behind its length in one byte.  An
  address has one byte, a public hash and a signature two, a public key three.
\<close>

definition example_read_byte :: "byte \<Rightarrow> bytes \<Rightarrow> byte \<times> (error + bytes)" where
  "example_read_byte b0 r = (case r of [] \<Rightarrow> (b0, Inl ErrUnexpectedEOF) | x # rest \<Rightarrow> (x, Inr rest))"

definition example_WriteString :: "string \<Rightarrow> bytes" where
  "example_WriteString s = of_nat (length s) # map (\<lambda>c. of_nat (of_char c)) s"

definition example_ReadString :: "string reader" where
  "example_ReadString r =
     (case r of
        [] \<Rightarrow> Inl ErrUnexpectedEOF
      | l # rest \<Rightarrow>
          if length rest < unat l then Inl ErrUnexpectedEOF
          else Inr (map (\<lambda>b. char_of (unat b)) (take (unat l) rest), drop (unat l) rest))"

definition example_WireExt :: "(byte, byte, 32 word) WireExt" where
  "example_WireExt =
     \<lparr>w_AddressSize = 1, w_PublicHashSize = 2, w_PublicKeySize = 3, w_SignatureSize = 2,
      w_Base_WriteTo = (\<lambda>b. [b]),
      w_Base_ReadFrom = example_read_byte,
      w_Amount_WriteTo = (\<lambda>a. [a]),
      w_Amount_ReadFrom = example_read_byte,
      w_Header_WriteTo = PutUint32,
      w_Header_ReadFrom = (\<lambda>h0 r. case ReadUint32 r of Inl e \<Rightarrow> (h0, Inl e) | Inr (v, rest) \<Rightarrow> (v, Inr rest)),
      w_WriteString = example_WriteString,
      w_ReadString = example_ReadString\<rparr>"

text \<open>
  Messages and transactions to encode, and the receivers they are decoded into.
  \<open>example_CreateSigma k\<close> lists \<open>k\<close> addresses.
\<close>

definition example_RoundVote :: RoundVote where
  "example_RoundVote =
     \<lparr>rv_ChainCoord = \<lparr>coord_Height = 1, coord_Index = 2\<rparr>, rv_LastHash = replicate 32 7,
      rv_VoteTargetHeight = 5, rv_TimeoutCount = 0, rv_Formulator = [1],
      rv_FormulatorPublicHash = [9, 9], rv_Timestamp = 1000, rv_IsReply = True\<rparr>"

definition new_RoundVote :: RoundVote where
  "new_RoundVote =
     \<lparr>rv_ChainCoord = \<lparr>coord_Height = 0, coord_Index = 0\<rparr>, rv_LastHash = replicate 32 0,
      rv_VoteTargetHeight = 0, rv_TimeoutCount = 0, rv_Formulator = [0],
      rv_FormulatorPublicHash = [0, 0], rv_Timestamp = 0, rv_IsReply = False\<rparr>"

definition example_BlockVote :: "32 word BlockVote" where
  "example_BlockVote =
     \<lparr>bv_VoteTargetHeight = 5, bv_Header = 77, bv_GeneratorSignature = [9, 9],
      bv_ObserverSignature = [1, 1], bv_IsReply = False\<rparr>"

definition new_BlockVote :: "32 word BlockVote" where
  "new_BlockVote =
     \<lparr>bv_VoteTargetHeight = 0, bv_Header = 0, bv_GeneratorSignature = [0, 0],
      bv_ObserverSignature = [0, 0], bv_IsReply = False\<rparr>"

definition example_Unstaking :: "(byte, byte) Unstaking" where
  "example_Unstaking =
     \<lparr>us_Base = 7, us_Seq = 3, us_From = [1], us_HyperFormulator = [2], us_Amount = 50\<rparr>"

definition new_Unstaking :: "(byte, byte) Unstaking" where
  "new_Unstaking =
     \<lparr>us_Base = 0, us_Seq = 0, us_From = [0], us_HyperFormulator = [0], us_Amount = 0\<rparr>"

definition example_CreateFormulation :: "byte CreateFormulation" where
  "example_CreateFormulation =
     \<lparr>cf_Base = 7, cf_Seq = 3, cf_From = [1], cf_FormulationType = 1, cf_Name = ''fleta'',
      cf_KeyHash = [9, 9]\<rparr>"

definition new_CreateFormulation :: "byte CreateFormulation" where
  "new_CreateFormulation =
     \<lparr>cf_Base = 0, cf_Seq = 0, cf_From = [0], cf_FormulationType = 0, cf_Name = [],
      cf_KeyHash = [0, 0]\<rparr>"

definition example_CreateSigma :: "nat \<Rightarrow> byte CreateSigma" where
  "example_CreateSigma k =
     \<lparr>sg_Base = 7, sg_Seq = 3, sg_From = [1], AlphaFormulators = replicate k [1]\<rparr>"

definition new_CreateSigma :: "byte CreateSigma" where
  "new_CreateSigma = \<lparr>sg_Base = 0, sg_Seq = 0, sg_From = [0], AlphaFormulators = []\<rparr>"
section \<open>Properties of the ranking engine\<close>

lemma search_loop_bounds: "i \<le> j \<Longrightarrow> i \<le> search_loop f i j \<and> search_loop f i j \<le> j"
proof (induction f i j rule: search_loop.induct)
  case (1 f i j)
  show ?case
  proof (cases "i < j")
    case False
    with "1.prems" show ?thesis by simp
  next
    case True
    define h where "h = (i + j) div 2"
    have hb: "i \<le> h" "h < j" using True by (simp_all add: h_def)
    show ?thesis
    proof (cases "f h")
      case True
      have "i \<le> search_loop f i h \<and> search_loop f i h \<le> h"
        using "1.IH"(2)[OF \<open>i < j\<close> h_def[symmetric, THEN sym]] True hb by simp
      then show ?thesis using \<open>i < j\<close> True hb
        by (subst (1 2) search_loop.simps) (simp add: h_def Let_def)
    next
      case False
      have "h + 1 \<le> search_loop f (h + 1) j \<and> search_loop f (h + 1) j \<le> j"
        using "1.IH"(1)[OF \<open>i < j\<close> h_def[symmetric, THEN sym]] False hb by simp
      then show ?thesis using \<open>i < j\<close> False hb
        by (subst (1 2) search_loop.simps) (simp add: h_def Let_def)
    qed
  qed
qed

lemma sort_Search_le: "sort_Search n f \<le> n"
  using search_loop_bounds[of 0 n f] by (simp add: sort_Search_def)

lemma shift_head_mset:
  assumes "idx \<le> length rest"
  shows "mset ((go_copy (c # rest) (take idx (drop 1 (c # rest))))[idx := c]) = mset (c # rest)"
proof -
  have len: "length (take idx rest) = idx" using assms by simp
  have cp: "go_copy (c # rest) (take idx (drop 1 (c # rest))) = take idx rest @ drop idx (c # rest)"
    using assms by (simp add: go_copy_def Let_def min_def)
  have nonempty: "drop idx (c # rest) = (c # rest) ! idx # drop idx rest"
    using Cons_nth_drop_Suc[of idx "c # rest"] assms by simp
  have "(take idx rest @ drop idx (c # rest))[idx := c] = take idx rest @ c # drop idx rest"
    using len nonempty by (simp add: list_update_append)
  moreover have "mset (take idx rest @ c # drop idx rest) = mset (c # rest)"
  proof -
    have "mset (take idx rest) + mset (drop idx rest) = mset rest"
      by (metis append_take_drop_id mset_append)
    then show ?thesis by (simp add: add.commute)
  qed
  ultimately show ?thesis using cp by simp
qed

lemma rotate_head_candidates:
  assumes "candidates cs \<noteq> []"
  shows "mset (candidates (rotate_head lessf upd cs)) = mset (candidates cs)"
proof -
  obtain c rest where cr: "candidates cs = c # rest"
    using assms by (cases "candidates cs") auto
  define idx where "idx = sort_Search (length (candidates cs) - 1)
      (\<lambda>i. lessf (((cs_heap cs)(c := upd (cs_heap cs c))) c)
                 (((cs_heap cs)(c := upd (cs_heap cs c))) (candidates cs ! (i + 1))))"
  have "idx \<le> length rest"
    unfolding idx_def using sort_Search_le[of "length (candidates cs) - 1"] cr by simp
  from shift_head_mset[OF this, of c]
  show ?thesis
    unfolding rotate_head_def Let_def idx_def cr by simp
qed

lemma rotate_head_addresses:
  assumes "candidates cs \<noteq> []" and "\<And>r. rank_Address (upd r) = rank_Address r"
  shows "mset (candidate_addresses (rotate_head lessf upd cs)) = mset (candidate_addresses cs)"
proof -
  have heap: "\<And>r. rank_Address (cs_heap (rotate_head lessf upd cs) r) = rank_Address (cs_heap cs r)"
    using assms(2) by (simp add: rotate_head_def Let_def)
  have "mset (candidate_addresses (rotate_head lessf upd cs))
        = image_mset (\<lambda>r. rank_Address (cs_heap cs r)) (mset (candidates (rotate_head lessf upd cs)))"
    by (simp add: candidate_addresses_def heap)
  also have "\<dots> = image_mset (\<lambda>r. rank_Address (cs_heap cs r)) (mset (candidates cs))"
    by (simp only: rotate_head_candidates[OF assms(1)])
  finally show ?thesis by (simp add: candidate_addresses_def)
qed

lemma rotate_head_length:
  "candidates cs \<noteq> [] \<Longrightarrow> length (candidates (rotate_head lessf upd cs)) = length (candidates cs)"
  using rotate_head_candidates[of cs lessf upd] by (metis size_mset)

lemma increase_phase_addresses:
  "candidates cs \<noteq> [] \<Longrightarrow>
     mset (candidate_addresses (increase_phase lessf n cs)) = mset (candidate_addresses cs)
     \<and> length (candidates (increase_phase lessf n cs)) = length (candidates cs)"
proof (induction n arbitrary: cs)
  case 0
  then show ?case by simp
next
  case (Suc n)
  let ?cs' = "rotate_head lessf (\<lambda>m. SetPhase m (rank_phase m + 1)) cs"
  have len: "length (candidates ?cs') = length (candidates cs)"
    using Suc.prems by (rule rotate_head_length)
  then have ne: "candidates ?cs' \<noteq> []" using Suc.prems by auto
  have addr: "mset (candidate_addresses ?cs') = mset (candidate_addresses cs)"
    using Suc.prems by (rule rotate_head_addresses) (simp add: SetPhase_def)
  show ?case using Suc.IH[OF ne] len addr by simp
qed

text \<open>
  C4.  For every rank table and every \<open>TimeoutCount < len(candidates)\<close>,
  \<open>forwardCandidates\<close> succeeds and leaves the multiset of candidate addresses
  unchanged; for \<open>TimeoutCount \<ge> len(candidates)\<close> it returns
  \<open>ErrExceedCandidateCount\<close> and the table is the one it was given.  This holds for
  every comparison \<open>lessf\<close>, sorted table or not.
\<close>

theorem forwardCandidates_preserves_addresses:
  "(TimeoutCount < length (candidates cs) \<longrightarrow>
      snd (forwardCandidates lessf cs TimeoutCount H) = None \<and>
      mset (candidate_addresses (fst (forwardCandidates lessf cs TimeoutCount H)))
        = mset (candidate_addresses cs)) \<and>
   (TimeoutCount \<ge> length (candidates cs) \<longrightarrow>
      forwardCandidates lessf cs TimeoutCount H = (cs, Some ErrExceedCandidateCount))"
proof (intro conjI impI)
  assume lt: "TimeoutCount < length (candidates cs)"
  then have ne: "candidates cs \<noteq> []" by auto
  let ?cs1 = "increase_phase lessf TimeoutCount cs"
  let ?cs2 = "rotate_head lessf (\<lambda>top. Set_Rank top (rank_phase top + 1) H) ?cs1"
  have res: "forwardCandidates lessf cs TimeoutCount H = (?cs2\<lparr>cs_height := cs_height ?cs2 + 1\<rparr>, None)"
    using lt by (simp add: forwardCandidates_def Let_def)
  show "snd (forwardCandidates lessf cs TimeoutCount H) = None"
    by (simp add: res)
  have s1: "mset (candidate_addresses ?cs1) = mset (candidate_addresses cs)"
    and l1: "length (candidates ?cs1) = length (candidates cs)"
    using increase_phase_addresses[OF ne] by simp_all
  have ne1: "candidates ?cs1 \<noteq> []" using l1 ne by auto
  have s2: "mset (candidate_addresses ?cs2) = mset (candidate_addresses ?cs1)"
    using ne1 by (rule rotate_head_addresses) (simp add: Set_Rank_def)
  have "candidate_addresses (?cs2\<lparr>cs_height := cs_height ?cs2 + 1\<rparr>) = candidate_addresses ?cs2"
    by (simp add: candidate_addresses_def)
  then show "mset (candidate_addresses (fst (forwardCandidates lessf cs TimeoutCount H)))
        = mset (candidate_addresses cs)"
    using s1 s2 by (simp add: res)
next
  assume "TimeoutCount \<ge> length (candidates cs)"
  then show "forwardCandidates lessf cs TimeoutCount H = (cs, Some ErrExceedCandidateCount)"
    by (simp add: forwardCandidates_def)
qed


theorem forwardCandidates_preserves_addresses_witness:
  "1 < length (candidates example_cs) \<and>
   snd (forwardCandidates Rank_Less example_cs 1 [9]) = None \<and>
   mset (candidate_addresses (fst (forwardCandidates Rank_Less example_cs 1 [9])))
     = mset (candidate_addresses example_cs) \<and>
   candidate_addresses (fst (forwardCandidates Rank_Less example_cs 1 [9])) = [[2], [0], [1]] \<and>
   3 \<ge> length (candidates example_cs) \<and>
   forwardCandidates Rank_Less example_cs 3 [9] = (example_cs, Some ErrExceedCandidateCount)"
proof -
  have len: "length (candidates example_cs) = 3"
    by (simp add: example_cs_def)
  have order: "candidate_addresses (fst (forwardCandidates Rank_Less example_cs 1 [9])) = [[2], [0], [1]]"
    by code_simp
  have a: "snd (forwardCandidates Rank_Less example_cs 1 [9]) = None \<and>
      mset (candidate_addresses (fst (forwardCandidates Rank_Less example_cs 1 [9])))
        = mset (candidate_addresses example_cs)"
    using forwardCandidates_preserves_addresses [of 1 example_cs Rank_Less "[9]"] len by simp
  have b: "forwardCandidates Rank_Less example_cs 3 [9] = (example_cs, Some ErrExceedCandidateCount)"
    using forwardCandidates_preserves_addresses [of 3 example_cs Rank_Less "[9]"] len by simp
  have c: "1 < length (candidates example_cs)" "3 \<ge> length (candidates example_cs)"
    using len by simp_all
  show ?thesis
    using a b c order by blast
qed

lemma removeRank_candidates: "candidates (removeRank cs addr) = candidates cs"
  by (simp add: removeRank_def Let_def)

lemma remove_deleted_candidates: "candidates (remove_deleted cs del) = candidates cs"
  by (induction cs del rule: remove_deleted.induct) (simp_all add: removeRank_candidates)

lemma sort_Search_0: "sort_Search 0 f = 0"
  by (simp add: sort_Search_def)

text \<open>
  C2.  Evaluation of the code where the claim fails.  Genesis ranks the formulation
  account with address \<open>[1]\<close>; the next block deletes that account.  After
  \<open>ProcessContext\<close> the address is gone from \<open>rankMap\<close> but is still in \<open>candidates\<close>, and
  \<open>TopRank(0)\<close> still returns its rank: \<open>removeRank\<close> never stores the filtered table.
  The evaluation holds for every rank comparison and every hash function.
\<close>

theorem ProcessContext_keeps_deleted_rank:
  "let cs1 = fst (ApplyGenesis lessf dh (NewConsensus [] 3)
                    (empty_ctd\<lparr>CreatedAccountMap := [([1], example_account 1)]\<rparr>));
       res = ProcessContext lessf dh cs1
               (empty_ctd\<lparr>DeletedAccountMap := [([1], example_account 1)]\<rparr>) [7] example_header
   in rankMap cs1 [1] = Some 0 \<and> candidate_addresses cs1 = [[1]] \<and>
      snd res = None \<and> rankMap (fst res) [1] = None \<and>
      candidate_addresses (fst res) = [[1]] \<and>
      TopRank (fst res) 0 =
        Inr \<lparr>rank_Address = [1], rank_PublicHash = [1, 1], rank_phase = 2, rank_hashSpace = [7]\<rparr>"
  by (simp add: ApplyGenesis_def NewConsensus_def empty_ctd_def example_account_def
      largestPhase_def NewRank_def addRank_def InsertRankToList_def sort_Search_0 go_copy_def
      candidate_addresses_def Let_def ProcessContext_def forwardCandidates_def rotate_head_def
      example_header_def removeRank_def Set_Rank_def TopRank_def)

section \<open>Properties of the store\<close>

subsection \<open>Key layout\<close>

lemma length_PutUint32 [simp]: "length (PutUint32 v) = 4"
  by (simp add: PutUint32_def)

lemma length_PutUint64 [simp]: "length (PutUint64 v) = 8"
  by (simp add: PutUint64_def)

lemma copy_at_0: "length src \<le> length dst \<Longrightarrow> copy_at 0 dst src = src @ drop (length src) dst"
  by (simp add: copy_at_def go_copy_def min_def)

lemma copy_at_append:
  "length pre = off \<Longrightarrow> copy_at off (pre @ rest) src
     = pre @ take (min (length rest) (length src)) src @ drop (min (length rest) (length src)) rest"
  by (simp add: copy_at_def go_copy_def Let_def)

lemma tagged_prefix:
  "length tag = 2 \<Longrightarrow> copy_at 2 (copy_at 0 (make_bytes (2 + k)) tag) payload
     = tag @ take (min k (length payload)) payload @ replicate (k - length payload) 0"
  by (simp add: copy_at_0 make_bytes_def copy_at_append min_def)

lemma toHeightDataKey_eq: "toHeightDataKey h = [1, 3] @ PutUint32 h"
  using tagged_prefix[of tagHeightData 4 "PutUint32 h"]
  by (simp add: toHeightDataKey_def tagHeightData_def)

lemma toHashHeightKey_eq: "toHashHeightKey h = [1, 4] @ take (min 32 (length h)) h @ replicate (32 - length h) 0"
  using tagged_prefix[of tagHashHeight 32 h]
  by (simp add: toHashHeightKey_def tagHashHeight_def)

lemma toLockedBalanceKey_eq:
  "length a = n \<Longrightarrow> toLockedBalanceKey n a h = [6, 0] @ a @ PutUint32 h"
  using tagged_prefix[of tagLockedBalance "4 + n" a] copy_at_append[of "[6, 0] @ a" "2 + n" "replicate 4 0" "PutUint32 h"]
  by (simp add: toLockedBalanceKey_def tagLockedBalance_def add.commute)

lemma toLockedBalanceHeightKey_eq:
  "length a = n \<Longrightarrow> toLockedBalanceHeightKey n h a = [6, 0] @ PutUint32 h @ a"
  using tagged_prefix[of tagLockedBalance "4 + n" "PutUint32 h"] copy_at_append[of "[6, 0] @ PutUint32 h" "6" "replicate n 0" a]
  by (simp add: toLockedBalanceHeightKey_def tagLockedBalance_def add.commute)

lemma toHeightHeaderKey_eq: "toHeightHeaderKey h = [1, 2] @ PutUint32 h"
  using tagged_prefix[of tagHeightHeader 4 "PutUint32 h"]
  by (simp add: toHeightHeaderKey_def tagHeightHeader_def)

lemma toHeightHashKey_eq: "toHeightHashKey h = [1, 0] @ PutUint32 h"
  using tagged_prefix[of tagHeightHash 4 "PutUint32 h"]
  by (simp add: toHeightHashKey_def tagHeightHash_def)

lemmas store_key_eqs = toHeightDataKey_eq toHeightHeaderKey_eq toHeightHashKey_eq toHashHeightKey_eq

lemma PutUint32_5: "PutUint32 5 = [5, 0, 0, 0]"
  by (simp add: PutUint32_def)

text \<open>
  C1.  Evaluation of the code where the claim fails.  One locked balance (address \<open>[1]\<close>,
  unlock height 5, amount \<open>a\<close>) is committed through \<open>StoreData\<close> into an empty store, for
  every amount arithmetic and every serializer.  The address-indexed row is written under
  tag \<open>6,0\<close> followed by address+height.  The height-indexed row is written under the same
  tag \<open>6,0\<close>, followed by height+address; no row exists under tag \<open>6,1\<close>.
\<close>

theorem StoreData_height_row_under_address_tag:
  "let lb = \<lparr>lb_Address = [1], lb_Amount = a, lb_UnlockHeight = 5\<rparr>;
       res = StoreData ops (X\<lparr>x_AddressSize := 1\<rparr>) example_store example_cd
               (empty_ctd\<lparr>LockedBalances := [lb]\<rparr>) [];
       amount = am_Bytes ops (am_Add ops (am_zero ops) a)
   in snd res = None \<and>
      st_db (fst res) (tagLockedBalance @ [1] @ PutUint32 5) = Some amount \<and>
      st_db (fst res) (tagLockedBalance @ PutUint32 5 @ [1]) = Some amount \<and>
      st_db (fst res) (tagLockedBalanceHeight @ PutUint32 5 @ [1]) = None"
  by (simp add: StoreData_def applyContextData_def empty_ctd_def example_store_def example_cd_def
      Let_def store_key_eqs toLockedBalanceKey_eq toLockedBalanceHeightKey_eq height_key_def
      tagLockedBalance_def tagLockedBalanceHeight_def PutUint32_5)

subsection \<open>Reads after \<open>Close\<close>\<close>

text \<open>
  C6, as amended.  After \<open>Close\<close>, every public read whose signature has an error result
  rejects with \<open>ErrStoreClosed\<close>: \<open>Hash\<close>, \<open>Header\<close>, \<open>Data\<close>, \<open>Accounts\<close>,
  \<open>LockedBalances\<close>, \<open>LockedBalancesByHeight\<close>, \<open>Account\<close>, \<open>AddressByName\<close>,
  \<open>IsExistAccount\<close>, \<open>IsExistAccountName\<close>, \<open>AccountDataKeys\<close>, \<open>UTXOs\<close>, \<open>IsExistUTXO\<close>,
  \<open>UTXO\<close> and \<open>Events\<close>.  The four reads without an error result return their zero value:
  \<open>Height\<close> and \<open>Seq\<close> return 0, \<open>AccountData\<close> and \<open>CustomData\<close> return \<open>nil\<close>.
\<close>

theorem closed_store_reads:
  "(returns_error op \<longrightarrow> perform_read ops X (Close st) op = Rejected ErrStoreClosed) \<and>
   perform_read ops X (Close st) OpHeight = Uint32Value 0 \<and>
   perform_read ops X (Close st) (OpSeq a) = Uint64Value 0 \<and>
   perform_read ops X (Close st) (OpAccountData a n) = BytesValue None \<and>
   perform_read ops X (Close st) (OpCustomData k) = BytesValue None"
  by (cases op)
     (simp_all add: Close_def Height_def Hash_def Header_def Data_def Seq_def Account_def
        AccountData_def CustomData_def UTXO_of_def IsExistUTXO_def Accounts_def
        LockedBalances_st_def LockedBalancesByHeight_def AddressByName_def IsExistAccount_def
        IsExistAccountName_def AccountDataKeys_def UTXOs_def Events_st_def)

lemma returns_error_cases:
  "returns_error op \<longleftrightarrow>
     op \<notin> {OpHeight} \<union> range OpSeq \<union> range (\<lambda>(a, n). OpAccountData a n) \<union> range OpCustomData"
  by (cases op) auto

theorem closed_store_reads_witness:
  "list_all returns_error
     [OpHash 1, OpHeader 1, OpData 1, OpAccounts, OpLockedBalances [1],
      OpLockedBalancesByHeight 9, OpAccount [1], OpAddressByName [2], OpIsExistAccount [1],
      OpIsExistAccountName [2], OpAccountDataKeys [1] [], OpUTXOs, OpIsExistUTXO 1, OpUTXO 1,
      OpEvents 0 1] \<and>
   list_all (\<lambda>op. perform_read example_AmountOps example_StoreExt (Close example_store) op
                    = Rejected ErrStoreClosed)
     [OpHash 1, OpHeader 1, OpData 1, OpAccounts, OpLockedBalances [1],
      OpLockedBalancesByHeight 9, OpAccount [1], OpAddressByName [2], OpIsExistAccount [1],
      OpIsExistAccountName [2], OpAccountDataKeys [1] [], OpUTXOs, OpIsExistUTXO 1, OpUTXO 1,
      OpEvents 0 1] \<and>
   perform_read example_AmountOps example_StoreExt (Close example_store) OpHeight = Uint32Value 0"
proof -
  have r: "returns_error op \<Longrightarrow>
      perform_read example_AmountOps example_StoreExt (Close example_store) op
        = Rejected ErrStoreClosed" for op
    using closed_store_reads [of op example_AmountOps example_StoreExt example_store] by blast
  have h: "perform_read example_AmountOps example_StoreExt (Close example_store) OpHeight
        = Uint32Value 0"
    using closed_store_reads [of OpHeight example_AmountOps example_StoreExt example_store]
    by blast
  show ?thesis
    using h by (simp add: r del: perform_read.simps)
qed

text \<open>
  C6 as stated fails: on a closed store \<open>Height\<close> returns the value 0, and \<open>Seq\<close>,
  \<open>AccountData\<close> and \<open>CustomData\<close> return values as well; none of them rejects.
\<close>

theorem closed_store_Height_counterexample:
  "perform_read example_AmountOps example_StoreExt (Close example_store) OpHeight = Uint32Value 0 \<and>
   perform_read example_AmountOps example_StoreExt (Close example_store) OpHeight
     \<noteq> Rejected ErrStoreClosed \<and>
   perform_read example_AmountOps example_StoreExt (Close example_store) (OpSeq [1])
     \<noteq> Rejected ErrStoreClosed \<and>
   perform_read example_AmountOps example_StoreExt (Close example_store) (OpAccountData [1] [2])
     \<noteq> Rejected ErrStoreClosed \<and>
   perform_read example_AmountOps example_StoreExt (Close example_store) (OpCustomData [1])
     \<noteq> Rejected ErrStoreClosed"
  by (simp add: Close_def Height_def Seq_def AccountData_def CustomData_def)

subsection \<open>Genesis\<close>

lemma apply_UTXOMap_ok:
  "(\<exists>db'. apply_UTXOMap db m = Inr db') \<longleftrightarrow> (\<forall>(k, v) \<in> set m. utxo_TxIn_ID v = k)"
proof (induction m arbitrary: db)
  case Nil
  then show ?case by simp
next
  case (Cons kv m)
  obtain k v where kv: "kv = (k, v)" by (cases kv)
  show ?case
    by (cases "utxo_TxIn_ID v = k") (simp_all add: kv Cons.IH)
qed

lemma apply_UTXOMap_error: "apply_UTXOMap db m = Inl e \<Longrightarrow> e = ErrInvalidTxInKey"
  by (induction db m rule: apply_UTXOMap.induct) (auto split: if_splits)

lemma applyContextData_error: "applyContextData ops n db ctd = Inl e \<Longrightarrow> e = ErrInvalidTxInKey"
  by (auto simp: applyContextData_def Let_def split: sum.splits dest: apply_UTXOMap_error)

lemma applyContextData_ok_indep:
  assumes "applyContextData ops n db ctd = Inr db1"
  shows "\<exists>db2. applyContextData ops n db' ctd = Inr db2"
proof -
  have "\<exists>d. apply_UTXOMap
      (apply_DeletedAccountDataMap (apply_AccountDataMap (apply_DeletedAccountMap n
        (apply_CreatedAccountMap n (apply_AccountMap n (apply_DeletedLockedBalances n
          (apply_LockedBalances ops n (apply_SeqMap n db (SeqMap ctd)) (LockedBalances ctd))
          (DeletedLockedBalances ctd)) (AccountMap ctd)) (CreatedAccountMap ctd))
        (DeletedAccountMap ctd)) (AccountDataMap ctd)) (DeletedAccountDataMap ctd)) (UTXOMap ctd) = Inr d"
    using assms by (auto simp: applyContextData_def Let_def split: sum.splits)
  then have "\<forall>(k, v) \<in> set (UTXOMap ctd). utxo_TxIn_ID v = k"
    using apply_UTXOMap_ok by blast
  then have "\<exists>d. apply_UTXOMap
      (apply_DeletedAccountDataMap (apply_AccountDataMap (apply_DeletedAccountMap n
        (apply_CreatedAccountMap n (apply_AccountMap n (apply_DeletedLockedBalances n
          (apply_LockedBalances ops n (apply_SeqMap n db' (SeqMap ctd)) (LockedBalances ctd))
          (DeletedLockedBalances ctd)) (AccountMap ctd)) (CreatedAccountMap ctd))
        (DeletedAccountMap ctd)) (AccountDataMap ctd)) (DeletedAccountDataMap ctd)) (UTXOMap ctd) = Inr d"
    using apply_UTXOMap_ok by blast
  then show ?thesis
    by (auto simp: applyContextData_def Let_def split: sum.splits)
qed

lemma StoreGenesis_success:
  assumes "snd (StoreGenesis ops X st genHash ctd customHash) = None"
  shows "\<not> st_isClose st" "Height st = 0"
    "\<exists>db4. applyContextData ops (x_AddressSize X)
             ((st_db st)(toHeightHashKey 0 \<mapsto> genHash, toHashHeightKey genHash \<mapsto> PutUint32 0,
                         height_key \<mapsto> PutUint32 0)) ctd = Inr db4 \<and>
           fst (StoreGenesis ops X st genHash ctd customHash) =
             st\<lparr>st_db := apply_customHash db4 customHash,
                 st_cache := \<lparr>cached = True, cache_height = 0,
                              cache_heightHash = genHash, cache_heightData = None\<rparr>\<rparr>"
  using assms
  by (auto simp: StoreGenesis_def Let_def word_gt_0 split: if_splits sum.splits)

text \<open>
  C10.  \<open>StoreGenesis\<close> returns \<open>ErrAlreadyGenesised\<close> exactly when the store is open and
  \<open>Height() > 0\<close>.  After a successful \<open>StoreGenesis\<close> the height is 0, so a second call
  (with any arguments) is not rejected by the guard; with the same arguments it succeeds
  again and writes the genesis rows, the context data and the custom data once more, on
  top of the database the first call left.
\<close>

theorem StoreGenesis_guard_passes_again:
  "(snd (StoreGenesis ops X st genHash ctd customHash) = Some ErrAlreadyGenesised
      \<longleftrightarrow> \<not> st_isClose st \<and> Height st > 0) \<and>
   (snd (StoreGenesis ops X st genHash ctd customHash) = None \<longrightarrow>
      (let st1 = fst (StoreGenesis ops X st genHash ctd customHash) in
       Height st1 = 0 \<and>
       snd (StoreGenesis ops X st1 genHash' ctd' customHash') \<noteq> Some ErrAlreadyGenesised \<and>
       snd (StoreGenesis ops X st1 genHash ctd customHash) = None \<and>
       (\<exists>db4. applyContextData ops (x_AddressSize X)
                 ((st_db st1)(toHeightHashKey 0 \<mapsto> genHash, toHashHeightKey genHash \<mapsto> PutUint32 0,
                              height_key \<mapsto> PutUint32 0)) ctd = Inr db4 \<and>
               st_db (fst (StoreGenesis ops X st1 genHash ctd customHash))
                 = apply_customHash db4 customHash)))"
proof (intro conjI impI)
  show "snd (StoreGenesis ops X st genHash ctd customHash) = Some ErrAlreadyGenesised
      \<longleftrightarrow> \<not> st_isClose st \<and> Height st > 0"
    by (auto simp: StoreGenesis_def Let_def word_gt_0
             split: if_splits sum.splits dest: applyContextData_error)
next
  assume ok: "snd (StoreGenesis ops X st genHash ctd customHash) = None"
  define st1 where "st1 = fst (StoreGenesis ops X st genHash ctd customHash)"
  from StoreGenesis_success[OF ok] obtain db4 where
    open_st: "\<not> st_isClose st" and
    app: "applyContextData ops (x_AddressSize X)
             ((st_db st)(toHeightHashKey 0 \<mapsto> genHash, toHashHeightKey genHash \<mapsto> PutUint32 0,
                         height_key \<mapsto> PutUint32 0)) ctd = Inr db4" and
    st1_eq: "st1 = st\<lparr>st_db := apply_customHash db4 customHash,
                 st_cache := \<lparr>cached = True, cache_height = 0,
                              cache_heightHash = genHash, cache_heightData = None\<rparr>\<rparr>"
    unfolding st1_def by blast
  have h0: "Height st1 = 0" and op1: "\<not> st_isClose st1"
    using open_st by (simp_all add: st1_eq Height_def)
  have guard: "snd (StoreGenesis ops X st1 genHash' ctd' customHash') \<noteq> Some ErrAlreadyGenesised"
    using h0 op1 by (auto simp: StoreGenesis_def Let_def split: sum.splits dest: applyContextData_error)
  from applyContextData_ok_indep[OF app] obtain db5 where
    app2: "applyContextData ops (x_AddressSize X)
             ((st_db st1)(toHeightHashKey 0 \<mapsto> genHash, toHashHeightKey genHash \<mapsto> PutUint32 0,
                         height_key \<mapsto> PutUint32 0)) ctd = Inr db5"
    by blast
  have again: "StoreGenesis ops X st1 genHash ctd customHash =
      (st1\<lparr>st_db := apply_customHash db5 customHash,
           st_cache := \<lparr>cached = True, cache_height = 0,
                        cache_heightHash = genHash, cache_heightData = None\<rparr>\<rparr>, None)"
    using h0 op1 app2 by (simp add: StoreGenesis_def Let_def)
  show "let st1 = fst (StoreGenesis ops X st genHash ctd customHash) in
       Height st1 = 0 \<and>
       snd (StoreGenesis ops X st1 genHash' ctd' customHash') \<noteq> Some ErrAlreadyGenesised \<and>
       snd (StoreGenesis ops X st1 genHash ctd customHash) = None \<and>
       (\<exists>db4. applyContextData ops (x_AddressSize X)
                 ((st_db st1)(toHeightHashKey 0 \<mapsto> genHash, toHashHeightKey genHash \<mapsto> PutUint32 0,
                              height_key \<mapsto> PutUint32 0)) ctd = Inr db4 \<and>
               st_db (fst (StoreGenesis ops X st1 genHash ctd customHash))
                 = apply_customHash db4 customHash)"
    unfolding Let_def st1_def[symmetric]
    using h0 guard again app2 by simp
qed

lemma PutUint32_9: "PutUint32 9 = [9, 0, 0, 0]"
  by (simp add: PutUint32_def)

lemma PutUint32_0: "PutUint32 0 = [0, 0, 0, 0]"
  by (simp add: PutUint32_def)

lemma first_genesis:
  "StoreGenesis example_AmountOps example_StoreExt example_store [7] example_genesis_ctd [] =
     (example_store\<lparr>st_db := [[1, 0, 0, 0, 0, 0] \<mapsto> [7],
                                [1, 4, 7] @ replicate 31 0 \<mapsto> [0, 0, 0, 0],
                                height_key \<mapsto> [0, 0, 0, 0],
                                [6, 0, 1, 9, 0, 0, 0] \<mapsto> [5],
                                [6, 0, 9, 0, 0, 0, 1] \<mapsto> [5]],
                     st_cache := \<lparr>cached = True, cache_height = 0,
                                  cache_heightHash = [7], cache_heightData = None\<rparr>\<rparr>, None)"
  by (simp add: StoreGenesis_def example_store_def Height_def example_genesis_ctd_def empty_ctd_def
      applyContextData_def example_AmountOps_def example_StoreExt_def Let_def store_key_eqs
      toLockedBalanceKey_eq toLockedBalanceHeightKey_eq PutUint32_9 PutUint32_0 height_key_def)

theorem StoreGenesis_guard_passes_again_witness:
  "snd (StoreGenesis example_AmountOps example_StoreExt example_store [7] example_genesis_ctd []) = None \<and>
   (let st1 = fst (StoreGenesis example_AmountOps example_StoreExt example_store [7] example_genesis_ctd [])
    in Height st1 = 0 \<and>
       snd (StoreGenesis example_AmountOps example_StoreExt st1 [7] example_genesis_ctd []) = None \<and>
       st_db st1 [6, 0, 1, 9, 0, 0, 0] = Some [5] \<and>
       st_db (fst (StoreGenesis example_AmountOps example_StoreExt st1 [7] example_genesis_ctd []))
         [6, 0, 1, 9, 0, 0, 0] = Some [10])"
proof -
  have ok: "snd (StoreGenesis example_AmountOps example_StoreExt example_store [7] example_genesis_ctd []) = None"
    by (simp add: first_genesis)
  have second: "st_db (fst (StoreGenesis example_AmountOps example_StoreExt
        (fst (StoreGenesis example_AmountOps example_StoreExt example_store [7] example_genesis_ctd []))
        [7] example_genesis_ctd [])) [6, 0, 1, 9, 0, 0, 0] = Some [10]"
    unfolding first_genesis
    by (simp add: StoreGenesis_def example_store_def Height_def example_genesis_ctd_def empty_ctd_def
      applyContextData_def example_AmountOps_def example_StoreExt_def Let_def store_key_eqs
      toLockedBalanceKey_eq toLockedBalanceHeightKey_eq PutUint32_9 PutUint32_0 height_key_def)
  have row: "st_db (fst (StoreGenesis example_AmountOps example_StoreExt example_store [7] example_genesis_ctd []))
       [6, 0, 1, 9, 0, 0, 0] = Some [5]"
    by (simp add: first_genesis)
  show ?thesis
    using StoreGenesis_guard_passes_again
            [of example_AmountOps example_StoreExt example_store "[7]" example_genesis_ctd "[]"]
          ok second row
    by (simp add: Let_def)
qed

lemma toLockedBalanceHeightPrefix_eq: "toLockedBalanceHeightPrefix h = [6, 0] @ PutUint32 h"
  using tagged_prefix[of tagLockedBalance 4 "PutUint32 h"]
  by (simp add: toLockedBalanceHeightPrefix_def tagLockedBalance_def)

text \<open>
  The scanning reads on an open store: after the example genesis, \<open>LockedBalancesByHeight\<close>
  at height 9 finds the balance the genesis locked.
\<close>

lemma example_LockedBalancesByHeight:
  "LockedBalancesByHeight example_AmountOps example_StoreExt
     (fst (StoreGenesis example_AmountOps example_StoreExt example_store [7] example_genesis_ctd []))
     9
   = Inr [\<lparr>lb_Address = [1], lb_Amount = 5, lb_UnlockHeight = 9\<rparr>]"
  unfolding first_genesis
  by (simp add: LockedBalancesByHeight_def example_store_def iterate_def example_StoreExt_def
      example_keys_def List.map_filter_def toLockedBalanceHeightPrefix_eq has_prefix_def
      fromLockedBalanceHeightKey_def go_copy_def make_bytes_def example_AmountOps_def
      PutUint32_9 Uint32_def height_key_def Let_def)


section \<open>Properties of the kernel\<close>

subsection \<open>The signature count\<close>





lemma example_TopRank:
  "TopRank example_cs 0 =
     Inr \<lparr>rank_Address = [0], rank_PublicHash = [9], rank_phase = 1, rank_hashSpace = [0]\<rparr>"
  by (simp add: TopRank_def example_cs_def)





subsection \<open>The working map of \<open>AddTransaction\<close>\<close>

lemma AddTransaction_other_hash:
  "tx_Hash tx \<noteq> h \<Longrightarrow> txWorkingMap (fst (AddTransaction X kn tx sigs)) h = txWorkingMap kn h"
  by (auto simp: AddTransaction_def Let_def split: if_splits sum.splits option.splits prod.splits)

lemma purge_transactions_txWorkingMap:
  "txWorkingMap (purge_transactions X kn txs) h
     = (if h \<in> tx_Hash ` set txs then None else txWorkingMap kn h)"
  by (induction X kn txs rule: purge_transactions.induct) (auto simp: Let_def)

lemma Process_txWorkingMap:
  "txWorkingMap (fst (Process X kn cd UserData)) h
     = (if snd (Process X kn cd UserData) = None \<and> h \<in> tx_Hash ` set (Transactions (cd_Body cd))
        then None else txWorkingMap kn h)"
  by (auto simp: Process_def Let_def purge_transactions_txWorkingMap
           split: if_splits sum.splits option.splits prod.splits)

lemma GenerateBlock_txWorkingMap:
  "txWorkingMap (fst (GenerateBlock X kn ticks ctx TimeoutCount Timestamp Formulator)) = txWorkingMap kn"
  by (simp add: GenerateBlock_def Let_def split_beta split: sum.splits)

text \<open>
  C9, as amended.  A call of \<open>AddTransaction\<close> that puts the hash into \<open>txWorkingMap\<close> and
  then fails, with whatever error, leaves the hash in the map.  While the hash is in the
  map, a call of \<open>AddTransaction\<close> for that transaction that gets past the two guards
  before the working map (the kernel is open, the queue holds at most 65535 entries)
  returns \<open>ErrProcessingTransaction\<close> and changes nothing; on a closed kernel the call
  returns \<open>ErrKernelClosed\<close> and on a queue above the bound \<open>ErrTxQueueOverflowed\<close>.  The hash
  leaves the map when \<open>AddTransaction\<close> succeeds or when \<open>Process\<close> commits a block that
  contains the transaction; \<open>AddTransaction\<close> for a transaction with another hash, a
  failing \<open>Process\<close>, a \<open>Process\<close> of a block without the transaction, \<open>Close\<close> and
  \<open>GenerateBlock\<close> leave its entry as it is.
\<close>

theorem failed_AddTransaction_keeps_working_entry:
  "(\<not> kn_isClose kn \<and> k_queue_Size X (kn_txQueue kn) \<le> 65535 \<and>
    txWorkingMap kn (tx_Hash tx) = None \<and> snd (AddTransaction X kn tx sigs) \<noteq> None \<longrightarrow>
      txWorkingMap (fst (AddTransaction X kn tx sigs)) (tx_Hash tx) = Some True) \<and>
   (\<not> kn_isClose kn \<and> k_queue_Size X (kn_txQueue kn) \<le> 65535 \<and>
    txWorkingMap kn (tx_Hash tx) \<noteq> None \<longrightarrow>
      AddTransaction X kn tx sigs = (kn, Some ErrProcessingTransaction)) \<and>
   (kn_isClose kn \<longrightarrow> AddTransaction X kn tx sigs = (kn, Some ErrKernelClosed)) \<and>
   (\<not> kn_isClose kn \<and> 65535 < k_queue_Size X (kn_txQueue kn) \<longrightarrow>
      AddTransaction X kn tx sigs = (kn, Some ErrTxQueueOverflowed)) \<and>
   (snd (AddTransaction X kn tx sigs) = None \<longrightarrow>
      txWorkingMap (fst (AddTransaction X kn tx sigs)) (tx_Hash tx) = None) \<and>
   (tx_Hash tx' \<noteq> tx_Hash tx \<longrightarrow>
      txWorkingMap (fst (AddTransaction X kn tx' sigs')) (tx_Hash tx) = txWorkingMap kn (tx_Hash tx)) \<and>
   (snd (Process X kn cd UserData) = None \<and> tx \<in> set (Transactions (cd_Body cd)) \<longrightarrow>
      txWorkingMap (fst (Process X kn cd UserData)) (tx_Hash tx) = None) \<and>
   (\<not> (snd (Process X kn cd UserData) = None \<and>
       tx_Hash tx \<in> tx_Hash ` set (Transactions (cd_Body cd))) \<longrightarrow>
      txWorkingMap (fst (Process X kn cd UserData)) (tx_Hash tx) = txWorkingMap kn (tx_Hash tx)) \<and>
   txWorkingMap (Kernel_Close kn) = txWorkingMap kn \<and>
   txWorkingMap (fst (GenerateBlock X kn ticks ctx TimeoutCount Timestamp Formulator)) = txWorkingMap kn"
proof (intro conjI impI)
  assume "\<not> kn_isClose kn \<and> k_queue_Size X (kn_txQueue kn) \<le> 65535 \<and>
    txWorkingMap kn (tx_Hash tx) = None \<and> snd (AddTransaction X kn tx sigs) \<noteq> None"
  then show "txWorkingMap (fst (AddTransaction X kn tx sigs)) (tx_Hash tx) = Some True"
    by (auto simp: AddTransaction_def Let_def split: if_splits sum.splits option.splits prod.splits)
next
  assume "\<not> kn_isClose kn \<and> k_queue_Size X (kn_txQueue kn) \<le> 65535 \<and>
    txWorkingMap kn (tx_Hash tx) \<noteq> None"
  then show "AddTransaction X kn tx sigs = (kn, Some ErrProcessingTransaction)"
    by (auto simp: AddTransaction_def Let_def)
next
  assume "kn_isClose kn"
  then show "AddTransaction X kn tx sigs = (kn, Some ErrKernelClosed)"
    by (simp add: AddTransaction_def)
next
  assume "\<not> kn_isClose kn \<and> 65535 < k_queue_Size X (kn_txQueue kn)"
  then show "AddTransaction X kn tx sigs = (kn, Some ErrTxQueueOverflowed)"
    by (simp add: AddTransaction_def)
next
  assume "snd (AddTransaction X kn tx sigs) = None"
  then show "txWorkingMap (fst (AddTransaction X kn tx sigs)) (tx_Hash tx) = None"
    by (auto simp: AddTransaction_def Let_def split: if_splits sum.splits option.splits prod.splits)
next
  assume "tx_Hash tx' \<noteq> tx_Hash tx"
  then show "txWorkingMap (fst (AddTransaction X kn tx' sigs')) (tx_Hash tx) = txWorkingMap kn (tx_Hash tx)"
    by (rule AddTransaction_other_hash)
next
  assume "snd (Process X kn cd UserData) = None \<and> tx \<in> set (Transactions (cd_Body cd))"
  then show "txWorkingMap (fst (Process X kn cd UserData)) (tx_Hash tx) = None"
    by (simp add: Process_txWorkingMap)
next
  assume "\<not> (snd (Process X kn cd UserData) = None \<and>
       tx_Hash tx \<in> tx_Hash ` set (Transactions (cd_Body cd)))"
  then show "txWorkingMap (fst (Process X kn cd UserData)) (tx_Hash tx) = txWorkingMap kn (tx_Hash tx)"
    by (auto simp: Process_txWorkingMap)
next
  show "txWorkingMap (Kernel_Close kn) = txWorkingMap kn"
    by (simp add: Kernel_Close_def)
next
  show "txWorkingMap (fst (GenerateBlock X kn ticks ctx TimeoutCount Timestamp Formulator)) = txWorkingMap kn"
    by (rule GenerateBlock_txWorkingMap)
qed

lemma example_AddTransaction_fails:
  "AddTransaction example_KernelExt example_kernel example_tx [] =
     (example_kernel\<lparr>txWorkingMap := [[42] \<mapsto> True]\<rparr>, Some (ErrOther 5))"
  by (simp add: AddTransaction_def example_kernel_def example_KernelExt_def example_tx_def
      check_kind_def Let_def)

lemma ProcessContext_no_created:
  "unat (hd_TimeoutCount bh) < length (candidates cs) \<Longrightarrow> CreatedAccountMap ctd = [] \<Longrightarrow>
     snd (ProcessContext lessf dh cs ctd H bh) = None"
  by (simp add: ProcessContext_def forwardCandidates_def Let_def)

lemma example_ProcessContext:
  "snd (ProcessContext lessf dh example_cs (empty_ctd :: nat ContextData) H example_header) = None"
  by (rule ProcessContext_no_created) (simp_all add: example_header_def example_cs_def empty_ctd_def)

lemma example_StoreData:
  "snd (StoreData example_AmountOps example_StoreExt example_store cd (empty_ctd :: nat ContextData) cm) = None"
  by (simp add: StoreData_def example_store_def applyContextData_def empty_ctd_def Let_def)

lemma example_Process_commits:
  "snd (Process example_KernelExt (example_kernel\<lparr>txWorkingMap := [[42] \<mapsto> True]\<rparr>)
          (example_bundle [[9], [1], [2]]) None) = None"
proof -
  have hdr: "hd_TimeoutCount example_header = 0"
      "hd_ChainCoord example_header = \<lparr>coord_Height = 0, coord_Index = 0\<rparr>"
    by (simp_all add: example_header_def)
  show ?thesis
    by (simp add: Process_def example_kernel_def example_KernelExt_def example_bundle_def
        map_len_def example_majority_def Let_def split_beta hdr example_TopRank
        example_ProcessContext example_StoreData)
qed

theorem failed_AddTransaction_keeps_working_entry_witness:
  "\<not> kn_isClose example_kernel \<and> k_queue_Size example_KernelExt (kn_txQueue example_kernel) \<le> 65535 \<and>
   txWorkingMap example_kernel (tx_Hash example_tx) = None \<and>
   snd (AddTransaction example_KernelExt example_kernel example_tx []) = Some (ErrOther 5) \<and>
   (let kn1 = fst (AddTransaction example_KernelExt example_kernel example_tx []) in
      txWorkingMap kn1 (tx_Hash example_tx) = Some True \<and>
      AddTransaction example_KernelExt kn1 example_tx [[9]] = (kn1, Some ErrProcessingTransaction) \<and>
      example_tx \<in> set (Transactions (cd_Body (example_bundle [[9], [1], [2]]))) \<and>
      snd (Process example_KernelExt kn1 (example_bundle [[9], [1], [2]]) None) = None \<and>
      txWorkingMap (fst (Process example_KernelExt kn1 (example_bundle [[9], [1], [2]]) None))
        (tx_Hash example_tx) = None)"
proof -
  define kn1 where "kn1 = fst (AddTransaction example_KernelExt example_kernel example_tx [])"
  have kn1_eq: "kn1 = example_kernel\<lparr>txWorkingMap := [[42] \<mapsto> True]\<rparr>"
    by (simp add: kn1_def example_AddTransaction_fails)
  have g: "\<not> kn_isClose example_kernel"
      "k_queue_Size example_KernelExt (kn_txQueue example_kernel) \<le> 65535"
      "txWorkingMap example_kernel (tx_Hash example_tx) = None"
    by (simp_all add: example_kernel_def example_KernelExt_def)
  have e1: "snd (AddTransaction example_KernelExt example_kernel example_tx []) = Some (ErrOther 5)"
    by (simp add: example_AddTransaction_fails)
  have g1: "\<not> kn_isClose kn1" "k_queue_Size example_KernelExt (kn_txQueue kn1) \<le> 65535"
    by (simp_all add: kn1_eq example_kernel_def example_KernelExt_def)
  have mem: "example_tx \<in> set (Transactions (cd_Body (example_bundle [[9], [1], [2]])))"
    by (simp add: example_bundle_def)
  have p: "snd (Process example_KernelExt kn1 (example_bundle [[9], [1], [2]]) None) = None"
    unfolding kn1_eq by (rule example_Process_commits)
  have w1: "txWorkingMap kn1 (tx_Hash example_tx) = Some True"
    using failed_AddTransaction_keeps_working_entry
            [where X = example_KernelExt and kn = example_kernel and tx = example_tx and sigs = "[]"]
          g e1
    by (simp add: kn1_def)
  have w2: "AddTransaction example_KernelExt kn1 example_tx [[9]] = (kn1, Some ErrProcessingTransaction)"
    using failed_AddTransaction_keeps_working_entry
            [where X = example_KernelExt and kn = kn1 and tx = example_tx and sigs = "[[9]]"]
          g1 w1
    by simp
  have w3: "txWorkingMap (fst (Process example_KernelExt kn1 (example_bundle [[9], [1], [2]]) None))
        (tx_Hash example_tx) = None"
    using failed_AddTransaction_keeps_working_entry
            [where X = example_KernelExt and kn = kn1 and tx = example_tx
               and cd = "example_bundle [[9], [1], [2]]" and UserData = None]
          p mem
    by simp
  show ?thesis
    unfolding Let_def kn1_def[symmetric]
    using g e1 w1 w2 w3 mem p by simp
qed

text \<open>
  C9 as stated fails: not every later call returns \<open>ErrProcessingTransaction\<close>.  After a
  first call that failed in the transactor's validation, with the hash left in the working
  map, a call on the kernel once closed returns \<open>ErrKernelClosed\<close>, and a call while the
  queue holds 65536 entries returns \<open>ErrTxQueueOverflowed\<close>.
\<close>

theorem closed_kernel_AddTransaction_counterexample:
  "snd (AddTransaction example_KernelExt example_kernel example_tx []) = Some (ErrOther 5) \<and>
   txWorkingMap (fst (AddTransaction example_KernelExt example_kernel example_tx [])) (tx_Hash example_tx)
     = Some True \<and>
   snd (AddTransaction example_KernelExt
          (Kernel_Close (fst (AddTransaction example_KernelExt example_kernel example_tx [])))
          example_tx [])
     = Some ErrKernelClosed \<and>
   snd (AddTransaction example_KernelExt
          ((fst (AddTransaction example_KernelExt example_kernel example_tx []))
             \<lparr>kn_txQueue := replicate 65536 [7]\<rparr>)
          example_tx [])
     = Some ErrTxQueueOverflowed"
proof -
  have h: "tx_Hash example_tx = [42]" by (simp add: example_tx_def)
  have closed: "snd (AddTransaction example_KernelExt
          (Kernel_Close (example_kernel\<lparr>txWorkingMap := [[42] \<mapsto> True]\<rparr>)) example_tx [])
     = Some ErrKernelClosed"
    by (simp add: AddTransaction_def Kernel_Close_def)
  have full: "snd (AddTransaction example_KernelExt
          (example_kernel\<lparr>txWorkingMap := [[42] \<mapsto> True], kn_txQueue := replicate 65536 [7]\<rparr>)
          example_tx [])
     = Some ErrTxQueueOverflowed"
    by (simp add: AddTransaction_def example_KernelExt_def example_kernel_def)
  show ?thesis
    unfolding example_AddTransaction_fails using closed full by (simp add: h)
qed

subsection \<open>Generating a block\<close>







section \<open>Properties of the rewarder save data\<close>

lemma inner_loop_result:
  assumes "inner_loop n readAmount j Len2 i r pm = Some y"
  shows "j < Len2 \<longrightarrow> (\<exists>e. snd (snd y) = Inl e)"
  by (rule inner_loop.raw_induct[where P = "\<lambda>n readAmount j Len2 i r pm y. j < Len2 \<longrightarrow> (\<exists>e. snd (snd y) = Inl e)", OF _ assms])
     (auto split: if_splits sum.splits prod.splits)

lemma inner_loop_done:
  assumes "inner_loop n readAmount j Len2 i r pm = Some y"
  shows "(\<exists>r'. snd (snd y) = Inr r') \<longrightarrow> \<not> j < Len2 \<and> fst (snd y) = pm"
  by (rule inner_loop.raw_induct[where P = "\<lambda>n readAmount j Len2 i r pm y. (\<exists>r'. snd (snd y) = Inr r') \<longrightarrow> \<not> j < Len2 \<and> fst (snd y) = pm", OF _ assms])
     (auto split: if_splits sum.splits prod.splits)

lemma outer_loop_success:
  assumes "outer_loop n readAmount i Len r spm = Some y"
  shows "snd y = None \<longrightarrow> (\<forall>a m. fst y a = Some m \<longrightarrow> m = Map.empty \<or> spm a = Some m)"
proof (rule outer_loop.raw_induct[where P = "\<lambda>n readAmount i Len r spm y. snd y = None \<longrightarrow> (\<forall>a m. fst y a = Some m \<longrightarrow> m = Map.empty \<or> spm a = Some m)", OF _ assms], goal_cases)
  case (1 ol n readAmount i Len r spm y)
  show ?case
  proof (cases "i < Len")
    case False
    with 1(2) show ?thesis by auto
  next
    case True
    show ?thesis
    proof (cases "read_n n r")
      case (Inl e)
      with 1(2) True show ?thesis by auto
    next
      case (Inr ar)
      obtain addr r1 where ar: "ar = (addr, r1)" by (cases ar)
      show ?thesis
      proof (cases "ReadUint32 r1")
        case (Inl e)
        with 1(2) True Inr ar show ?thesis by auto
      next
        case rl: (Inr lr)
        obtain Len2 r2 where lr: "lr = (Len2, r2)" by (cases lr)
        show ?thesis
        proof (cases "inner_loop n readAmount 0 (int (unat Len2)) i r2 Map.empty")
          case None
          with 1(2) True Inr ar rl lr show ?thesis by auto
        next
          case (Some z)
          obtain i1 pm res where z: "z = (i1, pm, res)" by (cases z)
          show ?thesis
          proof (cases res)
            case (Inl e)
            with 1(2) True Inr ar rl lr Some z show ?thesis by auto
          next
            case ir: (Inr r3)
            from inner_loop_done[OF Some] z ir have pm: "pm = Map.empty" by simp
            from 1(2) True Inr ar rl lr Some z ir
            have "ol n readAmount (i1 + 1) Len r3 (spm(addr \<mapsto> pm)) = Some y" by simp
            from 1(1)[OF this] pm show ?thesis by (auto split: if_splits)
          qed
        qed
      qed
    qed
  qed
qed

lemma LoadFromSaveData_success:
  assumes "LoadFromSaveData n readAmount rd SaveData = Some (rd', None)"
  shows "\<forall>a m. StakingPowerMap rd' a = Some m \<longrightarrow> m = Map.empty"
  using assms
  by (auto simp: LoadFromSaveData_def Let_def Option.bind_eq_Some_conv
           split: sum.splits prod.splits dest!: outer_loop_success)

lemma inner_loop_returns_error:
  assumes n: "0 < n"
    and ra: "\<And>r v r'. readAmount r = Inr (v, r') \<Longrightarrow> length r' \<le> length r"
    and j: "j < Len2"
  shows "\<exists>i' pm' e. inner_loop n readAmount j Len2 i r pm = Some (i', pm', Inl e)"
proof (induction "length r" arbitrary: r i pm rule: less_induct)
  case less
  show ?case
  proof (cases "read_n n r")
    case (Inl e)
    with j show ?thesis by (subst inner_loop.simps) simp
  next
    case (Inr ar)
    obtain a r1 where ar: "ar = (a, r1)" by (cases ar)
    from Inr ar n have l1: "length r1 < length r"
      by (auto simp: read_n_def split: if_splits)
    show ?thesis
    proof (cases "readAmount r1")
      case (Inl e)
      with j Inr ar show ?thesis by (subst inner_loop.simps) simp
    next
      case ir: (Inr vr)
      obtain v r2 where vr: "vr = (v, r2)" by (cases vr)
      from ra ir vr have "length r2 \<le> length r1" by blast
      with l1 have "length r2 < length r" by simp
      from less[OF this, of "i + 1" "pm(a \<mapsto> v)"]
      show ?thesis using j Inr ar ir vr by (subst inner_loop.simps) simp
    qed
  qed
qed

lemma inner_loop_own_index_completes:
  assumes wa: "\<And>v rest. readAmount (writeAmount v @ rest) = Inr (v, rest)"
    and sz: "\<forall>(a, v) \<in> set es. length a = n"
  shows "inner_loop_own_index n readAmount (length es) (write_entries writeAmount es @ rest) pm
         = (fold (\<lambda>(a, v) m. m(a \<mapsto> v)) es pm, Inr rest)"
  using sz
proof (induction es arbitrary: pm)
  case Nil
  show ?case by (simp add: write_entries_def)
next
  case (Cons e es)
  obtain a v where e: "e = (a, v)" by (cases e)
  from Cons.prems e have la: "length a = n" and rest: "\<forall>(a, v) \<in> set es. length a = n" by auto
  have rd: "read_n n (a @ writeAmount v @ write_entries writeAmount es @ rest)
            = Inr (a, writeAmount v @ write_entries writeAmount es @ rest)"
    using la by (simp add: read_n_def)
  have we: "write_entries writeAmount (e # es) @ rest
            = a @ writeAmount v @ write_entries writeAmount es @ rest"
    by (simp add: write_entries_def e)
  have "inner_loop_own_index n readAmount (length (e # es)) (write_entries writeAmount (e # es) @ rest) pm
        = inner_loop_own_index n readAmount (length es) (write_entries writeAmount es @ rest) (pm(a \<mapsto> v))"
    unfolding we by (simp add: rd wa)
  also have "\<dots> = (fold (\<lambda>(a, v) m. m(a \<mapsto> v)) es (pm(a \<mapsto> v)), Inr rest)"
    by (rule Cons.IH[OF rest])
  finally have run: "inner_loop_own_index n readAmount (length (e # es))
                        (write_entries writeAmount (e # es) @ rest) pm
                      = (fold (\<lambda>(a, v) m. m(a \<mapsto> v)) es (pm(a \<mapsto> v)), Inr rest)" .
  have f: "fold (\<lambda>(a, v) m. m(a \<mapsto> v)) (e # es) pm
           = fold (\<lambda>(a, v) m. m(a \<mapsto> v)) es (pm(a \<mapsto> v))"
    unfolding e by simp
  show ?case unfolding f by (rule run)
qed

lemma PutUint32_small: "PutUint32 0 = [0,0,0,0]" "PutUint32 1 = [1,0,0,0]" "PutUint32 7 = [7,0,0,0]"
  by (simp_all add: PutUint32_def)

lemma Uint32_small: "Uint32 [0,0,0,0] = 0" "Uint32 [1,0,0,0] = 1" "Uint32 [7,0,0,0] = 7"
  by (simp_all add: Uint32_def)

lemma example_inner_loop:
  "inner_loop 1 example_readAmount 0 1 0 [2, 5] Map.empty
     = Some (1, [[2] \<mapsto> 5], Inl ErrUnexpectedEOF)"
  by (simp add: inner_loop.simps read_n_def example_readAmount_def)

lemma example_load_fails:
  "LoadFromSaveData 1 example_readAmount example_rewarder (example_save_data 1 [2, 5])
     = Some (example_rewarder\<lparr>LastPaidHeight := 7\<rparr>, Some ErrUnexpectedEOF)"
  by (simp add: LoadFromSaveData_def example_save_data_def PutUint32_small ReadUint32_def read_n_def
        Uint32_small outer_loop.simps example_inner_loop[simplified] example_rewarder_def)

lemma example_load_empty_inner:
  "LoadFromSaveData 1 example_readAmount example_rewarder (example_save_data 0 [])
     = Some (example_rewarder\<lparr>LastPaidHeight := 7, StakingPowerMap := [[1] \<mapsto> Map.empty]\<rparr>, None)"
  by (simp add: LoadFromSaveData_def example_save_data_def PutUint32_small ReadUint32_def read_n_def
        Uint32_small outer_loop.simps inner_loop.simps example_rewarder_def)

text \<open>
  C7.  The inner loop of the staking-power section tests \<open>j\<close> and increments the outer
  counter \<open>i\<close>.  Whenever it is entered with \<open>j < Len2\<close>, so for every inner map with
  \<open>Len2 > 0\<close>, it never ends normally: if it returns, it returns an error.  With addresses
  of at least one byte and an amount reader that does not lengthen its input it does
  return, with the error of the first read that fails.  So a \<open>LoadFromSaveData\<close> that
  succeeds has stored only empty inner maps.  The loop on its own index reads \<open>Len2\<close>
  well-formed entries and ends normally, with the map of the entries and the rest of the
  input.
\<close>

theorem inner_loop_shares_outer_counter:
  "(j < Len2 \<and> inner_loop n readAmount j Len2 i r pm = Some (i', pm', res) \<longrightarrow> (\<exists>e. res = Inl e)) \<and>
   (0 < n \<and> (\<forall>r v r'. readAmount r = Inr (v, r') \<longrightarrow> length r' \<le> length r) \<and> j < Len2 \<longrightarrow>
      (\<exists>i' pm' e. inner_loop n readAmount j Len2 i r pm = Some (i', pm', Inl e))) \<and>
   (LoadFromSaveData n readAmount rd SaveData = Some (rd', None) \<longrightarrow>
      (\<forall>a m. StakingPowerMap rd' a = Some m \<longrightarrow> m = Map.empty)) \<and>
   ((\<forall>v rest. readAmount (writeAmount v @ rest) = Inr (v, rest)) \<and>
    (\<forall>(a, v) \<in> set es. length a = n) \<longrightarrow>
      inner_loop_own_index n readAmount (length es) (write_entries writeAmount es @ rest) pm
        = (fold (\<lambda>(a, v) m. m(a \<mapsto> v)) es pm, Inr rest))"
proof (intro conjI impI)
  assume a: "j < Len2 \<and> inner_loop n readAmount j Len2 i r pm = Some (i', pm', res)"
  from inner_loop_result[of n readAmount j Len2 i r pm "(i', pm', res)"] a
  show "\<exists>e. res = Inl e" by simp
next
  assume a: "0 < n \<and> (\<forall>r v r'. readAmount r = Inr (v, r') \<longrightarrow> length r' \<le> length r) \<and> j < Len2"
  then show "\<exists>i' pm' e. inner_loop n readAmount j Len2 i r pm = Some (i', pm', Inl e)"
    by (intro inner_loop_returns_error) blast+
next
  assume "LoadFromSaveData n readAmount rd SaveData = Some (rd', None)"
  then show "\<forall>a m. StakingPowerMap rd' a = Some m \<longrightarrow> m = Map.empty"
    by (rule LoadFromSaveData_success)
next
  assume a: "(\<forall>v rest. readAmount (writeAmount v @ rest) = Inr (v, rest)) \<and>
    (\<forall>(a, v) \<in> set es. length a = n)"
  then show "inner_loop_own_index n readAmount (length es) (write_entries writeAmount es @ rest) pm
        = (fold (\<lambda>(a, v) m. m(a \<mapsto> v)) es pm, Inr rest)"
    by (intro inner_loop_own_index_completes) blast+
qed

theorem inner_loop_shares_outer_counter_witness:
  "inner_loop 1 example_readAmount 0 1 0 [2, 5] Map.empty
     = Some (1, [[2] \<mapsto> 5], Inl ErrUnexpectedEOF) \<and>
   inner_loop_own_index 1 example_readAmount 1 [2, 5] Map.empty = ([[2] \<mapsto> 5], Inr []) \<and>
   LoadFromSaveData 1 example_readAmount example_rewarder (example_save_data 1 [2, 5])
     = Some (example_rewarder\<lparr>LastPaidHeight := 7\<rparr>, Some ErrUnexpectedEOF) \<and>
   LoadFromSaveData 1 example_readAmount example_rewarder (example_save_data 0 [])
     = Some (example_rewarder\<lparr>LastPaidHeight := 7, StakingPowerMap := [[1] \<mapsto> Map.empty]\<rparr>, None) \<and>
   the (StakingPowerMap (example_rewarder\<lparr>LastPaidHeight := 7, StakingPowerMap := [[1] \<mapsto> Map.empty]\<rparr>) [1])
     = Map.empty"
proof -
  have shrink: "\<forall>r v r'. example_readAmount r = Inr (v, r') \<longrightarrow> length r' \<le> length r"
    by (auto simp: example_readAmount_def split: list.splits)
  have law: "\<forall>v rest. example_readAmount ((\<lambda>v. [v]) v @ rest) = Inr (v, rest)"
    by (simp add: example_readAmount_def)
  have sz: "\<forall>(a, v) \<in> set [([2::byte], 5::byte)]. length a = 1" by simp
  note t = inner_loop_shares_outer_counter
             [where n = 1 and readAmount = example_readAmount and j = 0 and ?Len2.0 = 1 and i = 0
                and r = "[2, 5]" and pm = Map.empty and i' = 1 and pm' = "[[2] \<mapsto> 5]"
                and res = "Inl ErrUnexpectedEOF" and rd = example_rewarder
                and SaveData = "example_save_data 0 []"
                and rd' = "example_rewarder\<lparr>LastPaidHeight := 7, StakingPowerMap := [[1] \<mapsto> Map.empty]\<rparr>"
                and writeAmount = "\<lambda>v. [v]" and es = "[([2], 5)]" and rest = "[]"]
  from t example_load_empty_inner
  have maps: "\<forall>a m. StakingPowerMap (example_rewarder\<lparr>LastPaidHeight := 7, StakingPowerMap := [[1] \<mapsto> Map.empty]\<rparr>) a
            = Some m \<longrightarrow> m = Map.empty"
    by blast
  have stored: "StakingPowerMap (example_rewarder\<lparr>LastPaidHeight := 7, StakingPowerMap := [[1] \<mapsto> Map.empty]\<rparr>) [1]
                  \<noteq> None"
    by simp
  from maps stored
  have inner: "the (StakingPowerMap (example_rewarder\<lparr>LastPaidHeight := 7, StakingPowerMap := [[1] \<mapsto> Map.empty]\<rparr>) [1])
                 = Map.empty"
    by (metis option.collapse)
  from t law sz
  have own: "inner_loop_own_index 1 example_readAmount (length [([2::byte], 5::byte)])
               (write_entries (\<lambda>v. [v]) [([2], 5)] @ []) Map.empty
             = (fold (\<lambda>(a, v) m. m(a \<mapsto> v)) [([2], 5)] Map.empty, Inr [])"
    by blast
  then have own': "inner_loop_own_index 1 example_readAmount 1 [2, 5] Map.empty = ([[2] \<mapsto> 5], Inr [])"
    by (simp add: write_entries_def)
  show ?thesis
    using example_inner_loop own' example_load_fails example_load_empty_inner inner by blast
qed


section \<open>Properties of the wire codecs\<close>

lemma Uint16_PutUint16: "Uint16 (PutUint16 v @ rest) = v"
proof (rule bit_word_eqI)
  fix n assume "n < LENGTH(16)"
  then consider "n < 8" | "8 \<le> n" "n < 16" by fastforce
  then show "bit (Uint16 (PutUint16 v @ rest)) n = bit v n"
    unfolding Uint16_def PutUint16_def
    by cases (auto simp: bit_simps)
qed

lemma Uint32_PutUint32: "Uint32 (PutUint32 v @ rest) = v"
proof (rule bit_word_eqI)
  fix n assume "n < LENGTH(32)"
  then consider "n < 8" | "8 \<le> n" "n < 16" | "16 \<le> n" "n < 24" | "24 \<le> n" "n < 32" by fastforce
  then show "bit (Uint32 (PutUint32 v @ rest)) n = bit v n"
    unfolding Uint32_def PutUint32_def
    by cases (auto simp: bit_simps)
qed

lemma Uint64_PutUint64: "Uint64 (PutUint64 v @ rest) = v"
proof (rule bit_word_eqI)
  fix n assume "n < LENGTH(64)"
  then consider "n < 8" | "8 \<le> n" "n < 16" | "16 \<le> n" "n < 24" | "24 \<le> n" "n < 32"
    | "32 \<le> n" "n < 40" | "40 \<le> n" "n < 48" | "48 \<le> n" "n < 56" | "56 \<le> n" "n < 64"
    by fastforce
  then show "bit (Uint64 (PutUint64 v @ rest)) n = bit v n"
    unfolding Uint64_def PutUint64_def
    by cases (auto simp: bit_simps)
qed

lemma read_n_append: "length a = n \<Longrightarrow> read_n n (a @ rest) = Inr (a, rest)"
  by (simp add: read_n_def)

lemma ReadUint16_PutUint16: "ReadUint16 (PutUint16 v @ rest) = Inr (v, rest)"
  using Uint16_PutUint16[of v "[]"] read_n_append[of "PutUint16 v" 2 rest]
  by (simp add: ReadUint16_def PutUint16_def)

lemma ReadUint32_PutUint32: "ReadUint32 (PutUint32 v @ rest) = Inr (v, rest)"
  using Uint32_PutUint32[of v "[]"] read_n_append[of "PutUint32 v" 4 rest]
  by (simp add: ReadUint32_def PutUint32_def)

lemma ReadUint64_PutUint64: "ReadUint64 (PutUint64 v @ rest) = Inr (v, rest)"
  using Uint64_PutUint64[of v "[]"] read_n_append[of "PutUint64 v" 8 rest]
  by (simp add: ReadUint64_def PutUint64_def)

lemma ReadBool_WriteBool: "ReadBool (WriteBool b @ rest) = Inr (b, rest)"
  by (simp add: ReadBool_def WriteBool_def read_n_def)

lemma ReadUint8_WriteUint8: "ReadUint8 (WriteUint8 v @ rest) = Inr (v, rest)"
  by (simp add: ReadUint8_def WriteUint8_def read_n_def)

lemma Coordinate_roundtrip: "Coordinate_ReadFrom (Coordinate_WriteTo c @ rest) = Inr (c, rest)"
  by (simp add: Coordinate_ReadFrom_def Coordinate_WriteTo_def ReadUint32_PutUint32
      ReadUint16_PutUint16)

lemma read_addresses_concat:
  "\<forall>a \<in> set xs. length a = n \<Longrightarrow>
     read_addresses n (length xs) addrs (concat xs @ rest) = (addrs @ xs, Inr rest)"
  by (induction xs arbitrary: addrs) (simp_all add: read_n_append)

lemma read_addresses_length:
  "length (fst (read_addresses n k addrs r)) \<le> length addrs + k"
proof (induction k arbitrary: addrs r)
  case 0
  show ?case by simp
next
  case (Suc k)
  show ?case
  proof (cases "read_n n r")
    case (Inl e)
    then show ?thesis by simp
  next
    case (Inr ar)
    obtain a r1 where "ar = (a, r1)" by (cases ar)
    with Inr Suc[of "addrs @ [a]" r1] show ?thesis by simp
  qed
qed

lemmas codec_roundtrips =
  read_n_append ReadUint32_PutUint32 ReadUint64_PutUint64 ReadBool_WriteBool
  ReadUint8_WriteUint8 Coordinate_roundtrip

lemma RoundVote_roundtrip:
  assumes "length (rv_LastHash vt) = 32" "length (rv_Formulator vt) = w_AddressSize W"
    "length (rv_FormulatorPublicHash vt) = w_PublicHashSize W"
  shows "RoundVote_ReadFrom W vt0 (RoundVote_WriteTo vt @ rest) = (vt, Inr rest)"
  using assms
  by (cases vt; cases vt0)
     (simp add: RoundVote_ReadFrom_def RoundVote_WriteTo_def codec_roundtrips)

lemma RoundVoteAck_roundtrip:
  assumes "length (ack_Formulator vt) = w_AddressSize W"
    "length (ack_FormulatorPublicHash vt) = w_PublicHashSize W"
    "length (ack_PublicHash vt) = w_PublicHashSize W"
  shows "RoundVoteAck_ReadFrom W vt0 (RoundVoteAck_WriteTo vt @ rest) = (vt, Inr rest)"
  using assms
  by (cases vt; cases vt0)
     (simp add: RoundVoteAck_ReadFrom_def RoundVoteAck_WriteTo_def codec_roundtrips)

lemma BlockVote_roundtrip:
  assumes "Header_roundtrip W (bv_Header vt)"
    "length (bv_GeneratorSignature vt) = w_SignatureSize W"
    "length (bv_ObserverSignature vt) = w_SignatureSize W"
  shows "BlockVote_ReadFrom W vt0 (BlockVote_WriteTo W vt @ rest) = (vt, Inr rest)"
  using assms
  by (cases vt; cases vt0)
     (simp add: BlockVote_ReadFrom_def BlockVote_WriteTo_def codec_roundtrips Header_roundtrip_def)

lemma Unstaking_roundtrip:
  assumes "Base_roundtrip W (us_Base tx)" "Amount_roundtrip W (us_Amount tx)"
    "length (us_From tx) = w_AddressSize W" "length (us_HyperFormulator tx) = w_AddressSize W"
  shows "Unstaking_ReadFrom W tx0 (Unstaking_WriteTo W tx @ rest) = (tx, Inr rest)"
  using assms
  by (cases tx; cases tx0)
     (simp add: Unstaking_ReadFrom_def Unstaking_WriteTo_def codec_roundtrips
        Base_roundtrip_def Amount_roundtrip_def)

lemma Staking_roundtrip:
  assumes "Base_roundtrip W (sk_Base tx)" "Amount_roundtrip W (sk_Amount tx)"
    "length (sk_From tx) = w_AddressSize W" "length (sk_HyperFormulator tx) = w_AddressSize W"
  shows "Staking_ReadFrom W tx0 (Staking_WriteTo W tx @ rest) = (tx, Inr rest)"
  using assms
  by (cases tx; cases tx0)
     (simp add: Staking_ReadFrom_def Staking_WriteTo_def codec_roundtrips
        Base_roundtrip_def Amount_roundtrip_def)

lemma CreateFormulation_roundtrip:
  assumes "Base_roundtrip W (cf_Base tx)" "String_roundtrip W (cf_Name tx)"
    "length (cf_From tx) = w_AddressSize W" "length (cf_KeyHash tx) = w_PublicHashSize W"
  shows "CreateFormulation_ReadFrom W tx0 (CreateFormulation_WriteTo W tx @ rest) = (tx, Inr rest)"
  using assms
  by (cases tx; cases tx0)
     (simp add: CreateFormulation_ReadFrom_def CreateFormulation_WriteTo_def codec_roundtrips
        Base_roundtrip_def String_roundtrip_def)

lemma CreateFormulation2_roundtrip:
  assumes "Base_roundtrip W (cf2_Base tx)" "String_roundtrip W (cf2_Name tx)"
    "length (cf2_From tx) = w_AddressSize W" "length (cf2_KeyHash tx) = w_PublicHashSize W"
  shows "CreateFormulation2_ReadFrom W tx0 (CreateFormulation2_WriteTo W tx @ rest) = (tx, Inr rest)"
  using assms
  by (cases tx; cases tx0)
     (simp add: CreateFormulation2_ReadFrom_def CreateFormulation2_WriteTo_def codec_roundtrips
        Base_roundtrip_def String_roundtrip_def)

lemma unat_of_nat_8: "n < 256 \<Longrightarrow> unat (of_nat n :: 8 word) = n"
  by (simp add: unsigned_of_nat take_bit_nat_eq_self)

lemma CreateSigma_roundtrip:
  assumes "Base_roundtrip W (sg_Base tx)" "length (sg_From tx) = w_AddressSize W"
    "\<forall>a \<in> set (AlphaFormulators tx). length a = w_AddressSize W"
    "length (AlphaFormulators tx) < 256"
  shows "CreateSigma_ReadFrom W tx0 (CreateSigma_WriteTo W tx @ rest) = (tx, Inr rest)"
  using assms
  by (cases tx; cases tx0)
     (simp add: CreateSigma_ReadFrom_def CreateSigma_WriteTo_def codec_roundtrips
        Base_roundtrip_def unat_of_nat_8 read_addresses_concat)

lemma CreateSigma_truncates:
  assumes "Base_roundtrip W (sg_Base tx)" "length (sg_From tx) = w_AddressSize W"
    "256 \<le> length (AlphaFormulators tx)"
  shows "length (AlphaFormulators (fst (CreateSigma_ReadFrom W tx0 (CreateSigma_WriteTo W tx @ rest)))) < 256"
proof -
  let ?Len = "of_nat (length (AlphaFormulators tx)) :: 8 word"
  have "unat ?Len < 256" using unsigned_less[of ?Len] by simp
  moreover have "length (fst (read_addresses (w_AddressSize W) (unat ?Len) []
                    (concat (AlphaFormulators tx) @ rest))) \<le> unat ?Len"
    using read_addresses_length[of "w_AddressSize W" "unat ?Len" "[]"] by simp
  ultimately show ?thesis
    using assms
    by (simp add: CreateSigma_ReadFrom_def CreateSigma_WriteTo_def codec_roundtrips
        Base_roundtrip_def split_beta)
qed

lemma CreateOmega_roundtrip:
  assumes "Base_roundtrip W (om_Base tx)" "length (om_From tx) = w_AddressSize W"
    "\<forall>a \<in> set (SigmaFormulators tx). length a = w_AddressSize W"
    "length (SigmaFormulators tx) < 256"
  shows "CreateOmega_ReadFrom W tx0 (CreateOmega_WriteTo W tx @ rest) = (tx, Inr rest)"
  using assms
  by (cases tx; cases tx0)
     (simp add: CreateOmega_ReadFrom_def CreateOmega_WriteTo_def codec_roundtrips
        Base_roundtrip_def unat_of_nat_8 read_addresses_concat)

lemma CreateOmega_truncates:
  assumes "Base_roundtrip W (om_Base tx)" "length (om_From tx) = w_AddressSize W"
    "256 \<le> length (SigmaFormulators tx)"
  shows "length (SigmaFormulators (fst (CreateOmega_ReadFrom W tx0 (CreateOmega_WriteTo W tx @ rest)))) < 256"
proof -
  let ?Len = "of_nat (length (SigmaFormulators tx)) :: 8 word"
  have "unat ?Len < 256" using unsigned_less[of ?Len] by simp
  moreover have "length (fst (read_addresses (w_AddressSize W) (unat ?Len) []
                    (concat (SigmaFormulators tx) @ rest))) \<le> unat ?Len"
    using read_addresses_length[of "w_AddressSize W" "unat ?Len" "[]"] by simp
  ultimately show ?thesis
    using assms
    by (simp add: CreateOmega_ReadFrom_def CreateOmega_WriteTo_def codec_roundtrips
        Base_roundtrip_def split_beta)
qed

lemma Revoke_roundtrip:
  assumes "Base_roundtrip W (rvk_Base tx)"
    "length (rvk_From tx) = w_AddressSize W" "length (Heritor tx) = w_AddressSize W"
  shows "Revoke_ReadFrom W tx0 (Revoke_WriteTo W tx @ rest) = (tx, Inr rest)"
  using assms
  by (cases tx; cases tx0)
     (simp add: Revoke_ReadFrom_def Revoke_WriteTo_def codec_roundtrips Base_roundtrip_def)

lemma SingleAccount_roundtrip:
  assumes "Base_roundtrip W (sa_Base tx)"
    "length (sa_From tx) = w_AddressSize W" "length (sa_KeyHash tx) = w_PublicHashSize W"
  shows "SingleAccount_ReadFrom W tx0 (SingleAccount_WriteTo W tx @ rest) = (tx, Inr rest)"
  using assms
  by (cases tx; cases tx0)
     (simp add: SingleAccount_ReadFrom_def SingleAccount_WriteTo_def codec_roundtrips Base_roundtrip_def)

lemma Formulation_roundtrip:
  assumes "Base_roundtrip W (fm_Base tx)"
    "length (fm_PublicKey tx) = w_PublicKeySize W" "length (fm_From tx) = w_AddressSize W"
  shows "Formulation_ReadFrom W tx0 (Formulation_WriteTo W tx @ rest) = (tx, Inr rest)"
  using assms
  by (cases tx; cases tx0)
     (simp add: Formulation_ReadFrom_def Formulation_WriteTo_def codec_roundtrips Base_roundtrip_def)

lemma example_Base_roundtrip: "Base_roundtrip example_WireExt b"
  by (simp add: Base_roundtrip_def example_WireExt_def example_read_byte_def)

lemma example_Amount_roundtrip: "Amount_roundtrip example_WireExt a"
  by (simp add: Amount_roundtrip_def example_WireExt_def example_read_byte_def)

lemma example_Header_roundtrip: "Header_roundtrip example_WireExt h"
  by (simp add: Header_roundtrip_def example_WireExt_def ReadUint32_PutUint32)

lemma example_String_roundtrip: "length s < 256 \<Longrightarrow> String_roundtrip example_WireExt s"
proof -
  assume l: "length s < 256"
  have c: "\<And>c. char_of (unat (of_nat (of_char c) :: 8 word)) = c"
    by (simp add: unsigned_of_nat char_of_take_bit_eq)
  show ?thesis
    using l
    by (simp add: String_roundtrip_def example_WireExt_def example_WriteString_def
        example_ReadString_def unat_of_nat_8 c comp_def)
qed

text \<open>
  C8, as amended.  Every structure of the sources with a \<open>WriteTo\<close> and a \<open>ReadFrom\<close> is
  read back with every field equal to the original, from the bytes \<open>WriteTo\<close> has written
  and whatever follows them on the reader, into whatever receiver: the vote messages
  \<open>RoundVote\<close>, \<open>RoundVoteAck\<close> and \<open>BlockVote\<close> and the transactions \<open>Unstaking\<close>,
  \<open>Staking\<close>, \<open>CreateFormulation\<close> (both declarations), \<open>Revoke\<close>, \<open>SingleAccount\<close> and
  \<open>Formulation\<close>; \<open>CreateSigma\<close> and \<open>CreateOmega\<close> when their list has at most 255
  addresses.  With 256 addresses or more the structure read back is another one: the
  length of the list is written as one byte.  The byte arrays have their sizes, and the
  nested values of the codecs outside the sources round-trip.
\<close>

theorem wire_structures_roundtrip:
  "(length (rv_LastHash rv) = 32 \<and> length (rv_Formulator rv) = w_AddressSize W \<and>
    length (rv_FormulatorPublicHash rv) = w_PublicHashSize W \<longrightarrow>
      RoundVote_ReadFrom W rv0 (RoundVote_WriteTo rv @ rest) = (rv, Inr rest)) \<and>
   (length (ack_Formulator ack) = w_AddressSize W \<and>
    length (ack_FormulatorPublicHash ack) = w_PublicHashSize W \<and>
    length (ack_PublicHash ack) = w_PublicHashSize W \<longrightarrow>
      RoundVoteAck_ReadFrom W ack0 (RoundVoteAck_WriteTo ack @ rest) = (ack, Inr rest)) \<and>
   (Header_roundtrip W (bv_Header bv) \<and> length (bv_GeneratorSignature bv) = w_SignatureSize W \<and>
    length (bv_ObserverSignature bv) = w_SignatureSize W \<longrightarrow>
      BlockVote_ReadFrom W bv0 (BlockVote_WriteTo W bv @ rest) = (bv, Inr rest)) \<and>
   (Base_roundtrip W (us_Base us) \<and> Amount_roundtrip W (us_Amount us) \<and>
    length (us_From us) = w_AddressSize W \<and> length (us_HyperFormulator us) = w_AddressSize W \<longrightarrow>
      Unstaking_ReadFrom W us0 (Unstaking_WriteTo W us @ rest) = (us, Inr rest)) \<and>
   (Base_roundtrip W (sk_Base sk) \<and> Amount_roundtrip W (sk_Amount sk) \<and>
    length (sk_From sk) = w_AddressSize W \<and> length (sk_HyperFormulator sk) = w_AddressSize W \<longrightarrow>
      Staking_ReadFrom W sk0 (Staking_WriteTo W sk @ rest) = (sk, Inr rest)) \<and>
   (Base_roundtrip W (cf_Base cf) \<and> String_roundtrip W (cf_Name cf) \<and>
    length (cf_From cf) = w_AddressSize W \<and> length (cf_KeyHash cf) = w_PublicHashSize W \<longrightarrow>
      CreateFormulation_ReadFrom W cf0 (CreateFormulation_WriteTo W cf @ rest) = (cf, Inr rest)) \<and>
   (Base_roundtrip W (cf2_Base cf2) \<and> String_roundtrip W (cf2_Name cf2) \<and>
    length (cf2_From cf2) = w_AddressSize W \<and> length (cf2_KeyHash cf2) = w_PublicHashSize W \<longrightarrow>
      CreateFormulation2_ReadFrom W cf20 (CreateFormulation2_WriteTo W cf2 @ rest) = (cf2, Inr rest)) \<and>
   (Base_roundtrip W (sg_Base sg) \<and> length (sg_From sg) = w_AddressSize W \<and>
    (\<forall>a \<in> set (AlphaFormulators sg). length a = w_AddressSize W) \<and>
    length (AlphaFormulators sg) < 256 \<longrightarrow>
      CreateSigma_ReadFrom W sg0 (CreateSigma_WriteTo W sg @ rest) = (sg, Inr rest)) \<and>
   (Base_roundtrip W (sg_Base sg) \<and> length (sg_From sg) = w_AddressSize W \<and>
    256 \<le> length (AlphaFormulators sg) \<longrightarrow>
      fst (CreateSigma_ReadFrom W sg0 (CreateSigma_WriteTo W sg @ rest)) \<noteq> sg) \<and>
   (Base_roundtrip W (om_Base om) \<and> length (om_From om) = w_AddressSize W \<and>
    (\<forall>a \<in> set (SigmaFormulators om). length a = w_AddressSize W) \<and>
    length (SigmaFormulators om) < 256 \<longrightarrow>
      CreateOmega_ReadFrom W om0 (CreateOmega_WriteTo W om @ rest) = (om, Inr rest)) \<and>
   (Base_roundtrip W (om_Base om) \<and> length (om_From om) = w_AddressSize W \<and>
    256 \<le> length (SigmaFormulators om) \<longrightarrow>
      fst (CreateOmega_ReadFrom W om0 (CreateOmega_WriteTo W om @ rest)) \<noteq> om) \<and>
   (Base_roundtrip W (rvk_Base rvk) \<and> length (rvk_From rvk) = w_AddressSize W \<and>
    length (Heritor rvk) = w_AddressSize W \<longrightarrow>
      Revoke_ReadFrom W rvk0 (Revoke_WriteTo W rvk @ rest) = (rvk, Inr rest)) \<and>
   (Base_roundtrip W (sa_Base sa) \<and> length (sa_From sa) = w_AddressSize W \<and>
    length (sa_KeyHash sa) = w_PublicHashSize W \<longrightarrow>
      SingleAccount_ReadFrom W sa0 (SingleAccount_WriteTo W sa @ rest) = (sa, Inr rest)) \<and>
   (Base_roundtrip W (fm_Base fm) \<and> length (fm_PublicKey fm) = w_PublicKeySize W \<and>
    length (fm_From fm) = w_AddressSize W \<longrightarrow>
      Formulation_ReadFrom W fm0 (Formulation_WriteTo W fm @ rest) = (fm, Inr rest))"
proof (intro conjI impI)
  assume "length (rv_LastHash rv) = 32 \<and> length (rv_Formulator rv) = w_AddressSize W \<and>
    length (rv_FormulatorPublicHash rv) = w_PublicHashSize W"
  then show "RoundVote_ReadFrom W rv0 (RoundVote_WriteTo rv @ rest) = (rv, Inr rest)"
    by (intro RoundVote_roundtrip) simp_all
next
  assume "length (ack_Formulator ack) = w_AddressSize W \<and>
    length (ack_FormulatorPublicHash ack) = w_PublicHashSize W \<and>
    length (ack_PublicHash ack) = w_PublicHashSize W"
  then show "RoundVoteAck_ReadFrom W ack0 (RoundVoteAck_WriteTo ack @ rest) = (ack, Inr rest)"
    by (intro RoundVoteAck_roundtrip) simp_all
next
  assume "Header_roundtrip W (bv_Header bv) \<and> length (bv_GeneratorSignature bv) = w_SignatureSize W \<and>
    length (bv_ObserverSignature bv) = w_SignatureSize W"
  then show "BlockVote_ReadFrom W bv0 (BlockVote_WriteTo W bv @ rest) = (bv, Inr rest)"
    by (intro BlockVote_roundtrip) simp_all
next
  assume "Base_roundtrip W (us_Base us) \<and> Amount_roundtrip W (us_Amount us) \<and>
    length (us_From us) = w_AddressSize W \<and> length (us_HyperFormulator us) = w_AddressSize W"
  then show "Unstaking_ReadFrom W us0 (Unstaking_WriteTo W us @ rest) = (us, Inr rest)"
    by (intro Unstaking_roundtrip) simp_all
next
  assume "Base_roundtrip W (sk_Base sk) \<and> Amount_roundtrip W (sk_Amount sk) \<and>
    length (sk_From sk) = w_AddressSize W \<and> length (sk_HyperFormulator sk) = w_AddressSize W"
  then show "Staking_ReadFrom W sk0 (Staking_WriteTo W sk @ rest) = (sk, Inr rest)"
    by (intro Staking_roundtrip) simp_all
next
  assume "Base_roundtrip W (cf_Base cf) \<and> String_roundtrip W (cf_Name cf) \<and>
    length (cf_From cf) = w_AddressSize W \<and> length (cf_KeyHash cf) = w_PublicHashSize W"
  then show "CreateFormulation_ReadFrom W cf0 (CreateFormulation_WriteTo W cf @ rest) = (cf, Inr rest)"
    by (intro CreateFormulation_roundtrip) simp_all
next
  assume "Base_roundtrip W (cf2_Base cf2) \<and> String_roundtrip W (cf2_Name cf2) \<and>
    length (cf2_From cf2) = w_AddressSize W \<and> length (cf2_KeyHash cf2) = w_PublicHashSize W"
  then show "CreateFormulation2_ReadFrom W cf20 (CreateFormulation2_WriteTo W cf2 @ rest) = (cf2, Inr rest)"
    by (intro CreateFormulation2_roundtrip) simp_all
next
  assume "Base_roundtrip W (sg_Base sg) \<and> length (sg_From sg) = w_AddressSize W \<and>
    (\<forall>a \<in> set (AlphaFormulators sg). length a = w_AddressSize W) \<and>
    length (AlphaFormulators sg) < 256"
  then show "CreateSigma_ReadFrom W sg0 (CreateSigma_WriteTo W sg @ rest) = (sg, Inr rest)"
    by (intro CreateSigma_roundtrip) simp_all
next
  assume a: "Base_roundtrip W (sg_Base sg) \<and> length (sg_From sg) = w_AddressSize W \<and>
    256 \<le> length (AlphaFormulators sg)"
  then have "length (AlphaFormulators (fst (CreateSigma_ReadFrom W sg0 (CreateSigma_WriteTo W sg @ rest)))) < 256"
    by (intro CreateSigma_truncates) simp_all
  with a show "fst (CreateSigma_ReadFrom W sg0 (CreateSigma_WriteTo W sg @ rest)) \<noteq> sg"
    by auto
next
  assume "Base_roundtrip W (om_Base om) \<and> length (om_From om) = w_AddressSize W \<and>
    (\<forall>a \<in> set (SigmaFormulators om). length a = w_AddressSize W) \<and>
    length (SigmaFormulators om) < 256"
  then show "CreateOmega_ReadFrom W om0 (CreateOmega_WriteTo W om @ rest) = (om, Inr rest)"
    by (intro CreateOmega_roundtrip) simp_all
next
  assume a: "Base_roundtrip W (om_Base om) \<and> length (om_From om) = w_AddressSize W \<and>
    256 \<le> length (SigmaFormulators om)"
  then have "length (SigmaFormulators (fst (CreateOmega_ReadFrom W om0 (CreateOmega_WriteTo W om @ rest)))) < 256"
    by (intro CreateOmega_truncates) simp_all
  with a show "fst (CreateOmega_ReadFrom W om0 (CreateOmega_WriteTo W om @ rest)) \<noteq> om"
    by auto
next
  assume "Base_roundtrip W (rvk_Base rvk) \<and> length (rvk_From rvk) = w_AddressSize W \<and>
    length (Heritor rvk) = w_AddressSize W"
  then show "Revoke_ReadFrom W rvk0 (Revoke_WriteTo W rvk @ rest) = (rvk, Inr rest)"
    by (intro Revoke_roundtrip) simp_all
next
  assume "Base_roundtrip W (sa_Base sa) \<and> length (sa_From sa) = w_AddressSize W \<and>
    length (sa_KeyHash sa) = w_PublicHashSize W"
  then show "SingleAccount_ReadFrom W sa0 (SingleAccount_WriteTo W sa @ rest) = (sa, Inr rest)"
    by (intro SingleAccount_roundtrip) simp_all
next
  assume "Base_roundtrip W (fm_Base fm) \<and> length (fm_PublicKey fm) = w_PublicKeySize W \<and>
    length (fm_From fm) = w_AddressSize W"
  then show "Formulation_ReadFrom W fm0 (Formulation_WriteTo W fm @ rest) = (fm, Inr rest)"
    by (intro Formulation_roundtrip) simp_all
qed

theorem wire_structures_roundtrip_witness:
  "RoundVote_ReadFrom example_WireExt new_RoundVote (RoundVote_WriteTo example_RoundVote)
     = (example_RoundVote, Inr []) \<and>
   BlockVote_ReadFrom example_WireExt new_BlockVote (BlockVote_WriteTo example_WireExt example_BlockVote)
     = (example_BlockVote, Inr []) \<and>
   Unstaking_ReadFrom example_WireExt new_Unstaking (Unstaking_WriteTo example_WireExt example_Unstaking)
     = (example_Unstaking, Inr []) \<and>
   CreateFormulation_ReadFrom example_WireExt new_CreateFormulation
       (CreateFormulation_WriteTo example_WireExt example_CreateFormulation)
     = (example_CreateFormulation, Inr []) \<and>
   CreateSigma_ReadFrom example_WireExt new_CreateSigma
       (CreateSigma_WriteTo example_WireExt (example_CreateSigma 2))
     = (example_CreateSigma 2, Inr [])"
proof -
  note t = wire_structures_roundtrip
             [where W = example_WireExt and rest = "[]"
                and rv = example_RoundVote and ?rv0.0 = new_RoundVote
                and bv = example_BlockVote and ?bv0.0 = new_BlockVote
                and us = example_Unstaking and ?us0.0 = new_Unstaking
                and cf = example_CreateFormulation and ?cf0.0 = new_CreateFormulation
                and sg = "example_CreateSigma 2" and ?sg0.0 = new_CreateSigma]
  have rv: "length (rv_LastHash example_RoundVote) = 32 \<and>
            length (rv_Formulator example_RoundVote) = w_AddressSize example_WireExt \<and>
            length (rv_FormulatorPublicHash example_RoundVote) = w_PublicHashSize example_WireExt"
    by (simp add: example_RoundVote_def example_WireExt_def)
  have bv: "Header_roundtrip example_WireExt (bv_Header example_BlockVote) \<and>
            length (bv_GeneratorSignature example_BlockVote) = w_SignatureSize example_WireExt \<and>
            length (bv_ObserverSignature example_BlockVote) = w_SignatureSize example_WireExt"
    by (simp add: example_Header_roundtrip) (simp add: example_BlockVote_def example_WireExt_def)
  have us: "Base_roundtrip example_WireExt (us_Base example_Unstaking) \<and>
            Amount_roundtrip example_WireExt (us_Amount example_Unstaking) \<and>
            length (us_From example_Unstaking) = w_AddressSize example_WireExt \<and>
            length (us_HyperFormulator example_Unstaking) = w_AddressSize example_WireExt"
    by (simp add: example_Base_roundtrip example_Amount_roundtrip)
       (simp add: example_Unstaking_def example_WireExt_def)
  have cf: "Base_roundtrip example_WireExt (cf_Base example_CreateFormulation) \<and>
            String_roundtrip example_WireExt (cf_Name example_CreateFormulation) \<and>
            length (cf_From example_CreateFormulation) = w_AddressSize example_WireExt \<and>
            length (cf_KeyHash example_CreateFormulation) = w_PublicHashSize example_WireExt"
    by (simp add: example_Base_roundtrip example_String_roundtrip example_CreateFormulation_def)
       (simp add: example_WireExt_def)
  have sg: "Base_roundtrip example_WireExt (sg_Base (example_CreateSigma 2)) \<and>
            length (sg_From (example_CreateSigma 2)) = w_AddressSize example_WireExt \<and>
            (\<forall>a \<in> set (AlphaFormulators (example_CreateSigma 2)). length a = w_AddressSize example_WireExt) \<and>
            length (AlphaFormulators (example_CreateSigma 2)) < 256"
    by (simp add: example_Base_roundtrip)
       (simp add: example_CreateSigma_def example_WireExt_def)
  from t rv bv us cf sg show ?thesis by simp
qed

text \<open>
  C8 as stated fails.  A \<open>CreateSigma\<close> with 256 alpha formulators writes the count
  \<open>uint8(256) = 0\<close>; \<open>ReadFrom\<close> then reads no address, returns without an error, and
  leaves the 256 addresses on the reader: the transaction read back has an empty list.
\<close>

theorem CreateSigma_256_addresses_counterexample:
  "length (AlphaFormulators (example_CreateSigma 256)) = 256 \<and>
   CreateSigma_ReadFrom example_WireExt new_CreateSigma
       (CreateSigma_WriteTo example_WireExt (example_CreateSigma 256))
     = ((example_CreateSigma 256)\<lparr>AlphaFormulators := []\<rparr>, Inr (replicate 256 1)) \<and>
   (example_CreateSigma 256)\<lparr>AlphaFormulators := []\<rparr> \<noteq> example_CreateSigma 256"
proof -
  have c: "concat (replicate 256 [1::byte]) = replicate 256 1"
    by (simp add: concat_replicate_trivial flip: map_replicate_const)
  have l: "length (AlphaFormulators (example_CreateSigma 256)) = 256"
    by (simp add: example_CreateSigma_def)
  have ne: "(example_CreateSigma 256)\<lparr>AlphaFormulators := []\<rparr> \<noteq> example_CreateSigma 256"
  proof
    assume "(example_CreateSigma 256)\<lparr>AlphaFormulators := []\<rparr> = example_CreateSigma 256"
    then have "AlphaFormulators ((example_CreateSigma 256)\<lparr>AlphaFormulators := []\<rparr>)
                 = AlphaFormulators (example_CreateSigma 256)" by simp
    with l show False by simp
  qed
  have r: "CreateSigma_ReadFrom example_WireExt new_CreateSigma
       (CreateSigma_WriteTo example_WireExt (example_CreateSigma 256))
     = ((example_CreateSigma 256)\<lparr>AlphaFormulators := []\<rparr>, Inr (replicate 256 1))"
    unfolding CreateSigma_WriteTo_def l
    by (simp add: CreateSigma_ReadFrom_def example_WireExt_def example_read_byte_def
        ReadUint64_PutUint64 read_n_def ReadUint8_def WriteUint8_def example_CreateSigma_def
        new_CreateSigma_def c)
  from l r ne show ?thesis by blast
qed
end
